theory Spec2Isabelle
  imports Main "HOL-Library.Word"
begin

unbundle bit_operations_syntax

section \<open>Data model of ecc25519.h\<close>

type_synonym byte = "8 word"
type_synonym word32 = "32 word"

abbreviation ECC25519_KEYSIZE :: nat where
  "ECC25519_KEYSIZE \<equiv> 32"

text \<open>The struct \<^verbatim>\<open>ecc25519_set_type\<close>: the size of the curve in octets and its name.\<close>

record ecc25519_set_type =
  size_dp :: int
  name_dp :: string

text \<open>The struct \<^verbatim>\<open>ECPoint\<close>: \<^verbatim>\<open>byte point[ECC25519_KEYSIZE]\<close>. The array is a list; the C type
  fixes its length to 32, which the theorems state as \<open>key_wf\<close>.\<close>

record ECPoint =
  point :: "byte list"

abbreviation montgomery_x_le :: byte where
  "montgomery_x_le \<equiv> 0x41"

text \<open>The struct \<^verbatim>\<open>ecc25519_key\<close>. The pointer \<^verbatim>\<open>dp\<close> is an option: \<open>None\<close> is NULL.\<close>

record ecc25519_key =
  key_type :: int
  key_idx :: int
  key_dp :: "ecc25519_set_type option"
  key_f :: byte
  key_p :: ECPoint
  key_k :: ECPoint

definition key_wf :: "ecc25519_key \<Rightarrow> bool" where
  "key_wf key \<longleftrightarrow>
     length (point (key_p key)) = ECC25519_KEYSIZE \<and> length (point (key_k key)) = ECC25519_KEYSIZE"

text \<open>The table \<^verbatim>\<open>ecc25519_sets\<close> of ecc25519.c.\<close>

definition ecc25519_sets :: "ecc25519_set_type list" where
  "ecc25519_sets = [\<lparr>size_dp = 32, name_dp = ''CURVE25519''\<rparr>]"

section \<open>Error codes and memory faults\<close>

text \<open>Modelled from the spec: the header error-crypt.h, which declares the error codes, is not
  among the sources. The spec names the kinds only (InvalidArgument for \<^verbatim>\<open>BAD_FUNC_ARG\<close> and
  \<^verbatim>\<open>ECC_BAD_ARG_E\<close>, BufferTooSmall for \<^verbatim>\<open>BUFFER_E\<close>); the numbers are those of the library's error
  enumeration, and no theorem below depends on more than that they differ from 0 and from
  each other.\<close>

definition BUFFER_E :: int where
  "BUFFER_E = - 132"

definition ECC_BAD_ARG_E :: int where
  "ECC_BAD_ARG_E = - 170"

definition BAD_FUNC_ARG :: int where
  "BAD_FUNC_ARG = - 173"

definition InvalidArgument :: "int \<Rightarrow> bool" where
  "InvalidArgument r \<longleftrightarrow> r = BAD_FUNC_ARG \<or> r = ECC_BAD_ARG_E"

definition BufferTooSmall :: "int \<Rightarrow> bool" where
  "BufferTooSmall r \<longleftrightarrow> r = BUFFER_E"

text \<open>What C leaves undefined is a value of the model: a dereference of NULL, and an access
  of \<open>r\<close> bytes past the end of the buffer read and \<open>w\<close> bytes past the end of the buffer
  written.\<close>

datatype fault = NullDeref | OutOfRange nat nat

text \<open>\<^verbatim>\<open>XMEMSET(dst + doff, v, n)\<close> and \<^verbatim>\<open>XMEMCPY(dst + doff, src + soff, n)\<close> on buffers of known
  extent.\<close>

definition XMEMSET :: "byte list \<Rightarrow> nat \<Rightarrow> byte \<Rightarrow> nat \<Rightarrow> fault + byte list" where
  "XMEMSET dst doff v n =
     (if doff + n \<le> length dst
      then Inr (take doff dst @ replicate n v @ drop (doff + n) dst)
      else Inl (OutOfRange 0 (doff + n - length dst)))"

definition XMEMCPY :: "byte list \<Rightarrow> nat \<Rightarrow> byte list \<Rightarrow> nat \<Rightarrow> nat \<Rightarrow> fault + byte list" where
  "XMEMCPY dst doff src soff n =
     (if soff + n \<le> length src \<and> doff + n \<le> length dst
      then Inr (take doff dst @ take n (drop soff src) @ drop (doff + n) dst)
      else Inl (OutOfRange (soff + n - length src) (doff + n - length dst)))"

section \<open>Field arithmetic\<close>

text \<open>Modelled from the spec: the header ecc25519_fe.h (the type \<^verbatim>\<open>fe\<close> and the functions
  \<^verbatim>\<open>fe_*\<close>) is not among the sources. The spec gives the contract of each operation on
  integers modulo \<open>2^255 - 19\<close>, and leaves the limbs open; a field element is the integer it
  stands for.\<close>

type_synonym fe = int

definition p25519 :: int where
  "p25519 = 2 ^ 255 - 19"

definition fe_0 :: fe where
  "fe_0 = 0"

definition fe_1 :: fe where
  "fe_1 = 1"

definition fe_copy :: "fe \<Rightarrow> fe" where
  "fe_copy a = a"

definition fe_add :: "fe \<Rightarrow> fe \<Rightarrow> fe" where
  "fe_add a b = (a + b) mod p25519"

definition fe_sub :: "fe \<Rightarrow> fe \<Rightarrow> fe" where
  "fe_sub a b = (a - b) mod p25519"

definition fe_mul :: "fe \<Rightarrow> fe \<Rightarrow> fe" where
  "fe_mul a b = (a * b) mod p25519"

definition fe_sq :: "fe \<Rightarrow> fe" where
  "fe_sq a = (a * a) mod p25519"

definition fe_mul121666 :: "fe \<Rightarrow> fe" where
  "fe_mul121666 a = (121666 * a) mod p25519"

text \<open>Exponentiation by squaring, reduced at every step.\<close>

fun fe_pow :: "fe \<Rightarrow> nat \<Rightarrow> fe" where
  "fe_pow a n =
     (if n = 0 then 1 mod p25519
      else if n mod 2 = 0 then fe_sq (fe_pow a (n div 2))
      else fe_mul a (fe_sq (fe_pow a (n div 2))))"

declare fe_pow.simps [simp del]

text \<open>\<open>invert(a)\<close>: exponentiation by \<open>p - 2\<close>; \<open>invert(0) = 0\<close> falls out.\<close>

definition fe_invert :: "fe \<Rightarrow> fe" where
  "fe_invert z = fe_pow z (nat (p25519 - 2))"

text \<open>\<open>conditionalSwap(a, b, bit)\<close>.\<close>

definition fe_cswap :: "fe \<Rightarrow> fe \<Rightarrow> word32 \<Rightarrow> fe \<times> fe" where
  "fe_cswap a b sw = (if sw = 1 then (b, a) else (a, b))"

text \<open>\<open>fromBytes\<close>: little-endian decode of 32 bytes, with bit 255 masked; \<open>toBytes\<close>: the
  little-endian encoding of the representative in \<open>[0, 2^255 - 19)\<close>.\<close>

fun le_decode :: "byte list \<Rightarrow> int" where
  "le_decode [] = 0"
| "le_decode (b # bs) = uint b + 256 * le_decode bs"

fun le_encode :: "nat \<Rightarrow> int \<Rightarrow> byte list" where
  "le_encode 0 v = []"
| "le_encode (Suc n) v = word_of_int (v mod 256) # le_encode n (v div 256)"

definition fe_frombytes :: "byte list \<Rightarrow> fe" where
  "fe_frombytes s = le_decode (take 32 s) mod 2 ^ 255"

definition fe_tobytes :: "fe \<Rightarrow> byte list" where
  "fe_tobytes h = le_encode 32 (h mod p25519)"

section \<open>The scalar multiplier of ecc25519.c\<close>

text \<open>Lines 60 to 63 of \<^verbatim>\<open>curve25519\<close>, and lines 113 to 115 of \<^verbatim>\<open>ecc25519_make_key\<close>: the three
  assignments that clamp a 32-byte scalar in place.\<close>

definition clamp :: "byte list \<Rightarrow> byte list" where
  "clamp e0 =
     (let e1 = e0[0 := e0 ! 0 AND 248];
          e2 = e1[31 := e1 ! 31 AND 127];
          e3 = e2[31 := e2 ! 31 OR 64]
      in e3)"

text \<open>The loop \<^verbatim>\<open>for (i = 0; i < n; ++i) dst[i] = src[i]\<close>.\<close>

definition copy_loop :: "nat \<Rightarrow> byte list \<Rightarrow> byte list \<Rightarrow> byte list" where
  "copy_loop n dst src = foldl (\<lambda>d i. d[i := src ! i]) dst [0..<n]"

record ladder_state =
  x2 :: fe
  z2 :: fe
  x3 :: fe
  z3 :: fe
  swap :: word32

text \<open>Modelled from the spec: the header ecc25519_montgomery.h, included as the body of the
  ladder's loop, is not among the sources. The spec calls it the standard
  differential-addition-and-doubling step, a fixed sequence of field additions,
  subtractions, multiplications and squarings on \<open>(x2, z2, x3, z3)\<close> with the constant
  121666; the temporaries \<open>tmp0\<close> and \<open>tmp1\<close> are those \<^verbatim>\<open>curve25519\<close> declares.\<close>

definition montgomery :: "fe \<Rightarrow> ladder_state \<Rightarrow> ladder_state" where
  "montgomery x1 s =
     (let tmp0 = fe_sub (x3 s) (z3 s);
          tmp1 = fe_sub (x2 s) (z2 s);
          x2a = fe_add (x2 s) (z2 s);
          z2a = fe_add (x3 s) (z3 s);
          z3a = fe_mul tmp0 x2a;
          z2b = fe_mul z2a tmp1;
          tmp0a = fe_sq tmp1;
          tmp1a = fe_sq x2a;
          x3a = fe_add z3a z2b;
          z2c = fe_sub z3a z2b;
          x2b = fe_mul tmp1a tmp0a;
          tmp1b = fe_sub tmp1a tmp0a;
          z2d = fe_sq z2c;
          z3b = fe_mul121666 tmp1b;
          x3b = fe_sq x3a;
          tmp0b = fe_add tmp0a z3b;
          z3c = fe_mul x1 z2d;
          z2e = fe_mul tmp1b tmp0b
      in s\<lparr>x2 := x2b, z2 := z2e, x3 := x3b, z3 := z3c\<rparr>)"

text \<open>One round of the loop of \<^verbatim>\<open>curve25519\<close> at bit position \<open>pos\<close>.\<close>

definition ladder_round :: "byte list \<Rightarrow> fe \<Rightarrow> nat \<Rightarrow> ladder_state \<Rightarrow> ladder_state" where
  "ladder_round e x1 pos s =
     (let b = (drop_bit (pos mod 8) (ucast (e ! (pos div 8)) :: word32)) AND 1;
          sw = swap s XOR b;
          (x2a, x3a) = fe_cswap (x2 s) (x3 s) sw;
          (z2a, z3a) = fe_cswap (z2 s) (z3 s) sw
      in montgomery x1 (s\<lparr>x2 := x2a, z2 := z2a, x3 := x3a, z3 := z3a, swap := b\<rparr>))"

text \<open>\<^verbatim>\<open>for (pos = 254; pos >= 0; --pos)\<close>: \<open>ladder_loop e x1 n\<close> runs the rounds at positions
  \<open>n - 1\<close> down to 0.\<close>

fun ladder_loop :: "byte list \<Rightarrow> fe \<Rightarrow> nat \<Rightarrow> ladder_state \<Rightarrow> ladder_state" where
  "ladder_loop e x1 0 s = s"
| "ladder_loop e x1 (Suc pos) s = ladder_loop e x1 pos (ladder_round e x1 pos s)"

text \<open>Lines 65 to 88 of \<^verbatim>\<open>curve25519\<close>, on the working buffer \<open>e\<close> and the point \<open>p\<close>: the value
  returned (always 0) and the 32 bytes written to \<open>q\<close>.\<close>

definition curve25519_ladder :: "byte list \<Rightarrow> byte list \<Rightarrow> int \<times> byte list" where
  "curve25519_ladder e p =
     (let x1 = fe_frombytes p;
          s0 = \<lparr>x2 = fe_1, z2 = fe_0, x3 = fe_copy x1, z3 = fe_1, swap = 0\<rparr>;
          s1 = ladder_loop e x1 255 s0;
          (x2a, x3a) = fe_cswap (x2 s1) (x3 s1) (swap s1);
          (z2a, z3a) = fe_cswap (z2 s1) (z3 s1) (swap s1);
          z2b = fe_invert z2a;
          x2b = fe_mul x2a z2b
      in (0, fe_tobytes x2b))"

text \<open>\<^verbatim>\<open>curve25519(q, n, p)\<close>: lines 60 to 63 copy \<open>n\<close> into the local array \<open>e\<close> and clamp it.\<close>

definition curve25519 :: "byte list \<Rightarrow> byte list \<Rightarrow> int \<times> byte list" where
  "curve25519 n p = curve25519_ladder (clamp (copy_loop 32 (replicate 32 0) n)) p"

section \<open>The key manager of ecc25519.c\<close>

text \<open>\<^verbatim>\<open>ecc25519_size\<close>: 0 for a NULL key; otherwise \<^verbatim>\<open>key->dp->size\<close>, with no check of \<^verbatim>\<open>dp\<close>.\<close>

definition ecc25519_size :: "ecc25519_key option \<Rightarrow> fault + int" where
  "ecc25519_size key =
     (case key of
        None \<Rightarrow> Inr 0
      | Some ky \<Rightarrow> (case key_dp ky of None \<Rightarrow> Inl NullDeref | Some d \<Rightarrow> Inr (size_dp d)))"

text \<open>\<^verbatim>\<open>ecc25519_free\<close>: returns nothing; the key after the call.\<close>

definition ecc25519_free :: "ecc25519_key option \<Rightarrow> ecc25519_key option" where
  "ecc25519_free key =
     (case key of
        None \<Rightarrow> None
      | Some ky \<Rightarrow>
          Some (ky\<lparr>key_dp := None,
                   key_p := \<lparr>point = replicate ECC25519_KEYSIZE 0\<rparr>,
                   key_k := \<lparr>point = replicate ECC25519_KEYSIZE 0\<rparr>\<rparr>))"

text \<open>\<^verbatim>\<open>ecc25519_init\<close>: the value returned and the key after the call.\<close>

definition ecc25519_init :: "ecc25519_key option \<Rightarrow> fault + int \<times> ecc25519_key option" where
  "ecc25519_init key =
     (case key of
        None \<Rightarrow> Inr (ECC_BAD_ARG_E, None)
      | Some ky \<Rightarrow>
          (let ky1 = ky\<lparr>key_f := montgomery_x_le, key_dp := Some (ecc25519_sets ! 0)\<rparr>;
               keySz = (word_of_int (size_dp (ecc25519_sets ! 0)) :: word32)
           in case XMEMSET (point (key_k ky1)) 0 0 (unat keySz) of
                Inl e \<Rightarrow> Inl e
              | Inr kp \<Rightarrow>
                  (case XMEMSET (point (key_p ky1)) 0 0 (unat keySz) of
                     Inl e \<Rightarrow> Inl e
                   | Inr pp \<Rightarrow>
                       Inr (0, Some (ky1\<lparr>key_k := \<lparr>point = kp\<rparr>, key_p := \<lparr>point = pp\<rparr>\<rparr>)))))"

text \<open>The random source is outside the sources: \<open>gen rng n\<close> stands for
  \<^verbatim>\<open>RNG_GenerateBlock(rng, buf, n)\<close> and gives the value returned, the block written to the
  buffer and the generator after the call.\<close>

type_synonym 'r RNG_GenerateBlock = "'r \<Rightarrow> nat \<Rightarrow> int \<times> byte list \<times> 'r"

text \<open>The loop of lines 122 to 125 of \<^verbatim>\<open>ecc25519_make_key\<close>, on the pair of arrays
  \<^verbatim>\<open>key->p.point\<close> and \<^verbatim>\<open>key->k.point\<close>.\<close>

definition store_loop ::
  "nat \<Rightarrow> byte list \<Rightarrow> byte list \<Rightarrow> byte list \<times> byte list \<Rightarrow> byte list \<times> byte list" where
  "store_loop keysize p n pk =
     foldl (\<lambda>(pp, kp) i. (pp[keysize - i - 1 := p ! i], kp[keysize - i - 1 := n ! i]))
       pk [0..<keysize]"

text \<open>\<^verbatim>\<open>ecc25519_make_key\<close>: the value returned, the key and the generator after the call.\<close>

definition ecc25519_make_key ::
  "'r RNG_GenerateBlock \<Rightarrow> 'r option \<Rightarrow> int \<Rightarrow> ecc25519_key option
     \<Rightarrow> int \<times> ecc25519_key option \<times> 'r option" where
  "ecc25519_make_key gen rng keysize key =
     (case (key, rng) of
        (Some ky, Some r) \<Rightarrow>
          if keysize \<noteq> int ECC25519_KEYSIZE then (ECC_BAD_ARG_E, key, rng)
          else
            (let basepoint = (9 :: byte) # replicate (ECC25519_KEYSIZE - 1) 0;
                 (err, n, r') = gen r (nat keysize)
             in if err \<noteq> 0 then (err, key, Some r')
                else
                  (let kp = clamp (copy_loop (nat keysize) (point (key_k ky)) n);
                       (err1, p) = curve25519 kp basepoint;
                       n1 = copy_loop (nat keysize) n kp;
                       (pp, kp1) = store_loop (nat keysize) p n1 (point (key_p ky), kp)
                   in (err1, Some (ky\<lparr>key_p := \<lparr>point = pp\<rparr>, key_k := \<lparr>point = kp1\<rparr>\<rparr>), Some r')))
      | _ \<Rightarrow> (ECC_BAD_ARG_E, key, rng))"

text \<open>The loop of lines 159 to 162 of \<^verbatim>\<open>ecc25519_shared_secret\<close>, on the pair of local arrays
  \<open>p\<close> and \<open>k\<close>.\<close>

definition load_loop ::
  "byte list \<Rightarrow> byte list \<Rightarrow> byte list \<times> byte list \<Rightarrow> byte list \<times> byte list" where
  "load_loop pub priv pk =
     foldl (\<lambda>(p, k) i. (p[i := pub ! (ECC25519_KEYSIZE - i - 1)],
                         k[i := priv ! (ECC25519_KEYSIZE - i - 1)]))
       pk [0..<ECC25519_KEYSIZE]"

text \<open>\<^verbatim>\<open>ecc25519_shared_secret\<close>: the value returned, and the buffer \<open>out\<close> and the length
  \<open>*outlen\<close> after the call. The two keys are read only.\<close>

definition ecc25519_shared_secret ::
  "ecc25519_key option \<Rightarrow> ecc25519_key option \<Rightarrow> byte list option \<Rightarrow> word32 option
     \<Rightarrow> fault + int \<times> byte list option \<times> word32 option" where
  "ecc25519_shared_secret private_key public_key out outlen =
     (case (private_key, public_key, out, outlen) of
        (Some priv, Some pub, Some ob, Some ol) \<Rightarrow>
          if point (key_p pub) ! 0 > 0x7F then Inr (ECC_BAD_ARG_E, out, outlen)
          else if ol < word_of_nat ECC25519_KEYSIZE then Inr (BUFFER_E, out, outlen)
          else
            (case XMEMSET ob 0 0 ECC25519_KEYSIZE of
               Inl e \<Rightarrow> Inl e
             | Inr ob1 \<Rightarrow>
                 (let (p, k) = load_loop (point (key_p pub)) (point (key_k priv))
                                 (replicate ECC25519_KEYSIZE 0, replicate ECC25519_KEYSIZE 0);
                      (err, q) = curve25519 k p
                  in Inr (err, Some (q @ drop ECC25519_KEYSIZE ob1),
                          Some (word_of_nat ECC25519_KEYSIZE))))
      | _ \<Rightarrow> Inr (BAD_FUNC_ARG, out, outlen))"

text \<open>\<^verbatim>\<open>ecc25519_export_public\<close>: the value returned, and \<open>out\<close> and \<open>*outLen\<close> after the call.
  \<^verbatim>\<open>outLen\<close> is written without a check for NULL.\<close>

definition ecc25519_export_public ::
  "ecc25519_key option \<Rightarrow> byte list option \<Rightarrow> word32 option
     \<Rightarrow> fault + int \<times> byte list option \<times> word32 option" where
  "ecc25519_export_public key out outLen =
     (case (key, out) of
        (Some ky, Some ob) \<Rightarrow>
          (case ecc25519_size key of
             Inl e \<Rightarrow> Inl e
           | Inr sz \<Rightarrow>
               (let keySz = (word_of_int sz :: word32);
                    offset = (2 :: byte)
                in case XMEMCPY ob (unat offset) (point (key_p ky)) 0 (unat keySz) of
                     Inl e \<Rightarrow> Inl e
                   | Inr ob1 \<Rightarrow>
                       (case outLen of
                          None \<Rightarrow> Inl NullDeref
                        | Some _ \<Rightarrow>
                            (let ol = keySz + ucast offset;
                                 ob2 = ob1[0 := ucast ol];
                                 ob3 = ob2[1 := key_f ky]
                             in Inr (0, Some ob3, Some ol)))))
      | _ \<Rightarrow> Inr (BAD_FUNC_ARG, out, outLen))"

text \<open>\<^verbatim>\<open>ecc25519_import_public\<close>: the value returned and the key after the call. Neither \<^verbatim>\<open>in\<close>
  nor \<^verbatim>\<open>key\<close> is checked for NULL; \<^verbatim>\<open>in[1]\<close> is read only when the length matches; the copy
  takes \<^verbatim>\<open>inLen\<close> bytes.\<close>

definition ecc25519_import_public ::
  "byte list option \<Rightarrow> word32 \<Rightarrow> ecc25519_key option \<Rightarrow> fault + int \<times> ecc25519_key option" where
  "ecc25519_import_public inp inLen key =
     (case ecc25519_size key of
        Inl e \<Rightarrow> Inl e
      | Inr sz \<Rightarrow>
          (let keySz = (word_of_int sz :: word32);
               offset = (2 :: byte)
           in if inLen \<noteq> keySz + ucast offset then Inr (ECC_BAD_ARG_E, key)
              else
                (case inp of
                   None \<Rightarrow> Inl NullDeref
                 | Some ib \<Rightarrow>
                     if \<not> 1 < length ib then Inl (OutOfRange (2 - length ib) 0)
                     else if ib ! 1 \<noteq> montgomery_x_le then Inr (ECC_BAD_ARG_E, key)
                     else
                       (case key of
                          None \<Rightarrow> Inl NullDeref
                        | Some ky \<Rightarrow>
                            (case XMEMCPY (point (key_p ky)) 0 ib (unat offset) (unat inLen) of
                               Inl e \<Rightarrow> Inl e
                             | Inr pp \<Rightarrow>
                                 Inr (0, Some (ky\<lparr>key_p := \<lparr>point = pp\<rparr>,
                                                  key_dp := Some (ecc25519_sets ! 0)\<rparr>)))))))"

text \<open>\<^verbatim>\<open>ecc25519_export_private_raw\<close>: the value returned, and \<open>out\<close> and \<open>*outLen\<close> after the
  call.\<close>

definition ecc25519_export_private_raw ::
  "ecc25519_key option \<Rightarrow> byte list option \<Rightarrow> word32 option
     \<Rightarrow> fault + int \<times> byte list option \<times> word32 option" where
  "ecc25519_export_private_raw key out outLen =
     (case (key, out, outLen) of
        (Some ky, Some ob, Some ol) \<Rightarrow>
          (case ecc25519_size key of
             Inl e \<Rightarrow> Inl e
           | Inr sz \<Rightarrow>
               (let keySz = (word_of_int sz :: word32)
                in if ol < keySz then Inr (BUFFER_E, out, Some keySz)
                   else
                     (case XMEMSET ob 0 0 (unat keySz) of
                        Inl e \<Rightarrow> Inl e
                      | Inr ob1 \<Rightarrow>
                          (case XMEMCPY ob1 0 (point (key_k ky)) 0 (unat keySz) of
                             Inl e \<Rightarrow> Inl e
                           | Inr ob2 \<Rightarrow> Inr (0, Some ob2, Some keySz)))))
      | _ \<Rightarrow> Inr (ECC_BAD_ARG_E, out, outLen))"

text \<open>\<^verbatim>\<open>ecc25519_import_private_raw\<close>: the value returned and the key after the call.\<close>

definition ecc25519_import_private_raw ::
  "byte list option \<Rightarrow> word32 \<Rightarrow> byte list option \<Rightarrow> word32 \<Rightarrow> ecc25519_key option
     \<Rightarrow> fault + int \<times> ecc25519_key option" where
  "ecc25519_import_private_raw priv privSz pub pubSz key =
     (case ecc25519_size key of
        Inl e \<Rightarrow> Inl e
      | Inr sz \<Rightarrow>
          (let keySz = (word_of_int sz :: word32)
           in if privSz \<noteq> keySz \<or> pubSz \<noteq> keySz then Inr (ECC_BAD_ARG_E, key)
              else
                (case (key, priv, pub) of
                   (Some ky, Some pv, Some pb) \<Rightarrow>
                     (case XMEMCPY (point (key_k ky)) 0 pv 0 (unat privSz) of
                        Inl e \<Rightarrow> Inl e
                      | Inr kp \<Rightarrow>
                          (case XMEMCPY (point (key_p ky)) 0 pb 0 (unat pubSz) of
                             Inl e \<Rightarrow> Inl e
                           | Inr pp \<Rightarrow>
                               Inr (0, Some (ky\<lparr>key_k := \<lparr>point = kp\<rparr>, key_p := \<lparr>point = pp\<rparr>\<rparr>))))
                 | _ \<Rightarrow> Inl NullDeref)))"

text \<open>A key as \<^verbatim>\<open>ecc25519_init\<close> leaves it (format tag and domain parameters set, both buffers
  zero), for the examples below.\<close>

definition zero_key :: ecc25519_key where
  "zero_key =
     \<lparr>key_type = 0, key_idx = 0, key_dp = Some (ecc25519_sets ! 0), key_f = montgomery_x_le,
      key_p = \<lparr>point = replicate 32 0\<rparr>, key_k = \<lparr>point = replicate 32 0\<rparr>\<rparr>"

section \<open>Auxiliary facts\<close>

lemma XMEMSET_ok: "doff + n \<le> length dst \<Longrightarrow>
  XMEMSET dst doff v n = Inr (take doff dst @ replicate n v @ drop (doff + n) dst)"
  by (simp add: XMEMSET_def)

lemma copy_loop_eq:
  "n \<le> length dst \<Longrightarrow> n \<le> length src \<Longrightarrow> copy_loop n dst src = take n src @ drop n dst"
proof (induction n)
  case 0
  then show ?case by (simp add: copy_loop_def)
next
  case (Suc n)
  then have IH: "copy_loop n dst src = take n src @ drop n dst"
    by simp
  have "copy_loop (Suc n) dst src = (copy_loop n dst src)[n := src ! n]"
    by (simp add: copy_loop_def)
  also have "\<dots> = take (Suc n) src @ drop (Suc n) dst"
    using Suc.prems unfolding IH
    by (intro nth_equalityI) (auto simp: nth_append nth_list_update less_Suc_eq)
  finally show ?case .
qed

lemma copy_loop_full:
  "length dst = n \<Longrightarrow> length src = n \<Longrightarrow> copy_loop n dst src = src"
  by (simp add: copy_loop_eq)

lemma rev_loop_eq:
  "m \<le> n \<Longrightarrow> length a = n \<Longrightarrow> n \<le> length src \<Longrightarrow>
   foldl (\<lambda>d i. d[n - i - 1 := src ! i]) a [0..<m] = take (n - m) a @ rev (take m src)"
proof (induction m)
  case 0
  then show ?case by simp
next
  case (Suc m)
  then have IH: "foldl (\<lambda>d i. d[n - i - 1 := src ! i]) a [0..<m] = take (n - m) a @ rev (take m src)"
    by simp
  have "foldl (\<lambda>d i. d[n - i - 1 := src ! i]) a [0..<Suc m]
      = (take (n - m) a @ rev (take m src))[n - m - 1 := src ! m]"
    using IH by simp
  also have "\<dots> = take (n - Suc m) a @ rev (take (Suc m) src)"
    using Suc.prems
    by (intro nth_equalityI) (auto simp: nth_append nth_list_update rev_nth take_Suc_conv_app_nth)
  finally show ?case .
qed

lemma foldl_pair_split:
  "foldl (\<lambda>(a, b) i. (f a i, g b i)) (a0, b0) xs = (foldl f a0 xs, foldl g b0 xs)"
  by (induction xs arbitrary: a0 b0) auto

lemma store_loop_eq:
  assumes "length pp = n" "length kp = n" "length p = n" "length nn = n"
  shows "store_loop n p nn (pp, kp) = (rev p, rev nn)"
  using assms rev_loop_eq [of n n pp p] rev_loop_eq [of n n kp nn]
  by (simp add: store_loop_def foldl_pair_split)

lemma load_loop_single:
  "m \<le> n \<Longrightarrow> length a = n \<Longrightarrow> length src = n \<Longrightarrow>
   foldl (\<lambda>d i. d[i := src ! (n - i - 1)]) a [0..<m] = take m (rev src) @ drop m a"
proof (induction m)
  case 0
  then show ?case by simp
next
  case (Suc m)
  then have IH: "foldl (\<lambda>d i. d[i := src ! (n - i - 1)]) a [0..<m] = take m (rev src) @ drop m a"
    by simp
  have "foldl (\<lambda>d i. d[i := src ! (n - i - 1)]) a [0..<Suc m]
      = (take m (rev src) @ drop m a)[m := src ! (n - m - 1)]"
    using IH by simp
  also have "\<dots> = take (Suc m) (rev src) @ drop (Suc m) a"
    using Suc.prems
    by (intro nth_equalityI) (auto simp: nth_append nth_list_update rev_nth less_Suc_eq)
  finally show ?case .
qed

lemma load_loop_eq:
  assumes "length pub = 32" "length priv = 32" "length p0 = 32" "length k0 = 32"
  shows "load_loop pub priv (p0, k0) = (rev pub, rev priv)"
  using assms load_loop_single [of 32 32 p0 pub] load_loop_single [of 32 32 k0 priv]
  by (simp add: load_loop_def foldl_pair_split)

lemma byte_bit7: "bit (w :: byte) 7 \<longleftrightarrow> 0x7F < w"
proof -
  have "bit w 7 \<longleftrightarrow> bit (unat w) 7"
    by (simp add: bit_unsigned_iff)
  also have "\<dots> \<longleftrightarrow> odd (unat w div 128)"
    by (simp add: bit_iff_odd)
  also have "\<dots> \<longleftrightarrow> 127 < unat w"
  proof (cases "unat w < 128")
    case True
    then show ?thesis by simp
  next
    case False
    moreover have "unat w < 256"
      using unsigned_less [of w, where ?'a = nat] by simp
    ultimately have "unat w div 128 = 1"
      by (intro div_nat_eqI) simp_all
    with False show ?thesis by simp
  qed 
  also have "\<dots> \<longleftrightarrow> 0x7F < w"
    by (simp add: word_less_nat_alt)
  finally show ?thesis .
qed


lemma length_le_encode: "length (le_encode n v) = n"
  by (induction n arbitrary: v) simp_all

lemma curve25519_result: "fst (curve25519 n p) = 0 \<and> length (snd (curve25519 n p)) = 32"
  by (simp add: curve25519_def curve25519_ladder_def Let_def fe_tobytes_def length_le_encode
        split: prod.split)

lemma length_clamp: "length (clamp n) = length n"
  by (simp add: clamp_def Let_def)

lemma make_key_success:
  assumes "gen r 32 = (0, n, r')" "length n = 32" "key_wf ky"
  shows "ecc25519_make_key gen (Some r) 32 (Some ky) =
           (0, Some (ky\<lparr>key_p := \<lparr>point = rev (snd (curve25519 (clamp n) (9 # replicate 31 0)))\<rparr>,
                        key_k := \<lparr>point = rev (clamp n)\<rparr>\<rparr>), Some r')"
proof -
  obtain q where q: "curve25519 (clamp n) (9 # replicate 31 0) = (0, q)" "length q = 32"
    using curve25519_result [of "clamp n" "9 # replicate 31 0"] by (cases "curve25519 (clamp n) (9 # replicate 31 0)") auto
  have c: "copy_loop 32 (point (key_k ky)) n = n"
    using assms by (simp add: copy_loop_full key_wf_def)
  have c2: "copy_loop 32 n (clamp n) = clamp n"
    using assms by (simp add: copy_loop_full length_clamp)
  have s: "store_loop 32 q (clamp n) (point (key_p ky), clamp n) = (rev q, rev (clamp n))"
    using assms q by (intro store_loop_eq) (simp_all add: key_wf_def length_clamp)
  show ?thesis
    using assms(1) by (simp add: ecc25519_make_key_def c c2 q s)
qed

lemma shared_secret_success:
  assumes "key_wf priv" "key_wf pub" "\<not> 0x7F < point (key_p pub) ! 0" "32 \<le> ol" "32 \<le> length ob"
  shows "ecc25519_shared_secret (Some priv) (Some pub) (Some ob) (Some ol) =
           Inr (0, Some (snd (curve25519 (rev (point (key_k priv))) (rev (point (key_p pub)))) @ drop 32 ob),
                Some 32)"
proof -
  have l: "load_loop (point (key_p pub)) (point (key_k priv)) (replicate 32 0, replicate 32 0)
             = (rev (point (key_p pub)), rev (point (key_k priv)))"
    using assms by (intro load_loop_eq) (simp_all add: key_wf_def)
  have m: "XMEMSET ob 0 0 32 = Inr (replicate 32 0 @ drop 32 ob)"
    using assms by (simp add: XMEMSET_def)
  have "\<not> ol < 32"
    using assms by simp
  moreover obtain q where "curve25519 (rev (point (key_k priv))) (rev (point (key_p pub))) = (0, q)"
    using curve25519_result [of "rev (point (key_k priv))" "rev (point (key_p pub))"]
    by (cases "curve25519 (rev (point (key_k priv))) (rev (point (key_p pub)))") auto
  ultimately show ?thesis
    using assms(3) by (simp add: ecc25519_shared_secret_def l m)
qed


lemma byte_and_248_7: "((x :: byte) AND 248) AND 7 = 0"
  by (simp add: and.assoc)

lemma byte_clamp_top_80: "((x :: byte) AND 127 OR 64) AND 0x80 = 0"
  by (simp add: bit.conj_disj_distrib2 and.assoc)

lemma byte_clamp_top_40: "((x :: byte) AND 127 OR 64) AND 0x40 = 0x40"
  by (simp add: bit.conj_disj_distrib2 and.assoc or.commute word_bw_lcs)


lemma byte_and_248_bit: "3 \<le> j \<Longrightarrow> j < 8 \<Longrightarrow> bit ((x :: byte) AND 248) j = bit x j"
proof -
  assume "3 \<le> j" "j < 8"
  then consider "j = 3" | "j = 4" | "j = 5" | "j = 6" | "j = 7"
    by linarith
  then show ?thesis
    by cases (simp_all add: bit_and_iff)
qed

lemma byte_clamp_top_bit: "j < 6 \<Longrightarrow> bit ((x :: byte) AND 127 OR 64) j = bit x j"
proof -
  assume "j < 6"
  then consider "j = 0" | "j = 1" | "j = 2" | "j = 3" | "j = 4" | "j = 5"
    by linarith
  then show ?thesis
    by cases (simp_all add: bit_and_iff bit_or_iff)
qed


lemma error_codes_distinct:
  "BUFFER_E \<noteq> 0" "ECC_BAD_ARG_E \<noteq> 0" "BAD_FUNC_ARG \<noteq> 0"
  "BUFFER_E \<noteq> ECC_BAD_ARG_E" "BUFFER_E \<noteq> BAD_FUNC_ARG" "ECC_BAD_ARG_E \<noteq> BAD_FUNC_ARG"
  by (simp_all add: BUFFER_E_def ECC_BAD_ARG_E_def BAD_FUNC_ARG_def)

lemma clamp_nth:
  assumes "length n = 32"
  shows "clamp n ! 0 = n ! 0 AND 248" "clamp n ! 31 = n ! 31 AND 127 OR 64"
    "0 < i \<Longrightarrow> i < 31 \<Longrightarrow> clamp n ! i = n ! i"
  using assms by (simp_all add: clamp_def Let_def)

section \<open>Properties of the key manager\<close>

subsection \<open>Round trip of the public key\<close>

text \<open>Claim C2 says that importing the result of \<^verbatim>\<open>ecc25519_export_public\<close> into a fresh key
  succeeds and reproduces the public point. The export of a key with the public point
  \<open>1, 2, \<dots>, 32\<close> is the 34 bytes \<open>34, 0x41, 1, \<dots>, 32\<close>; importing them into an initialised
  key passes both checks and then copies \<^verbatim>\<open>inLen = 34\<close> bytes from \<^verbatim>\<open>in + 2\<close> into the 32-byte
  field: the call leaves the input buffer and the field by two bytes each, and does not
  return.\<close>

theorem export_then_import_public_faults:
  "ecc25519_export_public
     (Some \<lparr>key_type = 0, key_idx = 0, key_dp = Some (ecc25519_sets ! 0), key_f = montgomery_x_le,
            key_p = \<lparr>point = map word_of_nat [1..<33]\<rparr>, key_k = \<lparr>point = replicate 32 0\<rparr>\<rparr>)
     (Some (replicate 34 0)) (Some 34)
     = Inr (0, Some (34 # montgomery_x_le # map word_of_nat [1..<33]), Some 34) \<and>
   ecc25519_import_public (Some (34 # montgomery_x_le # map word_of_nat [1..<33])) 34
     (Some zero_key)
     = Inl (OutOfRange 2 2)"
  by code_simp

subsection \<open>Failures with \<^verbatim>\<open>BUFFER_E\<close>\<close>

text \<open>Claim C3 says that every operation failing with BufferTooSmall sets the length to 32
  and writes nothing. \<^verbatim>\<open>ecc25519_export_private_raw\<close> assigns \<^verbatim>\<open>*outLen = keySz\<close> before it returns
  \<^verbatim>\<open>BUFFER_E\<close>; \<^verbatim>\<open>ecc25519_shared_secret\<close> returns \<^verbatim>\<open>BUFFER_E\<close> from its guard without assigning
  \<^verbatim>\<open>*outlen\<close>: with a 16-byte buffer it fails with \<^verbatim>\<open>BUFFER_E\<close> and leaves \<^verbatim>\<open>*outlen\<close> at 16, so the
  required size is not reported.\<close>

theorem shared_secret_buffer_e_keeps_outlen:
  "ecc25519_shared_secret
     (Some zero_key)
     (Some zero_key)
     (Some (replicate 16 0)) (Some 16)
     = Inr (BUFFER_E, Some (replicate 16 0), Some 16) \<and> BufferTooSmall BUFFER_E \<and>
   Some (16 :: word32) \<noteq> Some 32 \<and>
   ecc25519_export_private_raw (Some zero_key) (Some (replicate 16 0)) (Some 16)
     = Inr (BUFFER_E, Some (replicate 16 0), Some 32)"
  by (simp add: ecc25519_shared_secret_def ecc25519_export_private_raw_def ecc25519_size_def
      ecc25519_sets_def BufferTooSmall_def zero_key_def)

subsection \<open>The size of a wiped key\<close>

text \<open>Claim C4 says that \<^verbatim>\<open>ecc25519_size\<close> never fails and returns 0 when the domain parameters
  are not set. On a key that \<^verbatim>\<open>ecc25519_free\<close> has wiped, \<^verbatim>\<open>key->dp\<close> is NULL and
  \<^verbatim>\<open>ecc25519_size\<close> reads \<^verbatim>\<open>key->dp->size\<close>: the call dereferences NULL and returns nothing.\<close>

theorem size_of_wiped_key_faults:
  "ecc25519_size (ecc25519_free (Some key)) = Inl NullDeref"
  by (simp add: ecc25519_size_def ecc25519_free_def)

subsection \<open>The high bit of the peer's point\<close>

text \<open>Claim C5: when bit 7 of the first stored byte of the peer's public point is set,
  \<^verbatim>\<open>ecc25519_shared_secret\<close> returns \<^verbatim>\<open>ECC_BAD_ARG_E\<close>, an InvalidArgument, and both the output
  buffer and the length are as they were.\<close>

theorem shared_secret_rejects_high_bit:
  assumes "bit (point (key_p pub) ! 0) 7"
  shows "ecc25519_shared_secret (Some priv) (Some pub) (Some ob) (Some ol)
           = Inr (ECC_BAD_ARG_E, Some ob, Some ol) \<and> InvalidArgument ECC_BAD_ARG_E"
  using assms by (simp add: ecc25519_shared_secret_def byte_bit7 InvalidArgument_def)

theorem shared_secret_rejects_high_bit_witness:
  "bit (point (key_p (zero_key\<lparr>key_p := \<lparr>point = 0x80 # replicate 31 0\<rparr>\<rparr>)) ! 0) 7 \<and>
   ecc25519_shared_secret (Some zero_key) (Some (zero_key\<lparr>key_p := \<lparr>point = 0x80 # replicate 31 0\<rparr>\<rparr>))
       (Some (replicate 32 1)) (Some 32)
     = Inr (ECC_BAD_ARG_E, Some (replicate 32 1), Some 32) \<and> InvalidArgument ECC_BAD_ARG_E"
proof -
  have h: "bit (point (key_p (zero_key\<lparr>key_p := \<lparr>point = 0x80 # replicate 31 0\<rparr>\<rparr>)) ! 0) 7"
    by simp
  from h shared_secret_rejects_high_bit [OF h, of "zero_key" "replicate 32 1" 32]
  show ?thesis
    by blast
qed

subsection \<open>Clamping\<close>

text \<open>Claim C6: for a 32-byte scalar \<open>n\<close>, the clamped scalar has the low three bits of byte 0
  clear, bit 7 of byte 31 clear and bit 6 of byte 31 set, and every other bit is the bit of
  \<open>n\<close>; it is the scalar \<^verbatim>\<open>curve25519\<close> runs the ladder on, and the scalar
  \<^verbatim>\<open>ecc25519_make_key\<close> stores (byte-reversed) in the key.\<close>

theorem clamp_bits:
  assumes "length n = 32"
  shows "clamp n ! 0 AND 0x07 = 0 \<and> clamp n ! 31 AND 0x80 = 0 \<and> clamp n ! 31 AND 0x40 = 0x40 \<and>
         length (clamp n) = 32 \<and>
         (\<forall>i<32. \<forall>j<8. \<not> (i = 0 \<and> j < 3) \<and> \<not> (i = 31 \<and> 6 \<le> j)
             \<longrightarrow> bit (clamp n ! i) j = bit (n ! i) j) \<and>
         curve25519 n p = curve25519_ladder (clamp n) p \<and>
         (gen r 32 = (0, n, r') \<and> key_wf ky \<longrightarrow>
            (\<exists>ky'. ecc25519_make_key gen (Some r) 32 (Some ky) = (0, Some ky', Some r') \<and>
                   rev (point (key_k ky')) = clamp n))"
proof -
  note nth = clamp_nth [OF assms]
  have a: "clamp n ! 0 AND 0x07 = 0"
    unfolding nth by (rule byte_and_248_7)
  have b: "clamp n ! 31 AND 0x80 = 0"
    unfolding nth by (rule byte_clamp_top_80)
  have c: "clamp n ! 31 AND 0x40 = 0x40"
    unfolding nth by (rule byte_clamp_top_40)
  have d: "length (clamp n) = 32"
    using assms by (simp add: length_clamp)
  have e: "bit (clamp n ! i) j = bit (n ! i) j"
    if ij: "i < 32" "j < 8" "\<not> (i = 0 \<and> j < 3)" "\<not> (i = 31 \<and> 6 \<le> j)" for i j
  proof -
    consider "i = 0" | "i = 31" | "0 < i" "i < 31"
      using ij(1) by linarith
    then show ?thesis
    proof cases
      case 1
      with ij show ?thesis by (simp add: nth byte_and_248_bit)
    next
      case 2
      with ij show ?thesis by (simp add: nth byte_clamp_top_bit)
    next
      case 3
      then show ?thesis by (simp add: nth)
    qed
  qed
  have f: "curve25519 n p = curve25519_ladder (clamp n) p"
    using assms by (simp add: curve25519_def copy_loop_full)
  have g: "gen r 32 = (0, n, r') \<and> key_wf ky \<longrightarrow>
            (\<exists>ky'. ecc25519_make_key gen (Some r) 32 (Some ky) = (0, Some ky', Some r') \<and>
                   rev (point (key_k ky')) = clamp n)"
    using assms by (auto simp: make_key_success)
  from a b c d e f g show ?thesis by blast
qed

theorem clamp_bits_witness:
  "length (replicate 32 (0xFF :: byte)) = 32 \<and>
   clamp (replicate 32 0xFF) ! 0 AND 0x07 = 0 \<and> clamp (replicate 32 0xFF) ! 31 AND 0x80 = 0 \<and>
   clamp (replicate 32 0xFF) ! 31 AND 0x40 = 0x40 \<and>
   (5 :: nat) < 32 \<and> (4 :: nat) < 8 \<and> \<not> ((5 :: nat) = 0 \<and> (4 :: nat) < 3) \<and>
   \<not> ((5 :: nat) = 31 \<and> 6 \<le> (4 :: nat)) \<and>
   bit (clamp (replicate 32 0xFF) ! 5) 4 = bit (replicate 32 (0xFF :: byte) ! 5) 4 \<and>
   (\<lambda>(r :: unit) (k :: nat). (0 :: int, replicate 32 (0xFF :: byte), r)) () 32
      = (0, replicate 32 0xFF, ()) \<and>
   key_wf zero_key \<and>
   (\<exists>ky'. ecc25519_make_key (\<lambda>(r :: unit) (k :: nat). (0 :: int, replicate 32 (0xFF :: byte), r))
             (Some ()) 32 (Some zero_key) = (0, Some ky', Some ()) \<and>
          rev (point (key_k ky')) = clamp (replicate 32 0xFF))"
proof -
  let ?n = "replicate 32 (0xFF :: byte)"
  let ?gen = "\<lambda>(r :: unit) (k :: nat). (0 :: int, ?n, r)"
  have h1: "length ?n = 32"
    by simp
  have h2: "?gen () 32 = (0, ?n, ())"
    by simp
  have h3: "key_wf zero_key"
    by (simp add: key_wf_def zero_key_def)
  have h4: "(5 :: nat) < 32" "(4 :: nat) < 8" "\<not> ((5 :: nat) = 0 \<and> (4 :: nat) < 3)"
    "\<not> ((5 :: nat) = 31 \<and> 6 \<le> (4 :: nat))"
    by simp_all
  have t: "clamp ?n ! 0 AND 0x07 = 0 \<and> clamp ?n ! 31 AND 0x80 = 0 \<and> clamp ?n ! 31 AND 0x40 = 0x40 \<and>
         length (clamp ?n) = 32 \<and>
         (\<forall>i<32. \<forall>j<8. \<not> (i = 0 \<and> j < 3) \<and> \<not> (i = 31 \<and> 6 \<le> j)
             \<longrightarrow> bit (clamp ?n ! i) j = bit (?n ! i) j) \<and>
         curve25519 ?n [] = curve25519_ladder (clamp ?n) [] \<and>
         (?gen () 32 = (0, ?n, ()) \<and> key_wf zero_key \<longrightarrow>
            (\<exists>ky'. ecc25519_make_key ?gen (Some ()) 32 (Some zero_key) = (0, Some ky', Some ()) \<and>
                   rev (point (key_k ky')) = clamp ?n))"
    by (rule clamp_bits [OF h1])
  from t h4 have c: "bit (clamp ?n ! 5) 4 = bit (?n ! 5) 4"
    by blast
  from t h2 h3 have m: "\<exists>ky'. ecc25519_make_key ?gen (Some ()) 32 (Some zero_key) = (0, Some ky', Some ()) \<and>
          rev (point (key_k ky')) = clamp ?n"
    by blast
  from t h1 h2 h3 h4 c m show ?thesis
    by blast
qed

subsection \<open>Byte order\<close>

text \<open>Claim C7: \<^verbatim>\<open>ecc25519_make_key\<close> stores the clamped scalar and the public point the ladder
  computed from it byte-reversed; \<^verbatim>\<open>ecc25519_shared_secret\<close> reverses the stored scalar and the
  stored peer point, runs \<^verbatim>\<open>curve25519\<close> on them and writes its 32 bytes to the start of the
  output buffer as they are, with the length set to 32.\<close>

theorem byte_order_of_keys_and_secret:
  assumes "length n = 32" and "gen r 32 = (0, n, r')" and "key_wf ky"
    and "key_wf priv" and "key_wf pub" and "\<not> 0x7F < point (key_p pub) ! 0"
    and "32 \<le> ol" and "32 \<le> length ob"
  shows "(\<exists>ky'. ecc25519_make_key gen (Some r) 32 (Some ky) = (0, Some ky', Some r') \<and>
            point (key_k ky') = rev (clamp n) \<and>
            point (key_p ky') = rev (snd (curve25519 (clamp n) (9 # replicate 31 0)))) \<and>
         ecc25519_shared_secret (Some priv) (Some pub) (Some ob) (Some ol) =
           Inr (0, Some (snd (curve25519 (rev (point (key_k priv))) (rev (point (key_p pub))))
                         @ drop 32 ob), Some 32)"
  using assms make_key_success [of gen r n r' ky] shared_secret_success [of priv pub ol ob]
  by simp

theorem byte_order_of_keys_and_secret_witness:
  "length (replicate 32 (0xFF :: byte)) = 32 \<and>
   (\<lambda>(r :: unit) (k :: nat). (0 :: int, replicate 32 (0xFF :: byte), r)) () 32
      = (0, replicate 32 0xFF, ()) \<and>
   key_wf zero_key \<and> \<not> 0x7F < point (key_p zero_key) ! 0 \<and> (32 :: word32) \<le> 32 \<and>
   32 \<le> length (replicate 40 (1 :: byte)) \<and>
   (\<exists>ky'. ecc25519_make_key (\<lambda>(r :: unit) (k :: nat). (0 :: int, replicate 32 (0xFF :: byte), r))
             (Some ()) 32 (Some zero_key) = (0, Some ky', Some ()) \<and>
          point (key_k ky') = rev (clamp (replicate 32 0xFF)) \<and>
          point (key_p ky') = rev (snd (curve25519 (clamp (replicate 32 0xFF)) (9 # replicate 31 0)))) \<and>
   ecc25519_shared_secret (Some zero_key) (Some zero_key) (Some (replicate 40 1)) (Some 32) =
     Inr (0, Some (snd (curve25519 (rev (point (key_k zero_key))) (rev (point (key_p zero_key))))
                   @ drop 32 (replicate 40 1)), Some 32)"
proof -
  let ?n = "replicate 32 (0xFF :: byte)"
  let ?gen = "\<lambda>(r :: unit) (k :: nat). (0 :: int, ?n, r)"
  have h1: "length ?n = 32"
    by simp
  have h2: "?gen () 32 = (0, ?n, ())"
    by simp
  have h3: "key_wf zero_key"
    by (simp add: key_wf_def zero_key_def)
  have h4: "\<not> 0x7F < point (key_p zero_key) ! 0"
    by (simp add: zero_key_def)
  have h5: "(32 :: word32) \<le> 32"
    by simp
  have h6: "32 \<le> length (replicate 40 (1 :: byte))"
    by simp
  have t: "(\<exists>ky'. ecc25519_make_key ?gen (Some ()) 32 (Some zero_key) = (0, Some ky', Some ()) \<and>
            point (key_k ky') = rev (clamp ?n) \<and>
            point (key_p ky') = rev (snd (curve25519 (clamp ?n) (9 # replicate 31 0)))) \<and>
         ecc25519_shared_secret (Some zero_key) (Some zero_key) (Some (replicate 40 1)) (Some 32) =
           Inr (0, Some (snd (curve25519 (rev (point (key_k zero_key))) (rev (point (key_p zero_key))))
                         @ drop 32 (replicate 40 1)), Some 32)"
    by (rule byte_order_of_keys_and_secret) (simp_all add: h3 h4)
  from h1 h2 h3 h4 h5 h6 t show ?thesis
    by blast
qed

subsection \<open>Failure of the random source\<close>

text \<open>Claim C8: when \<^verbatim>\<open>RNG_GenerateBlock\<close> returns a value other than 0, \<^verbatim>\<open>ecc25519_make_key\<close>
  returns that value and the key is as it was.\<close>

theorem make_key_rng_failure:
  assumes "gen r 32 = (err, blk, r')" and "err \<noteq> 0"
  shows "ecc25519_make_key gen (Some r) 32 (Some key) = (err, Some key, Some r')"
  using assms by (simp add: ecc25519_make_key_def)

theorem make_key_rng_failure_witness:
  "(\<lambda>(r :: unit) (k :: nat). (- 199 :: int, [] :: byte list, r)) () 32 = (- 199, [], ()) \<and>
   (- 199 :: int) \<noteq> 0 \<and>
   ecc25519_make_key (\<lambda>(r :: unit) (k :: nat). (- 199 :: int, [] :: byte list, r)) (Some ()) 32
       (Some zero_key)
     = (- 199, Some zero_key, Some ())"
proof -
  let ?gen = "\<lambda>(r :: unit) (k :: nat). (- 199 :: int, [] :: byte list, r)"
  have h1: "?gen () 32 = (- 199, [], ())"
    by simp
  have h2: "(- 199 :: int) \<noteq> 0"
    by simp
  have t: "ecc25519_make_key ?gen (Some ()) 32 (Some zero_key) = (- 199, Some zero_key, Some ())"
    using h1 h2 by (rule make_key_rng_failure)
  from h1 h2 t show ?thesis
    by blast
qed

subsection \<open>The copy of \<^verbatim>\<open>ecc25519_import_public\<close>\<close>

text \<open>Claim C9: on every input \<^verbatim>\<open>ecc25519_import_public\<close> accepts for a key of size 32 (a length
  of 34 and the format tag in the second byte of a 34-byte buffer), the copy takes the 34
  bytes of \<^verbatim>\<open>inLen\<close> from offset 2: it reads two bytes past the end of the input and writes
  two bytes past the end of the 32-byte field of the public point.\<close>

theorem import_public_copies_past_end:
  assumes "key_dp ky = Some (ecc25519_sets ! 0)" and "key_wf ky"
    and "length ib = 34" and "ib ! 1 = montgomery_x_le"
  shows "ecc25519_import_public (Some ib) 34 (Some ky) = Inl (OutOfRange 2 2)"
  using assms
  by (simp add: ecc25519_import_public_def ecc25519_size_def ecc25519_sets_def XMEMCPY_def key_wf_def)

theorem import_public_copies_past_end_witness:
  "key_dp zero_key = Some (ecc25519_sets ! 0) \<and> key_wf zero_key \<and>
   length (34 # montgomery_x_le # replicate 32 (7 :: byte)) = 34 \<and>
   (34 # montgomery_x_le # replicate 32 (7 :: byte)) ! 1 = montgomery_x_le \<and>
   ecc25519_import_public (Some (34 # montgomery_x_le # replicate 32 7)) 34 (Some zero_key)
     = Inl (OutOfRange 2 2)"
proof -
  have h1: "key_dp zero_key = Some (ecc25519_sets ! 0)"
    by (simp add: zero_key_def)
  have h2: "key_wf zero_key"
    by (simp add: key_wf_def zero_key_def)
  have h3: "length (34 # montgomery_x_le # replicate 32 (7 :: byte)) = 34"
    by simp
  have h4: "(34 # montgomery_x_le # replicate 32 (7 :: byte)) ! 1 = montgomery_x_le"
    by simp
  from h1 h2 h3 h4 import_public_copies_past_end [OF h1 h2 h3 h4]
  show ?thesis
    by blast
qed

subsection \<open>Wiping a key\<close>

text \<open>Claim C10: \<^verbatim>\<open>ecc25519_free\<close> is idempotent; after it, on any key, both 32-byte buffers
  are zero and the reference to the domain parameters is NULL. The function returns
  nothing and has no failing branch.\<close>

theorem free_idempotent:
  "ecc25519_free (ecc25519_free key) = ecc25519_free key \<and>
   (\<exists>ky. ecc25519_free (Some k0) = Some ky \<and> key_dp ky = None \<and>
         point (key_p ky) = replicate 32 0 \<and> point (key_k ky) = replicate 32 0)"
  by (simp add: ecc25519_free_def split: option.split)

section \<open>The prime \<open>2\<^sup>2\<^sup>5\<^sup>5 - 19\<close>\<close>

text \<open>The field arithmetic of the scalar multiplier is arithmetic modulo \<open>p = 2\<^sup>2\<^sup>5\<^sup>5 - 19\<close>, and
  \<^verbatim>\<open>fe_invert\<close> is the power \<open>p - 2\<close>: it inverts every non-zero element only because \<open>p\<close> is
  prime. This section proves that \<open>p\<close> is prime, from first principles: Fermat's little theorem,
  Pocklington's criterion, and a chain of certificates down to primes small enough for trial
  division.\<close>

subsection \<open>Primes, Fermat's little theorem and Pocklington's criterion\<close>

definition is_prime :: "nat \<Rightarrow> bool" where
  "is_prime p \<longleftrightarrow> 1 < p \<and> (\<forall>m. m dvd p \<longrightarrow> m = 1 \<or> m = p)"

lemma is_prime_coprime:
  assumes "is_prime p" and "\<not> p dvd a"
  shows "coprime p a"
proof -
  have "gcd p a dvd p" by simp
  then have "gcd p a = 1 \<or> gcd p a = p"
    using assms(1) by (auto simp: is_prime_def)
  moreover have "gcd p a \<noteq> p"
    using assms(2) by (metis gcd_dvd2)
  ultimately show ?thesis
    by (simp add: coprime_iff_gcd_eq_1)
qed

lemma is_prime_dvd_mult:
  assumes "is_prime p" and "p dvd a * b"
  shows "p dvd a \<or> p dvd b"
proof (cases "p dvd a")
  case True
  then show ?thesis by simp
next
  case False
  then have "coprime p a"
    using assms(1) by (rule is_prime_coprime [rotated])
  then show ?thesis
    using assms(2) by (simp add: coprime_dvd_mult_right_iff)
qed

lemma is_prime_dvd_power:
  assumes p: "is_prime p"
  shows "p dvd a ^ n \<Longrightarrow> p dvd a"
proof (induction n)
  case 0
  then have "p = 1" by simp
  with p show ?case by (simp add: is_prime_def)
next
  case (Suc n)
  then have "p dvd a * a ^ n" by simp
  then have "p dvd a \<or> p dvd a ^ n"
    by (rule is_prime_dvd_mult [OF p])
  with Suc.IH show ?case by blast
qed

lemma prime_factor_exists:
  "1 < n \<Longrightarrow> \<exists>p. is_prime p \<and> p dvd n"
proof (induction n rule: less_induct)
  case (less n)
  show ?case
  proof (cases "is_prime n")
    case True
    then show ?thesis by auto
  next
    case False
    with less.prems obtain m where m: "m dvd n" "m \<noteq> 1" "m \<noteq> n"
      by (auto simp: is_prime_def)
    have "m \<noteq> 0"
    proof
      assume "m = 0"
      with m(1) have "n = 0" by simp
      with less.prems show False by simp
    qed
    moreover have "m \<le> n"
      using m(1) less.prems by (auto dest: dvd_imp_le)
    ultimately have "1 < m" "m < n"
      using m(2,3) by simp_all
    then obtain p where "is_prime p" "p dvd m"
      using less.IH by blast
    with m(1) show ?thesis
      using dvd_trans by blast
  qed
qed

lemma small_prime_factor:
  assumes "1 < n" and "\<not> is_prime n"
  shows "\<exists>p. is_prime p \<and> p dvd n \<and> p * p \<le> n"
proof -
  from assms obtain m where m: "m dvd n" "m \<noteq> 1" "m \<noteq> n"
    by (auto simp: is_prime_def)
  then obtain k where k: "n = m * k"
    by (auto simp: dvd_def)
  have "m \<noteq> 0"
  proof
    assume "m = 0"
    with k assms(1) show False by simp
  qed
  moreover have "k \<noteq> 0"
  proof
    assume "k = 0"
    with k assms(1) show False by simp
  qed
  moreover have "k \<noteq> 1"
    using k m(3) by auto
  ultimately have "m \<noteq> 0" "k \<noteq> 0" "k \<noteq> 1"
    by simp_all
  then have m1: "1 < m" and k1: "1 < k"
    using m(2) by simp_all
  define s where "s = min m k"
  have s: "1 < s" "s dvd n" "s * s \<le> n"
    using m1 k1 k by (auto simp: s_def min_def mult_le_mono)
  obtain p where p: "is_prime p" "p dvd s"
    using prime_factor_exists [OF s(1)] by blast
  have "p \<le> s"
    using p(2) s(1) by (auto dest: dvd_imp_le)
  then have "p * p \<le> s * s"
    by (simp add: mult_le_mono)
  moreover have "p dvd n"
    using p(2) s(2) by (rule dvd_trans)
  ultimately have "is_prime p \<and> p dvd n \<and> p * p \<le> n"
    using p(1) s(3) by simp
  then show ?thesis ..
qed

lemma is_prime_dvd_choose:
  assumes "is_prime p" and "0 < k" and "k < p"
  shows "p dvd (p choose k)"
proof -
  have "k * (p choose k) = p * ((p - 1) choose (k - 1))"
    using assms(2) by (rule times_binomial_minus1_eq)
  then have "p dvd k * (p choose k)"
    by simp
  moreover have "\<not> p dvd k"
    using assms(2,3) by (auto dest: dvd_imp_le)
  ultimately show ?thesis
    using is_prime_dvd_mult [OF assms(1)] by blast
qed

lemma fermat_step:
  assumes p: "is_prime p"
  shows "\<exists>M. (a + 1) ^ p = 1 + a ^ p + p * M"
proof -
  have p1: "1 < p"
    using p by (simp add: is_prime_def)
  have "(a + 1) ^ p = (\<Sum>k\<le>p. (p choose k) * a ^ k)"
    using binomial [of a 1 p] by simp
  also have "{..p} = insert 0 (insert p {0<..<p})"
    using p1 by auto
  also have "(\<Sum>k\<in>insert 0 (insert p {0<..<p}). (p choose k) * a ^ k)
      = 1 + (a ^ p + (\<Sum>k\<in>{0<..<p}. (p choose k) * a ^ k))"
    using p1 by simp
  finally have e: "(a + 1) ^ p = 1 + (a ^ p + (\<Sum>k\<in>{0<..<p}. (p choose k) * a ^ k))" .
  have "p dvd (\<Sum>k\<in>{0<..<p}. (p choose k) * a ^ k)"
    by (intro dvd_sum dvd_mult2 is_prime_dvd_choose [OF p]) auto
  then obtain M where "(\<Sum>k\<in>{0<..<p}. (p choose k) * a ^ k) = p * M"
    by (auto simp: dvd_def)
  with e show ?thesis
    by (intro exI [of _ M]) simp
qed

lemma fermat_little:
  assumes p: "is_prime p"
  shows "a ^ p mod p = a mod p"
proof (induction a)
  case 0
  have "0 < p" using p by (simp add: is_prime_def)
  then show ?case by (simp add: power_0_left)
next
  case (Suc a)
  obtain M where "(a + 1) ^ p = 1 + a ^ p + p * M"
    using fermat_step [OF p] by blast
  then have "Suc a ^ p mod p = (1 + a ^ p) mod p"
    by simp
  also have "\<dots> = (1 + a ^ p mod p) mod p"
    by (simp only: mod_add_right_eq)
  also have "\<dots> = (1 + a mod p) mod p"
    by (simp only: Suc)
  also have "\<dots> = (1 + a) mod p"
    by (simp only: mod_add_right_eq)
  finally show ?case by simp
qed

lemma fermat_coprime:
  assumes p: "is_prime p" and a: "\<not> p dvd a"
  shows "a ^ (p - 1) mod p = 1"
proof -
  have p1: "1 < p" using p by (simp add: is_prime_def)
  have a0: "0 < a" using a by (cases a) auto
  then have pw: "1 \<le> a ^ (p - 1)" by simp
  have "a ^ p = a * a ^ (p - 1)"
    using p1 by (cases p) simp_all
  then have "(a * a ^ (p - 1)) mod p = (a * 1) mod p"
    using fermat_little [OF p, of a] by simp
  moreover have "a * 1 \<le> a * a ^ (p - 1)"
    using pw by (intro mult_le_mono2)
  ultimately have "p dvd a * a ^ (p - 1) - a * 1"
    by (simp only: mod_eq_dvd_iff_nat)
  then have "p dvd a * (a ^ (p - 1) - 1)"
    by (simp add: right_diff_distrib')
  then have "p dvd a ^ (p - 1) - 1"
    using is_prime_dvd_mult [OF p] a by blast
  then have "a ^ (p - 1) mod p = 1 mod p"
    using pw by (simp only: mod_eq_dvd_iff_nat)
  then show ?thesis
    using p1 by simp
qed

lemma is_prime_coprime_prod_list:
  assumes f: "is_prime f" and gs: "\<forall>g\<in>set gs. is_prime g \<and> g \<noteq> f"
  shows "coprime f (prod_list gs)"
  using gs
proof (induction gs)
  case Nil
  then show ?case by simp
next
  case (Cons g gs)
  have g: "is_prime g" "g \<noteq> f"
    using Cons.prems by simp_all
  have "\<not> f dvd g"
    using g f by (auto simp: is_prime_def)
  then have "coprime f g"
    using f by (rule is_prime_coprime [rotated])
  moreover have "coprime f (prod_list gs)"
    using Cons by simp
  ultimately show ?case
    by simp
qed

lemma distinct_primes_dvd:
  assumes "distinct fs" and "\<forall>f\<in>set fs. is_prime f \<and> f dvd n"
  shows "prod_list fs dvd n"
  using assms
proof (induction fs)
  case Nil
  then show ?case by simp
next
  case (Cons f fs)
  have "coprime f (prod_list fs)"
    using Cons.prems by (intro is_prime_coprime_prod_list) auto
  moreover have "f dvd n" "prod_list fs dvd n"
    using Cons by simp_all
  ultimately show ?case
    by (simp add: divides_mult)
qed

lemma pocklington_factor:
  assumes r: "is_prime r" and rN: "r dvd N" and f: "is_prime f" and fN: "f dvd N - 1"
    and one: "a ^ (N - 1) mod N = 1"
    and c: "a ^ ((N - 1) div f) mod N = c" and cop: "coprime (c - 1) N"
  shows "f dvd r - 1"
proof (rule ccontr)
  assume nd: "\<not> f dvd r - 1"
  have r1: "1 < r" using r by (simp add: is_prime_def)
  have f0: "f \<noteq> 0" using f by (simp add: is_prime_def)
  define b where "b = a ^ ((N - 1) div f)"
  have modr: "x mod N mod r = x mod r" for x
    using rN by (rule mod_mod_cancel)
  have bf: "b ^ f mod r = 1"
  proof -
    have "b ^ f = a ^ (N - 1)"
      using fN by (simp add: b_def flip: power_mult)
    then have "b ^ f mod r = a ^ (N - 1) mod N mod r"
      by (simp add: modr)
    then show ?thesis
      using one r1 by simp
  qed
  have "\<not> r dvd b"
  proof
    assume "r dvd b"
    then have "r dvd b ^ f"
      using f0 by (metis dvd_trans dvd_power neq0_conv)
    then have "b ^ f mod r = 0" by simp
    with bf show False by simp
  qed
  then have br: "b ^ (r - 1) mod r = 1"
    using r by (rule fermat_coprime [rotated])
  have "coprime f (r - 1)"
    using f nd by (rule is_prime_coprime)
  then obtain u v where uv: "f * u = (r - 1) * v + 1"
    using bezout_nat [OF f0, of "r - 1"] by (auto simp: coprime_iff_gcd_eq_1)
  have "b ^ (f * u) mod r = (b ^ f mod r) ^ u mod r"
    by (simp add: power_mult power_mod)
  then have 1: "b ^ (f * u) mod r = 1"
    using bf r1 by simp
  have e: "b ^ ((r - 1) * v + 1) = (b ^ (r - 1)) ^ v * b"
    by (simp add: power_add power_mult)
  have "(b ^ (r - 1)) ^ v mod r = (b ^ (r - 1) mod r) ^ v mod r"
    by (simp add: power_mod)
  then have pv: "(b ^ (r - 1)) ^ v mod r = 1"
    using br r1 by simp
  have "b ^ ((r - 1) * v + 1) mod r = ((b ^ (r - 1)) ^ v mod r * (b mod r)) mod r"
    unfolding e by (simp add: mod_mult_eq)
  then have 2: "b ^ ((r - 1) * v + 1) mod r = b mod r"
    using pv by simp
  from 1 2 uv have b1: "b mod r = 1"
    by simp
  have "c mod r = b mod r"
    using c modr [of b] by (simp add: b_def)
  with b1 have c1: "c mod r = 1" by simp
  then have "1 \<le> c"
    by (cases c) auto
  with c1 r1 have "r dvd c - 1"
    using mod_eq_dvd_iff_nat [of 1 c r] by simp
  with rN cop have "r dvd 1"
    by (simp add: coprime_def)
  with r1 show False by simp
qed

lemma pocklington:
  assumes N: "1 < N" and dist: "distinct fs"
    and fs: "\<forall>f\<in>set fs. is_prime f \<and> f dvd N - 1 \<and>
               (\<exists>a c. a ^ (N - 1) mod N = 1 \<and> a ^ ((N - 1) div f) mod N = c \<and> coprime (c - 1) N)"
    and big: "N < (prod_list fs + 1) * (prod_list fs + 1)"
  shows "is_prime N"
proof (rule ccontr)
  assume "\<not> is_prime N"
  then obtain r where r: "is_prime r" "r dvd N" "r * r \<le> N"
    using small_prime_factor [OF N] by blast
  have "\<forall>f\<in>set fs. is_prime f \<and> f dvd r - 1"
    using fs pocklington_factor [OF r(1,2)] by blast
  then have "prod_list fs dvd r - 1"
    using dist by (intro distinct_primes_dvd) auto
  moreover have "0 < r - 1"
    using r(1) by (simp add: is_prime_def)
  ultimately have "prod_list fs \<le> r - 1"
    by (auto dest: dvd_imp_le)
  moreover have "1 < r"
    using r(1) by (simp add: is_prime_def)
  ultimately have "prod_list fs + 1 \<le> r"
    by linarith
  then have "(prod_list fs + 1) * (prod_list fs + 1) \<le> r * r"
    by (intro mult_le_mono)
  with big r(3) show False by simp
qed

lemma bezout_coprime:
  fixes m N :: nat
  assumes "u * m = v * N + 1"
  shows "coprime m N"
proof (rule coprimeI)
  fix d assume "d dvd m" "d dvd N"
  then have "d dvd u * m" "d dvd v * N"
    by simp_all
  then have "d dvd 1"
    unfolding assms by (simp only: dvd_add_right_iff)
  then show "is_unit d" by simp
qed

lemma trial_division:
  assumes "1 < n" and "n < (k + 1) * (k + 1)" and "\<forall>d\<in>{2..k}. \<not> d dvd n"
  shows "is_prime n"
proof (rule ccontr)
  assume "\<not> is_prime n"
  then obtain p where p: "is_prime p" "p dvd n" "p * p \<le> n"
    using small_prime_factor [OF assms(1)] by blast
  have "p \<le> k"
  proof (rule ccontr)
    assume "\<not> p \<le> k"
    then have "k + 1 \<le> p" by simp
    then have "(k + 1) * (k + 1) \<le> p * p"
      by (intro mult_le_mono)
    with p(3) assms(2) show False by simp
  qed
  moreover have "2 \<le> p"
    using p(1) by (simp add: is_prime_def)
  ultimately show False
    using assms(3) p(2) by auto
qed

subsection \<open>Checking modular powers\<close>

text \<open>A power \<open>a ^ e mod N\<close> with a large exponent is checked along a square-and-multiply chain
  that carries the quotient of every reduction, so that each step is one multiplication and
  one subtraction of numerals. The modulus is given as \<open>M - c\<close>, which makes the reductions
  modulo \<open>2\<^sup>2\<^sup>5\<^sup>5 - 19\<close> cheap.\<close>

datatype step = Sq int | SqMul int | Mul int

definition sq :: "int \<Rightarrow> int" where
  "sq x = x * x"

fun pow_chain :: "int \<Rightarrow> int \<Rightarrow> int \<Rightarrow> step list \<Rightarrow> int \<times> nat \<Rightarrow> (int \<times> nat) option" where
  "pow_chain M c a [] (x, e) = (if 0 \<le> x \<and> x + c < M then Some (x, e) else None)"
| "pow_chain M c a (Sq q # cs) (x, e) = pow_chain M c a cs (sq x + c * q - q * M, 2 * e)"
| "pow_chain M c a (SqMul q # cs) (x, e) = pow_chain M c a cs (a * sq x + c * q - q * M, 2 * e + 1)"
| "pow_chain M c a (Mul q # cs) (x, e) = pow_chain M c a cs (a * x + c * q - q * M, e + 1)"

lemma sq_numeral: "sq (numeral n) = numeral (Num.sqr n)"
  by (simp add: sq_def numeral_sqr)

lemma sq_one: "sq 1 = 1"
  by (simp add: sq_def)

lemma mod_sub_multiple:
  fixes t :: int
  shows "(t + c * q - q * M) mod (M - c) = t mod (M - c)"
proof -
  have "t + c * q - q * M = t + (- q) * (M - c)"
    by (simp add: algebra_simps)
  then show ?thesis
    by (simp only: mod_mult_self1)
qed

lemma pow_chain_sound:
  assumes "pow_chain M c a cs (x, e) = Some (y, e')" and "x mod (M - c) = a ^ e mod (M - c)"
  shows "y = a ^ e' mod (M - c)"
  using assms
proof (induction cs arbitrary: x e)
  case Nil
  then have "0 \<le> x" "x < M - c" "y = x" "e' = e"
    by (auto split: if_splits)
  then show ?case
    using Nil.prems(2) by simp
next
  case (Cons s cs)
  have xx: "(x * x) mod (M - c) = (a ^ e * a ^ e) mod (M - c)"
    using Cons.prems(2) by (metis mod_mult_eq)
  show ?case
  proof (cases s)
    case (Sq q)
    have "a ^ (2 * e) = a ^ e * a ^ e"
      by (simp add: mult_2 power_add)
    then have "(sq x + c * q - q * M) mod (M - c) = a ^ (2 * e) mod (M - c)"
      using xx by (simp only: mod_sub_multiple sq_def)
    then show ?thesis
      using Cons.IH [of "sq x + c * q - q * M" "2 * e"] Cons.prems(1) by (simp add: Sq)
  next
    case (SqMul q)
    have "(a * (x * x)) mod (M - c) = (a * (a ^ e * a ^ e)) mod (M - c)"
      using xx by (rule mod_mult_cong [OF refl])
    moreover have "a ^ (2 * e + 1) = a * (a ^ e * a ^ e)"
      by (simp add: mult_2 power_add)
    ultimately have "(a * sq x + c * q - q * M) mod (M - c) = a ^ (2 * e + 1) mod (M - c)"
      by (simp only: mod_sub_multiple sq_def)
    then show ?thesis
      using Cons.IH [of "a * sq x + c * q - q * M" "2 * e + 1"] Cons.prems(1) by (simp add: SqMul)
  next
    case (Mul q)
    have "(a * x) mod (M - c) = (a * a ^ e) mod (M - c)"
      using Cons.prems(2) by (rule mod_mult_cong [OF refl])
    moreover have "a ^ (e + 1) = a * a ^ e"
      by simp
    ultimately have "(a * x + c * q - q * M) mod (M - c) = a ^ (e + 1) mod (M - c)"
      by (simp only: mod_sub_multiple)
    then show ?thesis
      using Cons.IH [of "a * x + c * q - q * M" "e + 1"] Cons.prems(1) by (simp add: Mul)
  qed
qed

lemma pow_chain_comp:
  assumes "pow_chain M c a cs (x, e) = Some (y, e')" and "x = a ^ e mod (M - c)"
  shows "y = a ^ e' mod (M - c)"
proof -
  have "x mod (M - c) = a ^ e mod (M - c)"
    by (subst assms(2)) (rule mod_mod_trivial)
  with assms(1) show ?thesis
    by (rule pow_chain_sound)
qed

lemma pow_chain_result:
  fixes y :: int
  assumes "y = a ^ e mod (M - c)" and "M - c = N"
  shows "a ^ e mod N = y"
  using assms by simp

lemma pow_chain_start: "1 < N \<Longrightarrow> (1 :: int) = a ^ (0 :: nat) mod N"
  by simp

lemma bezout_coprime_int:
  fixes m N :: int
  assumes "u * m = v * N + 1"
  shows "coprime m N"
proof (rule coprimeI)
  fix d assume "d dvd m" "d dvd N"
  then have "d dvd u * m" "d dvd v * N"
    by simp_all
  then have "d dvd 1"
    unfolding assms by (simp only: dvd_add_right_iff)
  then show "is_unit d" by simp
qed

lemma pocklington_int:
  fixes N a :: int
  assumes N: "1 < N" and a: "0 \<le> a" and dist: "distinct fs"
    and one: "a ^ nat (N - 1) mod N = 1"
    and fs: "\<forall>f\<in>set fs. is_prime f \<and> f dvd nat (N - 1) \<and>
               (\<exists>c u v. a ^ (nat (N - 1) div f) mod N = c mod N \<and> u * (c - 1) = v * N + 1)"
    and big: "nat N < (prod_list fs + 1) * (prod_list fs + 1)"
  shows "is_prime (nat N)"
proof (rule pocklington [OF _ dist _ big])
  show "1 < nat N"
    using N by simp
  have conv: "nat a ^ e mod nat N = nat (a ^ e mod N)" for e
    using a N by (simp add: nat_mod_distrib nat_power_eq)
  have n1: "nat N - 1 = nat (N - 1)"
    using N by simp
  show "\<forall>f\<in>set fs. is_prime f \<and> f dvd nat N - 1 \<and>
          (\<exists>a c. a ^ (nat N - 1) mod nat N = 1 \<and> a ^ ((nat N - 1) div f) mod nat N = c \<and>
                 coprime (c - 1) (nat N))"
  proof
    fix f assume "f \<in> set fs"
    with fs obtain c u v where f: "is_prime f" "f dvd nat (N - 1)"
      and c: "a ^ (nat (N - 1) div f) mod N = c mod N" and bz: "u * (c - 1) = v * N + 1"
      by blast
    define e where "e = nat (N - 1) div f"
    define cm where "cm = c mod N"
    have ef: "nat (N - 1) = e * f"
      using f(2) by (simp add: e_def)
    have cm: "0 \<le> cm" "cm < N"
      using N by (simp_all add: cm_def)
    have "cm \<noteq> 0"
    proof
      assume "cm = 0"
      then have "a ^ e mod N = 0"
        using c by (simp add: e_def cm_def)
      then have "(a ^ e mod N) ^ f mod N = 0 ^ f mod N"
        by simp
      moreover have "0 < f"
        using f(1) by (simp add: is_prime_def)
      ultimately have "(a ^ e mod N) ^ f mod N = 0"
        by (simp add: zero_power)
      then have "(a ^ e) ^ f mod N = 0"
        by (simp only: power_mod)
      then have "a ^ nat (N - 1) mod N = 0"
        by (simp add: ef power_mult)
      with one show False by simp
    qed
    with cm have cm1: "1 \<le> cm" by simp
    define t where "t = c div N"
    have eq: "cm = c - t * N"
      by (simp add: cm_def t_def minus_div_mult_eq_mod)
    have "u * (cm - 1) = u * (c - 1) - (u * t) * N"
      unfolding eq by (simp add: algebra_simps)
    also have "\<dots> = (v * N + 1) - (u * t) * N"
      by (simp only: bz)
    also have "\<dots> = (v - u * t) * N + 1"
      by (simp add: algebra_simps)
    finally have "coprime (cm - 1) N"
      by (rule bezout_coprime_int)
    then have "coprime (int (nat (cm - 1))) (int (nat N))"
      using cm1 N by simp
    then have "coprime (nat (cm - 1)) (nat N)"
      by (simp only: coprime_int_iff)
    moreover have "nat (cm - 1) = nat cm - 1"
      using cm1 by simp
    ultimately have cop: "coprime (nat cm - 1) (nat N)"
      by simp
    have "nat a ^ (nat N - 1) mod nat N = nat (a ^ nat (N - 1) mod N)"
      by (simp only: conv n1)
    then have "nat a ^ (nat N - 1) mod nat N = 1"
      by (simp only: one nat_1)
    moreover have "nat a ^ ((nat N - 1) div f) mod nat N = nat (a ^ (nat (N - 1) div f) mod N)"
      by (simp only: conv n1)
    then have "nat a ^ ((nat N - 1) div f) mod nat N = nat cm"
      by (simp only: c cm_def)
    ultimately show "is_prime f \<and> f dvd nat N - 1 \<and>
          (\<exists>a c. a ^ (nat N - 1) mod nat N = 1 \<and> a ^ ((nat N - 1) div f) mod nat N = c \<and>
                 coprime (c - 1) (nat N))"
      using f cop n1 by metis
  qed
qed

lemma pock_big:
  fixes k F :: nat
  assumes "0 < k" and "k < F"
  shows "k * F + 1 < (F + 1) * (F + 1)"
proof -
  have "k * F \<le> F * F"
    using assms by simp
  moreover have "(F + 1) * (F + 1) = F * F + 2 * F + 1"
    by (simp add: algebra_simps)
  ultimately show ?thesis
    using assms by linarith
qed

lemma pock_one:
  fixes N a b u v :: int and k f :: nat
  assumes f: "is_prime f"
    and N: "N = int (k * f) + 1" and k: "0 < k" "k < f" "0 \<le> a"
    and b: "a ^ k mod N = b" and one: "b ^ f mod N = 1"
    and bz: "u * (b - 1) = v * N + 1"
  shows "is_prime (nat N)"
proof (rule pocklington_int [where fs = "[f]" and a = a])
  have f0: "0 < f"
    using f by (simp add: is_prime_def)
  show "1 < N"
    using N k f0 by simp
  show "0 \<le> a" by (rule k(3))
  show "distinct [f]" by simp
  have n1: "nat (N - 1) = k * f"
    unfolding N by (simp only: add_diff_cancel_right' nat_int)
  have "a ^ (k * f) mod N = (a ^ k mod N) ^ f mod N"
    by (simp add: power_mult power_mod)
  then show "a ^ nat (N - 1) mod N = 1"
    using b one by (simp add: n1)
  have "b mod N = b"
    using b mod_mod_trivial by metis
  then have "a ^ (nat (N - 1) div f) mod N = b mod N"
    using b f0 by (simp add: n1)
  then show "\<forall>f\<in>set [f]. is_prime f \<and> f dvd nat (N - 1) \<and>
         (\<exists>c u v. a ^ (nat (N - 1) div f) mod N = c mod N \<and> u * (c - 1) = v * N + 1)"
    using f bz by (auto simp: n1)
  have "N = int (k * f + 1)"
    unfolding N by simp
  then have "nat N = k * f + 1"
    by (simp only: nat_int)
  then show "nat N < (prod_list [f] + 1) * (prod_list [f] + 1)"
    using pock_big [OF k(1,2)] by (simp only: prod_list.Cons prod_list.Nil mult_1_right)
qed

lemma pock_two:
  fixes N a b c1 c2 u1 v1 u2 v2 :: int and k f1 f2 :: nat
  assumes f: "is_prime f1" "is_prime f2" "f1 \<noteq> f2"
    and N: "N = int (k * f1 * f2) + 1" and k: "0 < k" "k < f1 * f2" "0 \<le> a"
    and b: "a ^ k mod N = b" and c1: "b ^ f2 mod N = c1" and c2: "b ^ f1 mod N = c2"
    and one: "c2 ^ f2 mod N = 1"
    and bz1: "u1 * (c1 - 1) = v1 * N + 1" and bz2: "u2 * (c2 - 1) = v2 * N + 1"
  shows "is_prime (nat N)"
proof (rule pocklington_int [where fs = "[f1, f2]" and a = a])
  have f0: "0 < f1" "0 < f2"
    using f by (simp_all add: is_prime_def)
  show "1 < N"
    using N k f0 by simp
  show "0 \<le> a" by (rule k(3))
  show "distinct [f1, f2]"
    using f(3) by simp
  have n1: "nat (N - 1) = k * f1 * f2"
    unfolding N by (simp only: add_diff_cancel_right' nat_int)
  have "a ^ (k * f2) mod N = (a ^ k mod N) ^ f2 mod N"
    by (simp add: power_mult power_mod)
  then have e1: "a ^ (k * f2) mod N = c1"
    using b c1 by simp
  have "a ^ (k * f1) mod N = (a ^ k mod N) ^ f1 mod N"
    by (simp add: power_mult power_mod)
  then have e2: "a ^ (k * f1) mod N = c2"
    using b c2 by simp
  have "a ^ (k * f1 * f2) mod N = (a ^ (k * f1) mod N) ^ f2 mod N"
    by (simp add: power_mult power_mod)
  then show "a ^ nat (N - 1) mod N = 1"
    using e2 one by (simp add: n1)
  have d1: "nat (N - 1) div f1 = k * f2" and d2: "nat (N - 1) div f2 = k * f1"
    using f0 by (simp_all add: n1)
  have m1: "c1 mod N = c1" and m2: "c2 mod N = c2"
    using c1 c2 by auto
  have "\<exists>c u v. a ^ (nat (N - 1) div f1) mod N = c mod N \<and> u * (c - 1) = v * N + 1"
    using e1 bz1 m1 unfolding d1 by metis
  moreover have "\<exists>c u v. a ^ (nat (N - 1) div f2) mod N = c mod N \<and> u * (c - 1) = v * N + 1"
    using e2 bz2 m2 unfolding d2 by metis
  ultimately show "\<forall>f\<in>set [f1, f2]. is_prime f \<and> f dvd nat (N - 1) \<and>
         (\<exists>c u v. a ^ (nat (N - 1) div f) mod N = c mod N \<and> u * (c - 1) = v * N + 1)"
    using f by (simp add: n1)
  have "N = int (k * (f1 * f2) + 1)"
    unfolding N by simp
  then have "nat N = k * (f1 * f2) + 1"
    by (simp only: nat_int)
  then show "nat N < (prod_list [f1, f2] + 1) * (prod_list [f1, f2] + 1)"
    using pock_big [OF k(1,2)] by (simp only: prod_list.Cons prod_list.Nil mult_1_right)
qed

lemma pock_euler:
  fixes N a b m u v :: int and k k2 e f :: nat
  assumes f: "is_prime f"
    and N: "N = int (2 * k * f) + 1" and k: "0 < k" "2 * k < f" "0 \<le> a"
    and k2: "k2 = 2 * k"
    and b: "a ^ k2 mod N = b" and d: "a ^ e mod N = m" and m: "m + 1 = N" and e: "e = k * f"
    and bz: "u * (b - 1) = v * N + 1"
  shows "is_prime (nat N)" and "a ^ e mod N = m"
proof -
  have f0: "0 < f"
    using f by (simp add: is_prime_def)
  have N1: "1 < N"
    using N k f0 by simp
  show "a ^ e mod N = m"
    by (rule d)
  have half: "a ^ (k * f) mod N = N - 1"
    using d m e by auto
  have "2 * k * f = k * f + k * f"
    by simp
  then have "a ^ (2 * k * f) = a ^ (k * f) * a ^ (k * f)"
    by (simp only: power_add)
  then have "a ^ (2 * k * f) mod N = (N - 1) * (N - 1) mod N"
    using half by (metis mod_mult_eq)
  also have "(N - 1) * (N - 1) = (N - 2) * N + 1"
    by (simp add: algebra_simps)
  finally have one: "a ^ (2 * k * f) mod N = 1"
    using N1 by simp
  have "b mod N = b"
    using b mod_mod_trivial by metis
  then have bm: "a ^ (2 * k) mod N = b mod N"
    using b k2 by simp
  show "is_prime (nat N)"
  proof (rule pocklington_int [where fs = "[f]" and a = a])
    show "1 < N" by fact
    show "0 \<le> a" by (rule k(3))
    show "distinct [f]" by simp
    have n1: "nat (N - 1) = 2 * k * f"
      unfolding N by (simp only: add_diff_cancel_right' nat_int)
    show "a ^ nat (N - 1) mod N = 1"
      using one by (simp add: n1)
    show "\<forall>f\<in>set [f]. is_prime f \<and> f dvd nat (N - 1) \<and>
         (\<exists>c u v. a ^ (nat (N - 1) div f) mod N = c mod N \<and> u * (c - 1) = v * N + 1)"
      using f f0 bm bz by (auto simp: n1)
    have "0 < 2 * k"
      using k by simp
    have "N = int (2 * k * f + 1)"
      unfolding N by simp
    then have "nat N = 2 * k * f + 1"
      by (simp only: nat_int)
    then show "nat N < (prod_list [f] + 1) * (prod_list [f] + 1)"
      using pock_big [OF \<open>0 < 2 * k\<close> k(2)] by (simp only: prod_list.Cons prod_list.Nil mult_1_right)
  qed
qed

lemma trial_division_list:
  assumes "1 < n" and "n < (k + 1) * (k + 1)" and "\<forall>d\<in>set [2..<Suc k]. \<not> d dvd n"
  shows "is_prime n"
  using assms(1,2) by (rule trial_division) (use assms(3) in auto)

subsection \<open>The certificates\<close>

text \<open>The factorisations used are
  \<open>p - 1 = 2\<^sup>2 \<cdot> 3 \<cdot> 65147 \<cdot> q\<^sub>1\<close>,
  \<open>q\<^sub>1 - 1 = k\<^sub>1 \<cdot> q\<^sub>2 \<cdot> 353\<close>,
  \<open>q\<^sub>2 - 1 = k\<^sub>2 \<cdot> q\<^sub>3 \<cdot> 75707\<close> and
  \<open>q\<^sub>3 - 1 = k\<^sub>3 \<cdot> 8574133 \<cdot> 127\<close>; the remaining primes are small.\<close>

lemma prime_991: "is_prime 991"
  by (rule trial_division_list [where k = 31]) simp_all

lemma prime_103: "is_prime 103"
  by (rule trial_division_list [where k = 10]) simp_all

lemma pw_8574133_a_0:
  "pow_chain 8574133 0 2
    [SqMul 0,
     Sq 0,
     SqMul 0,
     Sq 0,
     SqMul 0,
     Sq 512943,
     Sq 2924716]
    (1, 0) = Some (5087997, 84)"
  by (simp only: pow_chain.simps sq_numeral sq_one sqr.simps arith_simps rel_simps simp_thms if_True if_False of_nat_numeral diff_numeral_special mult_1_left mult_1_right diff_zero one_plus_numeral numeral_plus_one one_add_one)

lemma pw_8574133_a: "(2 :: int) ^ 84 mod 8574133 = 5087997"
  apply (rule pow_chain_result)
  apply (rule pow_chain_comp [OF pw_8574133_a_0])
  apply (rule pow_chain_start)
  apply (simp only: arith_simps rel_simps simp_thms if_True if_False of_nat_numeral diff_numeral_special mult_1_left mult_1_right diff_zero one_plus_numeral numeral_plus_one one_add_one)
  apply (simp only: arith_simps rel_simps simp_thms if_True if_False of_nat_numeral diff_numeral_special mult_1_left mult_1_right diff_zero one_plus_numeral numeral_plus_one one_add_one)
  done

lemma pw_8574133_b_0:
  "pow_chain 8574133 0 5087997
    [Sq 0,
     Mul 0,
     Sq 3019280,
     Mul 3078486,
     Sq 2582996,
     Sq 683345,
     Sq 3245746,
     Mul 4417527,
     Sq 1215,
     Mul 1028994,
     Sq 7512361,
     Mul 3882846]
    (1, 0) = Some (3435729, 103)"
  by (simp only: pow_chain.simps sq_numeral sq_one sqr.simps arith_simps rel_simps simp_thms if_True if_False of_nat_numeral diff_numeral_special mult_1_left mult_1_right diff_zero one_plus_numeral numeral_plus_one one_add_one)

lemma pw_8574133_b: "(5087997 :: int) ^ 103 mod 8574133 = 3435729"
  apply (rule pow_chain_result)
  apply (rule pow_chain_comp [OF pw_8574133_b_0])
  apply (rule pow_chain_start)
  apply (simp only: arith_simps rel_simps simp_thms if_True if_False of_nat_numeral diff_numeral_special mult_1_left mult_1_right diff_zero one_plus_numeral numeral_plus_one one_add_one)
  apply (simp only: arith_simps rel_simps simp_thms if_True if_False of_nat_numeral diff_numeral_special mult_1_left mult_1_right diff_zero one_plus_numeral numeral_plus_one one_add_one)
  done

lemma pw_8574133_c_0:
  "pow_chain 8574133 0 5087997
    [Sq 0,
     Mul 0,
     Sq 3019280,
     Mul 3078486,
     Sq 2582996,
     Mul 1436388,
     Sq 2918925,
     Mul 3713930,
     Sq 7941026,
     Sq 2057000,
     Mul 799423,
     Sq 6156172,
     Mul 3283425,
     Sq 66499,
     Mul 2812557,
     Sq 56663,
     Mul 464179,
     Sq 3683068,
     Mul 1507775]
    (1, 0) = Some (4321357, 991)"
  by (simp only: pow_chain.simps sq_numeral sq_one sqr.simps arith_simps rel_simps simp_thms if_True if_False of_nat_numeral diff_numeral_special mult_1_left mult_1_right diff_zero one_plus_numeral numeral_plus_one one_add_one)

lemma pw_8574133_c: "(5087997 :: int) ^ 991 mod 8574133 = 4321357"
  apply (rule pow_chain_result)
  apply (rule pow_chain_comp [OF pw_8574133_c_0])
  apply (rule pow_chain_start)
  apply (simp only: arith_simps rel_simps simp_thms if_True if_False of_nat_numeral diff_numeral_special mult_1_left mult_1_right diff_zero one_plus_numeral numeral_plus_one one_add_one)
  apply (simp only: arith_simps rel_simps simp_thms if_True if_False of_nat_numeral diff_numeral_special mult_1_left mult_1_right diff_zero one_plus_numeral numeral_plus_one one_add_one)
  done

lemma pw_8574133_d_0:
  "pow_chain 8574133 0 4321357
    [Sq 0,
     Mul 0,
     Sq 2177960,
     Mul 3836830,
     Sq 416235,
     Sq 5756074,
     Sq 5241445,
     Mul 3755929,
     Sq 585228,
     Mul 652767,
     Sq 5389509,
     Mul 1702179]
    (1, 0) = Some (1, 103)"
  by (simp only: pow_chain.simps sq_numeral sq_one sqr.simps arith_simps rel_simps simp_thms if_True if_False of_nat_numeral diff_numeral_special mult_1_left mult_1_right diff_zero one_plus_numeral numeral_plus_one one_add_one)

lemma pw_8574133_d: "(4321357 :: int) ^ 103 mod 8574133 = 1"
  apply (rule pow_chain_result)
  apply (rule pow_chain_comp [OF pw_8574133_d_0])
  apply (rule pow_chain_start)
  apply (simp only: arith_simps rel_simps simp_thms if_True if_False of_nat_numeral diff_numeral_special mult_1_left mult_1_right diff_zero one_plus_numeral numeral_plus_one one_add_one)
  apply (simp only: arith_simps rel_simps simp_thms if_True if_False of_nat_numeral diff_numeral_special mult_1_left mult_1_right diff_zero one_plus_numeral numeral_plus_one one_add_one)
  done

lemma prime_8574133: "is_prime 8574133"
proof -
  have f: "is_prime 991" "is_prime 103"
    by (rule prime_991, rule prime_103)
  have ne: "(991 :: nat) \<noteq> 103"
    by (simp only: arith_simps rel_simps simp_thms if_True if_False of_nat_numeral diff_numeral_special mult_1_left mult_1_right diff_zero one_plus_numeral numeral_plus_one one_add_one)
  have N: "(8574133 :: int) = int (84 * 991 * 103) + 1"
    by (simp only: arith_simps rel_simps simp_thms if_True if_False of_nat_numeral diff_numeral_special mult_1_left mult_1_right diff_zero one_plus_numeral numeral_plus_one one_add_one)
  have k: "(0 :: nat) < 84" "(84 :: nat) < 991 * 103" "(0 :: int) \<le> 2"
    by (simp_all only: arith_simps rel_simps simp_thms if_True if_False of_nat_numeral diff_numeral_special mult_1_left mult_1_right diff_zero one_plus_numeral numeral_plus_one one_add_one)
  have bz1: "(1014251 :: int) * (3435729 - 1) = 406419 * 8574133 + 1"
    by (simp only: arith_simps rel_simps simp_thms if_True if_False of_nat_numeral diff_numeral_special mult_1_left mult_1_right diff_zero one_plus_numeral numeral_plus_one one_add_one)
  have bz2: "(3531099 :: int) * (4321357 - 1) = 1779671 * 8574133 + 1"
    by (simp only: arith_simps rel_simps simp_thms if_True if_False of_nat_numeral diff_numeral_special mult_1_left mult_1_right diff_zero one_plus_numeral numeral_plus_one one_add_one)
  have "is_prime (nat 8574133)"
    by (rule pock_two [OF f ne N k pw_8574133_a pw_8574133_b pw_8574133_c pw_8574133_d bz1 bz2])
  then show ?thesis
    by (simp only: nat_numeral)
qed

lemma prime_127: "is_prime 127"
  by (rule trial_division_list [where k = 11]) simp_all

lemma pw_p25519_q3_a_0:
  "pow_chain 1919519569386763 0 2
    [SqMul 0,
     SqMul 0,
     Sq 0,
     SqMul 0,
     Sq 0,
     SqMul 4,
     SqMul 1840629916142345,
     SqMul 34469761756897,
     Sq 453802016913990,
     Sq 1416634798396968,
     SqMul 1974686855283399,
     Sq 478888398608285,
     SqMul 2701468174214852,
     SqMul 2495454636149599,
     SqMul 3407541923247214,
     Sq 637179460788402,
     SqMul 916495054618323,
     SqMul 3073864114255421,
     SqMul 115178006142640,
     SqMul 2895787476164672,
     Sq 66417359522449]
    (1, 0) = Some (354538099852037, 1762782)"
  by (simp only: pow_chain.simps sq_numeral sq_one sqr.simps arith_simps rel_simps simp_thms if_True if_False of_nat_numeral diff_numeral_special mult_1_left mult_1_right diff_zero one_plus_numeral numeral_plus_one one_add_one)

lemma pw_p25519_q3_a: "(2 :: int) ^ 1762782 mod 1919519569386763 = 354538099852037"
  apply (rule pow_chain_result)
  apply (rule pow_chain_comp [OF pw_p25519_q3_a_0])
  apply (rule pow_chain_start)
  apply (simp only: arith_simps rel_simps simp_thms if_True if_False of_nat_numeral diff_numeral_special mult_1_left mult_1_right diff_zero one_plus_numeral numeral_plus_one one_add_one)
  apply (simp only: arith_simps rel_simps simp_thms if_True if_False of_nat_numeral diff_numeral_special mult_1_left mult_1_right diff_zero one_plus_numeral numeral_plus_one one_add_one)
  done

lemma pw_p25519_q3_b_0:
  "pow_chain 1919519569386763 0 354538099852037
    [Sq 0,
     Mul 0,
     Sq 65483710742709,
     Mul 153717968670962,
     Sq 81263922900583,
     Mul 161871982124147,
     Sq 1876309915202121,
     Mul 131391573091692,
     Sq 87040015156283,
     Mul 221828987629001,
     Sq 643238586587509,
     Mul 73696995718674,
     Sq 1581256871039299,
     Mul 320847725722734]
    (1, 0) = Some (1059928654987441, 127)"
  by (simp only: pow_chain.simps sq_numeral sq_one sqr.simps arith_simps rel_simps simp_thms if_True if_False of_nat_numeral diff_numeral_special mult_1_left mult_1_right diff_zero one_plus_numeral numeral_plus_one one_add_one)

lemma pw_p25519_q3_b: "(354538099852037 :: int) ^ 127 mod 1919519569386763 = 1059928654987441"
  apply (rule pow_chain_result)
  apply (rule pow_chain_comp [OF pw_p25519_q3_b_0])
  apply (rule pow_chain_start)
  apply (simp only: arith_simps rel_simps simp_thms if_True if_False of_nat_numeral diff_numeral_special mult_1_left mult_1_right diff_zero one_plus_numeral numeral_plus_one one_add_one)
  apply (simp only: arith_simps rel_simps simp_thms if_True if_False of_nat_numeral diff_numeral_special mult_1_left mult_1_right diff_zero one_plus_numeral numeral_plus_one one_add_one)
  done

lemma pw_p25519_q3_c_0:
  "pow_chain 1919519569386763 0 354538099852037
    [Sq 0,
     Mul 0,
     Sq 65483710742709,
     Sq 360841095049850,
     Sq 177978047697117,
     Sq 170442255758494,
     Sq 1086449805246546,
     Sq 1302931708151749,
     Mul 129469305574962,
     Sq 412594229657409,
     Sq 71065794889,
     Mul 188111325290580,
     Sq 103583606713124,
     Mul 154768109866438,
     Sq 843060372216743,
     Sq 1738363809053,
     Mul 121575916949824,
     Sq 564408530128393,
     Sq 32113729371105,
     Mul 81645756492672,
     Sq 68139834226151,
     Sq 1501606125650118,
     Sq 908047006454729,
     Mul 76840050630612,
     Sq 93847838601207,
     Sq 60465252576424,
     Mul 249978568487462,
     Sq 19429705827679,
     Mul 315314841057128,
     Sq 124857319569,
     Sq 73959687547323,
     Mul 267909951794175,
     Sq 66235724277474,
     Sq 221969716247403,
     Mul 125731045820326]
    (1, 0) = Some (576774792492622, 8574133)"
  by (simp only: pow_chain.simps sq_numeral sq_one sqr.simps arith_simps rel_simps simp_thms if_True if_False of_nat_numeral diff_numeral_special mult_1_left mult_1_right diff_zero one_plus_numeral numeral_plus_one one_add_one)

lemma pw_p25519_q3_c: "(354538099852037 :: int) ^ 8574133 mod 1919519569386763 = 576774792492622"
  apply (rule pow_chain_result)
  apply (rule pow_chain_comp [OF pw_p25519_q3_c_0])
  apply (rule pow_chain_start)
  apply (simp only: arith_simps rel_simps simp_thms if_True if_False of_nat_numeral diff_numeral_special mult_1_left mult_1_right diff_zero one_plus_numeral numeral_plus_one one_add_one)
  apply (simp only: arith_simps rel_simps simp_thms if_True if_False of_nat_numeral diff_numeral_special mult_1_left mult_1_right diff_zero one_plus_numeral numeral_plus_one one_add_one)
  done

lemma pw_p25519_q3_d_0:
  "pow_chain 1919519569386763 0 576774792492622
    [Sq 0,
     Mul 0,
     Sq 173308554161386,
     Mul 306463110284087,
     Sq 960587928800259,
     Mul 125455877672296,
     Sq 300479663698404,
     Mul 345150634565688,
     Sq 3206582020358,
     Mul 538483156457196,
     Sq 908483512977205,
     Mul 15676062056764,
     Sq 1494899165728531,
     Mul 562065407042555]
    (1, 0) = Some (1, 127)"
  by (simp only: pow_chain.simps sq_numeral sq_one sqr.simps arith_simps rel_simps simp_thms if_True if_False of_nat_numeral diff_numeral_special mult_1_left mult_1_right diff_zero one_plus_numeral numeral_plus_one one_add_one)

lemma pw_p25519_q3_d: "(576774792492622 :: int) ^ 127 mod 1919519569386763 = 1"
  apply (rule pow_chain_result)
  apply (rule pow_chain_comp [OF pw_p25519_q3_d_0])
  apply (rule pow_chain_start)
  apply (simp only: arith_simps rel_simps simp_thms if_True if_False of_nat_numeral diff_numeral_special mult_1_left mult_1_right diff_zero one_plus_numeral numeral_plus_one one_add_one)
  apply (simp only: arith_simps rel_simps simp_thms if_True if_False of_nat_numeral diff_numeral_special mult_1_left mult_1_right diff_zero one_plus_numeral numeral_plus_one one_add_one)
  done

lemma prime_p25519_q3: "is_prime 1919519569386763"
proof -
  have f: "is_prime 8574133" "is_prime 127"
    by (rule prime_8574133, rule prime_127)
  have ne: "(8574133 :: nat) \<noteq> 127"
    by (simp only: arith_simps rel_simps simp_thms if_True if_False of_nat_numeral diff_numeral_special mult_1_left mult_1_right diff_zero one_plus_numeral numeral_plus_one one_add_one)
  have N: "(1919519569386763 :: int) = int (1762782 * 8574133 * 127) + 1"
    by (simp only: arith_simps rel_simps simp_thms if_True if_False of_nat_numeral diff_numeral_special mult_1_left mult_1_right diff_zero one_plus_numeral numeral_plus_one one_add_one)
  have k: "(0 :: nat) < 1762782" "(1762782 :: nat) < 8574133 * 127" "(0 :: int) \<le> 2"
    by (simp_all only: arith_simps rel_simps simp_thms if_True if_False of_nat_numeral diff_numeral_special mult_1_left mult_1_right diff_zero one_plus_numeral numeral_plus_one one_add_one)
  have bz1: "(1290547218147893 :: int) * (1059928654987441 - 1) = 712619969572013 * 1919519569386763 + 1"
    by (simp only: arith_simps rel_simps simp_thms if_True if_False of_nat_numeral diff_numeral_special mult_1_left mult_1_right diff_zero one_plus_numeral numeral_plus_one one_add_one)
  have bz2: "(1870148777187772 :: int) * (576774792492622 - 1) = 561939919808897 * 1919519569386763 + 1"
    by (simp only: arith_simps rel_simps simp_thms if_True if_False of_nat_numeral diff_numeral_special mult_1_left mult_1_right diff_zero one_plus_numeral numeral_plus_one one_add_one)
  have "is_prime (nat 1919519569386763)"
    by (rule pock_two [OF f ne N k pw_p25519_q3_a pw_p25519_q3_b pw_p25519_q3_c pw_p25519_q3_d bz1 bz2])
  then show ?thesis
    by (simp only: nat_numeral)
qed

lemma prime_83: "is_prime 83"
  by (rule trial_division_list [where k = 9]) simp_all

lemma prime_19: "is_prime 19"
  by (rule trial_division_list [where k = 4]) simp_all

lemma pw_9463_a_0:
  "pow_chain 9463 0 2
    [SqMul 0,
     SqMul 0,
     Sq 0]
    (1, 0) = Some (64, 6)"
  by (simp only: pow_chain.simps sq_numeral sq_one sqr.simps arith_simps rel_simps simp_thms if_True if_False of_nat_numeral diff_numeral_special mult_1_left mult_1_right diff_zero one_plus_numeral numeral_plus_one one_add_one)

lemma pw_9463_a: "(2 :: int) ^ 6 mod 9463 = 64"
  apply (rule pow_chain_result)
  apply (rule pow_chain_comp [OF pw_9463_a_0])
  apply (rule pow_chain_start)
  apply (simp only: arith_simps rel_simps simp_thms if_True if_False of_nat_numeral diff_numeral_special mult_1_left mult_1_right diff_zero one_plus_numeral numeral_plus_one one_add_one)
  apply (simp only: arith_simps rel_simps simp_thms if_True if_False of_nat_numeral diff_numeral_special mult_1_left mult_1_right diff_zero one_plus_numeral numeral_plus_one one_add_one)
  done

lemma pw_9463_b_0:
  "pow_chain 9463 0 64
    [SqMul 0,
     Sq 0,
     Sq 1772,
     SqMul 521362,
     SqMul 547087]
    (1, 0) = Some (6023, 19)"
  by (simp only: pow_chain.simps sq_numeral sq_one sqr.simps arith_simps rel_simps simp_thms if_True if_False of_nat_numeral diff_numeral_special mult_1_left mult_1_right diff_zero one_plus_numeral numeral_plus_one one_add_one)

lemma pw_9463_b: "(64 :: int) ^ 19 mod 9463 = 6023"
  apply (rule pow_chain_result)
  apply (rule pow_chain_comp [OF pw_9463_b_0])
  apply (rule pow_chain_start)
  apply (simp only: arith_simps rel_simps simp_thms if_True if_False of_nat_numeral diff_numeral_special mult_1_left mult_1_right diff_zero one_plus_numeral numeral_plus_one one_add_one)
  apply (simp only: arith_simps rel_simps simp_thms if_True if_False of_nat_numeral diff_numeral_special mult_1_left mult_1_right diff_zero one_plus_numeral numeral_plus_one one_add_one)
  done

lemma pw_9463_c_0:
  "pow_chain 9463 0 64
    [SqMul 0,
     Sq 0,
     SqMul 113467,
     Sq 1371,
     Sq 6488,
     SqMul 326866,
     SqMul 285568]
    (1, 0) = Some (6272, 83)"
  by (simp only: pow_chain.simps sq_numeral sq_one sqr.simps arith_simps rel_simps simp_thms if_True if_False of_nat_numeral diff_numeral_special mult_1_left mult_1_right diff_zero one_plus_numeral numeral_plus_one one_add_one)

lemma pw_9463_c: "(64 :: int) ^ 83 mod 9463 = 6272"
  apply (rule pow_chain_result)
  apply (rule pow_chain_comp [OF pw_9463_c_0])
  apply (rule pow_chain_start)
  apply (simp only: arith_simps rel_simps simp_thms if_True if_False of_nat_numeral diff_numeral_special mult_1_left mult_1_right diff_zero one_plus_numeral numeral_plus_one one_add_one)
  apply (simp only: arith_simps rel_simps simp_thms if_True if_False of_nat_numeral diff_numeral_special mult_1_left mult_1_right diff_zero one_plus_numeral numeral_plus_one one_add_one)
  done

lemma pw_9463_d_0:
  "pow_chain 9463 0 6272
    [SqMul 0,
     Sq 4157,
     Sq 9,
     SqMul 308280,
     SqMul 11076409]
    (1, 0) = Some (1, 19)"
  by (simp only: pow_chain.simps sq_numeral sq_one sqr.simps arith_simps rel_simps simp_thms if_True if_False of_nat_numeral diff_numeral_special mult_1_left mult_1_right diff_zero one_plus_numeral numeral_plus_one one_add_one)

lemma pw_9463_d: "(6272 :: int) ^ 19 mod 9463 = 1"
  apply (rule pow_chain_result)
  apply (rule pow_chain_comp [OF pw_9463_d_0])
  apply (rule pow_chain_start)
  apply (simp only: arith_simps rel_simps simp_thms if_True if_False of_nat_numeral diff_numeral_special mult_1_left mult_1_right diff_zero one_plus_numeral numeral_plus_one one_add_one)
  apply (simp only: arith_simps rel_simps simp_thms if_True if_False of_nat_numeral diff_numeral_special mult_1_left mult_1_right diff_zero one_plus_numeral numeral_plus_one one_add_one)
  done

lemma prime_9463: "is_prime 9463"
proof -
  have f: "is_prime 83" "is_prime 19"
    by (rule prime_83, rule prime_19)
  have ne: "(83 :: nat) \<noteq> 19"
    by (simp only: arith_simps rel_simps simp_thms if_True if_False of_nat_numeral diff_numeral_special mult_1_left mult_1_right diff_zero one_plus_numeral numeral_plus_one one_add_one)
  have N: "(9463 :: int) = int (6 * 83 * 19) + 1"
    by (simp only: arith_simps rel_simps simp_thms if_True if_False of_nat_numeral diff_numeral_special mult_1_left mult_1_right diff_zero one_plus_numeral numeral_plus_one one_add_one)
  have k: "(0 :: nat) < 6" "(6 :: nat) < 83 * 19" "(0 :: int) \<le> 2"
    by (simp_all only: arith_simps rel_simps simp_thms if_True if_False of_nat_numeral diff_numeral_special mult_1_left mult_1_right diff_zero one_plus_numeral numeral_plus_one one_add_one)
  have bz1: "(11 :: int) * (6023 - 1) = 7 * 9463 + 1"
    by (simp only: arith_simps rel_simps simp_thms if_True if_False of_nat_numeral diff_numeral_special mult_1_left mult_1_right diff_zero one_plus_numeral numeral_plus_one one_add_one)
  have bz2: "(9128 :: int) * (6272 - 1) = 6049 * 9463 + 1"
    by (simp only: arith_simps rel_simps simp_thms if_True if_False of_nat_numeral diff_numeral_special mult_1_left mult_1_right diff_zero one_plus_numeral numeral_plus_one one_add_one)
  have "is_prime (nat 9463)"
    by (rule pock_two [OF f ne N k pw_9463_a pw_9463_b pw_9463_c pw_9463_d bz1 bz2])
  then show ?thesis
    by (simp only: nat_numeral)
qed

lemma pw_37853_a_0:
  "pow_chain 37853 0 2
    [SqMul 0,
     Sq 0,
     Sq 0]
    (1, 0) = Some (16, 4)"
  by (simp only: pow_chain.simps sq_numeral sq_one sqr.simps arith_simps rel_simps simp_thms if_True if_False of_nat_numeral diff_numeral_special mult_1_left mult_1_right diff_zero one_plus_numeral numeral_plus_one one_add_one)

lemma pw_37853_a: "(2 :: int) ^ 4 mod 37853 = 16"
  apply (rule pow_chain_result)
  apply (rule pow_chain_comp [OF pw_37853_a_0])
  apply (rule pow_chain_start)
  apply (simp only: arith_simps rel_simps simp_thms if_True if_False of_nat_numeral diff_numeral_special mult_1_left mult_1_right diff_zero one_plus_numeral numeral_plus_one one_add_one)
  apply (simp only: arith_simps rel_simps simp_thms if_True if_False of_nat_numeral diff_numeral_special mult_1_left mult_1_right diff_zero one_plus_numeral numeral_plus_one one_add_one)
  done

lemma pw_37853_b_0:
  "pow_chain 37853 0 16
    [SqMul 0,
     Sq 0,
     Sq 1,
     SqMul 323926,
     Sq 646,
     Sq 2577,
     SqMul 324394,
     SqMul 74342,
     SqMul 215471,
     SqMul 476658,
     Sq 76,
     SqMul 168669,
     SqMul 196461,
     SqMul 37851]
    (1, 0) = Some (1, 9463)"
  by (simp only: pow_chain.simps sq_numeral sq_one sqr.simps arith_simps rel_simps simp_thms if_True if_False of_nat_numeral diff_numeral_special mult_1_left mult_1_right diff_zero one_plus_numeral numeral_plus_one one_add_one)

lemma pw_37853_b: "(16 :: int) ^ 9463 mod 37853 = 1"
  apply (rule pow_chain_result)
  apply (rule pow_chain_comp [OF pw_37853_b_0])
  apply (rule pow_chain_start)
  apply (simp only: arith_simps rel_simps simp_thms if_True if_False of_nat_numeral diff_numeral_special mult_1_left mult_1_right diff_zero one_plus_numeral numeral_plus_one one_add_one)
  apply (simp only: arith_simps rel_simps simp_thms if_True if_False of_nat_numeral diff_numeral_special mult_1_left mult_1_right diff_zero one_plus_numeral numeral_plus_one one_add_one)
  done

lemma prime_37853: "is_prime 37853"
proof -
  have f: "is_prime 9463"
    by (rule prime_9463)
  have N: "(37853 :: int) = int (4 * 9463) + 1"
    by (simp only: arith_simps rel_simps simp_thms if_True if_False of_nat_numeral diff_numeral_special mult_1_left mult_1_right diff_zero one_plus_numeral numeral_plus_one one_add_one)
  have k: "(0 :: nat) < 4" "(4 :: nat) < 9463" "(0 :: int) \<le> 2"
    by (simp_all only: arith_simps rel_simps simp_thms if_True if_False of_nat_numeral diff_numeral_special mult_1_left mult_1_right diff_zero one_plus_numeral numeral_plus_one one_add_one)
  have bz: "(32806 :: int) * (16 - 1) = 13 * 37853 + 1"
    by (simp only: arith_simps rel_simps simp_thms if_True if_False of_nat_numeral diff_numeral_special mult_1_left mult_1_right diff_zero one_plus_numeral numeral_plus_one one_add_one)
  have "is_prime (nat 37853)"
    by (rule pock_one [OF f N k pw_37853_a pw_37853_b bz])
  then show ?thesis
    by (simp only: nat_numeral)
qed

lemma pw_75707_a_0:
  "pow_chain 75707 0 2
    [SqMul 0,
     Sq 0]
    (1, 0) = Some (4, 2)"
  by (simp only: pow_chain.simps sq_numeral sq_one sqr.simps arith_simps rel_simps simp_thms if_True if_False of_nat_numeral diff_numeral_special mult_1_left mult_1_right diff_zero one_plus_numeral numeral_plus_one one_add_one)

lemma pw_75707_a: "(2 :: int) ^ 2 mod 75707 = 4"
  apply (rule pow_chain_result)
  apply (rule pow_chain_comp [OF pw_75707_a_0])
  apply (rule pow_chain_start)
  apply (simp only: arith_simps rel_simps simp_thms if_True if_False of_nat_numeral diff_numeral_special mult_1_left mult_1_right diff_zero one_plus_numeral numeral_plus_one one_add_one)
  apply (simp only: arith_simps rel_simps simp_thms if_True if_False of_nat_numeral diff_numeral_special mult_1_left mult_1_right diff_zero one_plus_numeral numeral_plus_one one_add_one)
  done

lemma pw_75707_b_0:
  "pow_chain 75707 0 4
    [SqMul 0,
     Sq 0,
     Sq 0,
     SqMul 3,
     Sq 16202,
     Sq 431,
     SqMul 52452,
     SqMul 56468,
     SqMul 105003,
     SqMul 99881,
     Sq 110,
     SqMul 222124,
     SqMul 93272,
     SqMul 60075,
     Sq 40796,
     SqMul 75705]
    (1, 0) = Some (1, 37853)"
  by (simp only: pow_chain.simps sq_numeral sq_one sqr.simps arith_simps rel_simps simp_thms if_True if_False of_nat_numeral diff_numeral_special mult_1_left mult_1_right diff_zero one_plus_numeral numeral_plus_one one_add_one)

lemma pw_75707_b: "(4 :: int) ^ 37853 mod 75707 = 1"
  apply (rule pow_chain_result)
  apply (rule pow_chain_comp [OF pw_75707_b_0])
  apply (rule pow_chain_start)
  apply (simp only: arith_simps rel_simps simp_thms if_True if_False of_nat_numeral diff_numeral_special mult_1_left mult_1_right diff_zero one_plus_numeral numeral_plus_one one_add_one)
  apply (simp only: arith_simps rel_simps simp_thms if_True if_False of_nat_numeral diff_numeral_special mult_1_left mult_1_right diff_zero one_plus_numeral numeral_plus_one one_add_one)
  done

lemma prime_75707: "is_prime 75707"
proof -
  have f: "is_prime 37853"
    by (rule prime_37853)
  have N: "(75707 :: int) = int (2 * 37853) + 1"
    by (simp only: arith_simps rel_simps simp_thms if_True if_False of_nat_numeral diff_numeral_special mult_1_left mult_1_right diff_zero one_plus_numeral numeral_plus_one one_add_one)
  have k: "(0 :: nat) < 2" "(2 :: nat) < 37853" "(0 :: int) \<le> 2"
    by (simp_all only: arith_simps rel_simps simp_thms if_True if_False of_nat_numeral diff_numeral_special mult_1_left mult_1_right diff_zero one_plus_numeral numeral_plus_one one_add_one)
  have bz: "(25236 :: int) * (4 - 1) = 1 * 75707 + 1"
    by (simp only: arith_simps rel_simps simp_thms if_True if_False of_nat_numeral diff_numeral_special mult_1_left mult_1_right diff_zero one_plus_numeral numeral_plus_one one_add_one)
  have "is_prime (nat 75707)"
    by (rule pock_one [OF f N k pw_75707_a pw_75707_b bz])
  then show ?thesis
    by (simp only: nat_numeral)
qed

lemma pw_p25519_q2_a_0:
  "pow_chain 75445702479781427272750846543864801 0 2
    [SqMul 0,
     SqMul 0,
     SqMul 0,
     Sq 0,
     SqMul 0,
     SqMul 0,
     Sq 4,
     Sq 12349624765068928822071100461047348,
     Sq 33621021657992470949921926666643584,
     Sq 198272550659346190544036434471250,
     Sq 33161880431896629406880514226607267,
     SqMul 135471008455379081300478780868368888,
     Sq 38010132944748157004686329429770579,
     SqMul 13514908525039073155039759937488542,
     SqMul 105113245714419064213833967653629363,
     Sq 32797006851056560022478741577518788]
    (1, 0) = Some (40354613555177331464301835929399781, 60438)"
  by (simp only: pow_chain.simps sq_numeral sq_one sqr.simps arith_simps rel_simps simp_thms if_True if_False of_nat_numeral diff_numeral_special mult_1_left mult_1_right diff_zero one_plus_numeral numeral_plus_one one_add_one)

lemma pw_p25519_q2_a_1:
  "pow_chain 75445702479781427272750846543864801 0 2
    [SqMul 43169982693821950715236044023086731,
     SqMul 10325889019458795913731314481511818,
     Sq 12280910050073486657473092661313550,
     SqMul 401067603830883446685674940017650,
     Sq 10880577152216513409636735175183691,
     SqMul 27738645002459562443816125658020077,
     Sq 4834261886431991532113450285083916,
     SqMul 132326127076071379335065496953392129,
     Sq 22070548691964356040872921584905127,
     Sq 17641429140131298247056658152274818,
     SqMul 902693156431597784674000356103110,
     SqMul 44050943438707846970263897834893771,
     Sq 49739499554289057084803866498933003,
     Sq 49590713508212383818755104981310924,
     SqMul 7414429243915874391304237877152641,
     Sq 7967522686072408972914671285352012]
    (40354613555177331464301835929399781, 60438) = Some (45407714540484482832482964665971957, 3960919346)"
  by (simp only: pow_chain.simps sq_numeral sq_one sqr.simps arith_simps rel_simps simp_thms if_True if_False of_nat_numeral diff_numeral_special mult_1_left mult_1_right diff_zero one_plus_numeral numeral_plus_one one_add_one)

lemma pw_p25519_q2_a_2:
  "pow_chain 75445702479781427272750846543864801 0 2
    [SqMul 54658130868161261404141053862766565,
     SqMul 105357924551440756022884134000398037,
     Sq 20164544008214924173599876583882804,
     SqMul 59773459629522247694357519141696410,
     SqMul 44177148223627076101819239783665203,
     SqMul 16545478282384186238790567451229143,
     SqMul 16188724454622283241158933037323727,
     Sq 42777985851115273348228816930773228,
     Sq 7653954588277878494899425458506429,
     SqMul 80471156060026615324989627492823602,
     SqMul 74034848348256118398923896451723789,
     SqMul 63725517832505747090461799514942931,
     Sq 19442919668352252761838371693377040,
     Sq 2039337605904560067044421497963657,
     Sq 9349552624780997057005442888305303,
     Sq 46322679860453745416441923839267972]
    (45407714540484482832482964665971957, 3960919346) = Some (22688739986521322249408224801127757, 259582810316400)"
  by (simp only: pow_chain.simps sq_numeral sq_one sqr.simps arith_simps rel_simps simp_thms if_True if_False of_nat_numeral diff_numeral_special mult_1_left mult_1_right diff_zero one_plus_numeral numeral_plus_one one_add_one)

lemma pw_p25519_q2_a_3:
  "pow_chain 75445702479781427272750846543864801 0 2
    [Sq 6823170906439983739697550396165898]
    (22688739986521322249408224801127757, 259582810316400) = Some (66628784550627212900504873757094751, 519165620632800)"
  by (simp only: pow_chain.simps sq_numeral sq_one sqr.simps arith_simps rel_simps simp_thms if_True if_False of_nat_numeral diff_numeral_special mult_1_left mult_1_right diff_zero one_plus_numeral numeral_plus_one one_add_one)

lemma pw_p25519_q2_a: "(2 :: int) ^ 519165620632800 mod 75445702479781427272750846543864801 = 66628784550627212900504873757094751"
  apply (rule pow_chain_result)
  apply (rule pow_chain_comp [OF pw_p25519_q2_a_3])
  apply (rule pow_chain_comp [OF pw_p25519_q2_a_2])
  apply (rule pow_chain_comp [OF pw_p25519_q2_a_1])
  apply (rule pow_chain_comp [OF pw_p25519_q2_a_0])
  apply (rule pow_chain_start)
  apply (simp only: arith_simps rel_simps simp_thms if_True if_False of_nat_numeral diff_numeral_special mult_1_left mult_1_right diff_zero one_plus_numeral numeral_plus_one one_add_one)
  apply (simp only: arith_simps rel_simps simp_thms if_True if_False of_nat_numeral diff_numeral_special mult_1_left mult_1_right diff_zero one_plus_numeral numeral_plus_one one_add_one)
  done

lemma pw_p25519_q2_b_0:
  "pow_chain 75445702479781427272750846543864801 0 66628784550627212900504873757094751
    [Sq 0,
     Mul 0,
     Sq 58842250582577660957808674959263795,
     Sq 49277607181293684658487278668732724,
     Sq 20792804794218124477549759331620377,
     Mul 45573502635159066496802492453984183,
     Sq 34264366114740736728228295148725288,
     Sq 55308738385377501861322062076548826,
     Sq 33277511765172175967067827271593117,
     Mul 24554066944655073710512652985116739,
     Sq 37069428853136772941826026957658442,
     Mul 20648599826289998966560573845388838,
     Sq 2389818587429137053995243632048662,
     Mul 17644785315377870751376766917454034,
     Sq 4313690737251073339501606674079175,
     Mul 655581339902524250477991182396204]
    (1, 0) = Some (42377223134056996222579939403698571, 591)"
  by (simp only: pow_chain.simps sq_numeral sq_one sqr.simps arith_simps rel_simps simp_thms if_True if_False of_nat_numeral diff_numeral_special mult_1_left mult_1_right diff_zero one_plus_numeral numeral_plus_one one_add_one)

lemma pw_p25519_q2_b_1:
  "pow_chain 75445702479781427272750846543864801 0 66628784550627212900504873757094751
    [Sq 23802933520765040364646328364950969,
     Sq 7686688053259589239514655201897544,
     Mul 17889870372564286312661520823606471,
     Sq 27376384864078846357046242122275821,
     Mul 9721945036911367082064396588131744,
     Sq 46475125990091661216466832333406167,
     Mul 56622285485986063393655880029815992,
     Sq 6540187841599358255157601886123663,
     Sq 4968631075716634272112202820643200,
     Mul 22986019810979142759375176031209601,
     Sq 607237164292971100644138481534254,
     Mul 36770957181815892367486581571323762]
    (42377223134056996222579939403698571, 591) = Some (56747016255153332959347766392083459, 75707)"
  by (simp only: pow_chain.simps sq_numeral sq_one sqr.simps arith_simps rel_simps simp_thms if_True if_False of_nat_numeral diff_numeral_special mult_1_left mult_1_right diff_zero one_plus_numeral numeral_plus_one one_add_one)

lemma pw_p25519_q2_b: "(66628784550627212900504873757094751 :: int) ^ 75707 mod 75445702479781427272750846543864801 = 56747016255153332959347766392083459"
  apply (rule pow_chain_result)
  apply (rule pow_chain_comp [OF pw_p25519_q2_b_1])
  apply (rule pow_chain_comp [OF pw_p25519_q2_b_0])
  apply (rule pow_chain_start)
  apply (simp only: arith_simps rel_simps simp_thms if_True if_False of_nat_numeral diff_numeral_special mult_1_left mult_1_right diff_zero one_plus_numeral numeral_plus_one one_add_one)
  apply (simp only: arith_simps rel_simps simp_thms if_True if_False of_nat_numeral diff_numeral_special mult_1_left mult_1_right diff_zero one_plus_numeral numeral_plus_one one_add_one)
  done

lemma pw_p25519_q2_c_0:
  "pow_chain 75445702479781427272750846543864801 0 66628784550627212900504873757094751
    [Sq 0,
     Mul 0,
     Sq 58842250582577660957808674959263795,
     Mul 53847983340804058800347793890922021,
     Sq 27566193260799120198874168234572465,
     Sq 33227500425692895239709379527680956,
     Mul 3830856320660294510026167555816104,
     Sq 33500287856121564718249384069288246,
     Mul 7856817389284286943787601010337071,
     Sq 3005695843056614408798069223310651,
     Sq 34343239504047278475359608932159069,
     Mul 22063487879510236306205653306859280,
     Sq 5960765738996842509900349398755380,
     Sq 509984214234388568663219653978768,
     Sq 3843367530206586859383942845989378,
     Sq 3172410543641803288244086781995507]
    (1, 0) = Some (37423074385011596365115043286581134, 1744)"
  by (simp only: pow_chain.simps sq_numeral sq_one sqr.simps arith_simps rel_simps simp_thms if_True if_False of_nat_numeral diff_numeral_special mult_1_left mult_1_right diff_zero one_plus_numeral numeral_plus_one one_add_one)

lemma pw_p25519_q2_c_1:
  "pow_chain 75445702479781427272750846543864801 0 66628784550627212900504873757094751
    [Mul 33049648667387653573578381939394604,
     Sq 17753007872828846028305527217341166,
     Mul 35536308151395294750355420663605406,
     Sq 42714302213638494446885433130241126,
     Mul 43653198830164785657904205183640860,
     Sq 57917368002672703301378141076431754,
     Sq 11654005274549840315002594380601415,
     Sq 63597150140557214488257978921252224,
     Mul 39587405192785570091189974579481118,
     Sq 50832844096056554294805158564645367,
     Sq 178658374811427607911067797220977,
     Mul 13241511206357500550664868382121834,
     Sq 4376874449808655580297838594907539,
     Sq 26998125833172310471767545206709496,
     Mul 19851295027103138394613052065447908,
     Sq 58364066340595528314735362658300380]
    (37423074385011596365115043286581134, 1744) = Some (73128614271982049812970129697833636, 1787690)"
  by (simp only: pow_chain.simps sq_numeral sq_one sqr.simps arith_simps rel_simps simp_thms if_True if_False of_nat_numeral diff_numeral_special mult_1_left mult_1_right diff_zero one_plus_numeral numeral_plus_one one_add_one)

lemma pw_p25519_q2_c_2:
  "pow_chain 75445702479781427272750846543864801 0 66628784550627212900504873757094751
    [Mul 64582481502105171701194287398778424,
     Sq 10267629542353421294331777892958017,
     Mul 42621612245142870281384971719998493,
     Sq 8953386529388507915872260489149338,
     Mul 38375363787970894897048008316661343,
     Sq 544347107344650029095293954027446,
     Mul 56280281359802723576452327528594978,
     Sq 25521279184298438336629115592594871,
     Sq 320089025156895178526393904833417,
     Mul 31502567230262702214181806243828764,
     Sq 20485111749409297922287802944089841,
     Sq 181038990040417890693125162772337,
     Sq 32644796500979449692632660404359959,
     Sq 33609473198928563722047436329839374,
     Sq 9942550920765499542772274344601414,
     Mul 35471891924989508096901716920881511]
    (73128614271982049812970129697833636, 1787690) = Some (16295263218532394017060548782396251, 1830596513)"
  by (simp only: pow_chain.simps sq_numeral sq_one sqr.simps arith_simps rel_simps simp_thms if_True if_False of_nat_numeral diff_numeral_special mult_1_left mult_1_right diff_zero one_plus_numeral numeral_plus_one one_add_one)

lemma pw_p25519_q2_c_3:
  "pow_chain 75445702479781427272750846543864801 0 66628784550627212900504873757094751
    [Sq 3519559028990619803787455643276467,
     Sq 24471711909953285496171467412388200,
     Sq 9375924606438985601313574159946523,
     Mul 64112334771380667273068461981315892,
     Sq 2401235668431479151440349606284176,
     Sq 15259871322161733945086437567815535,
     Mul 7631115603689164813401890003453432,
     Sq 21879351062967507041606997578724785,
     Sq 48434487063893540707759175614720721,
     Sq 52144056936439875185132715180166864,
     Mul 49719941299137883512032637908754259,
     Sq 46402350272517750860006803485921268,
     Mul 42485022590455403931470689781114579,
     Sq 39384957200658474052683731592372158,
     Mul 21290227424152624337535068942657066,
     Sq 7032123928200938099022897906086421]
    (16295263218532394017060548782396251, 1830596513) = Some (44496020952077669198809798285322779, 3749061658958)"
  by (simp only: pow_chain.simps sq_numeral sq_one sqr.simps arith_simps rel_simps simp_thms if_True if_False of_nat_numeral diff_numeral_special mult_1_left mult_1_right diff_zero one_plus_numeral numeral_plus_one one_add_one)

lemma pw_p25519_q2_c_4:
  "pow_chain 75445702479781427272750846543864801 0 66628784550627212900504873757094751
    [Sq 26242659495394373807616204861039562,
     Mul 59742098291928826245762295056783788,
     Sq 71287307507100075582670983059000424,
     Sq 41339941566489123423730415445072236,
     Sq 60132202542692727066618230387573765,
     Sq 66513699125609054793123719089409518,
     Sq 971118853518548801508961449886,
     Mul 3170180510661357189084675385487937,
     Sq 970991332609015759282308953103638,
     Sq 26759583456799816701018512665086148,
     Mul 8651051551168209758188679927346166,
     Sq 638933247366764501850946718990557,
     Mul 56157034350162451906801603687616430]
    (44496020952077669198809798285322779, 3749061658958) = Some (58781699294900834553279248901967638, 1919519569386763)"
  by (simp only: pow_chain.simps sq_numeral sq_one sqr.simps arith_simps rel_simps simp_thms if_True if_False of_nat_numeral diff_numeral_special mult_1_left mult_1_right diff_zero one_plus_numeral numeral_plus_one one_add_one)

lemma pw_p25519_q2_c: "(66628784550627212900504873757094751 :: int) ^ 1919519569386763 mod 75445702479781427272750846543864801 = 58781699294900834553279248901967638"
  apply (rule pow_chain_result)
  apply (rule pow_chain_comp [OF pw_p25519_q2_c_4])
  apply (rule pow_chain_comp [OF pw_p25519_q2_c_3])
  apply (rule pow_chain_comp [OF pw_p25519_q2_c_2])
  apply (rule pow_chain_comp [OF pw_p25519_q2_c_1])
  apply (rule pow_chain_comp [OF pw_p25519_q2_c_0])
  apply (rule pow_chain_start)
  apply (simp only: arith_simps rel_simps simp_thms if_True if_False of_nat_numeral diff_numeral_special mult_1_left mult_1_right diff_zero one_plus_numeral numeral_plus_one one_add_one)
  apply (simp only: arith_simps rel_simps simp_thms if_True if_False of_nat_numeral diff_numeral_special mult_1_left mult_1_right diff_zero one_plus_numeral numeral_plus_one one_add_one)
  done

lemma pw_p25519_q2_d_0:
  "pow_chain 75445702479781427272750846543864801 0 58781699294900834553279248901967638
    [Sq 0,
     Mul 0,
     Sq 45798343158407497127110698474487382,
     Sq 4922914699937485409093593917388130,
     Sq 1562407330492874243672395367803483,
     Mul 5594366890784051144258406127307009,
     Sq 19000215729530029768929209346235067,
     Sq 60296421032894417933556479848271721,
     Sq 6917569713853648614867514817242422,
     Mul 39190283342360239958493722273490157,
     Sq 2251123314352267030480506031871003,
     Mul 14610333115554965468130289858081024,
     Sq 42156724831270544294755543110527998,
     Mul 51524550823215985355971974326648900,
     Sq 25203992194771766636310515096247228,
     Mul 9683021259943095362232876689344398]
    (1, 0) = Some (41247452127839348557193559971532426, 591)"
  by (simp only: pow_chain.simps sq_numeral sq_one sqr.simps arith_simps rel_simps simp_thms if_True if_False of_nat_numeral diff_numeral_special mult_1_left mult_1_right diff_zero one_plus_numeral numeral_plus_one one_add_one)

lemma pw_p25519_q2_d_1:
  "pow_chain 75445702479781427272750846543864801 0 58781699294900834553279248901967638
    [Sq 22550685474687461188533698279991918,
     Sq 48152206643333589497237093668566556,
     Mul 56647885753167783215514198391044019,
     Sq 4263890881591438292096267642235410,
     Mul 21375277442470514930759641923292021,
     Sq 3578369285089823813784694148513567,
     Mul 30091345266560862173574969199297830,
     Sq 17743944855969348485054655524703778,
     Sq 28827331252394096672055531469096956,
     Mul 20847758858929449262312963289540681,
     Sq 10641487448721832804665174764400243,
     Mul 48148993342020981095484227794596083]
    (41247452127839348557193559971532426, 591) = Some (1, 75707)"
  by (simp only: pow_chain.simps sq_numeral sq_one sqr.simps arith_simps rel_simps simp_thms if_True if_False of_nat_numeral diff_numeral_special mult_1_left mult_1_right diff_zero one_plus_numeral numeral_plus_one one_add_one)

lemma pw_p25519_q2_d: "(58781699294900834553279248901967638 :: int) ^ 75707 mod 75445702479781427272750846543864801 = 1"
  apply (rule pow_chain_result)
  apply (rule pow_chain_comp [OF pw_p25519_q2_d_1])
  apply (rule pow_chain_comp [OF pw_p25519_q2_d_0])
  apply (rule pow_chain_start)
  apply (simp only: arith_simps rel_simps simp_thms if_True if_False of_nat_numeral diff_numeral_special mult_1_left mult_1_right diff_zero one_plus_numeral numeral_plus_one one_add_one)
  apply (simp only: arith_simps rel_simps simp_thms if_True if_False of_nat_numeral diff_numeral_special mult_1_left mult_1_right diff_zero one_plus_numeral numeral_plus_one one_add_one)
  done

lemma prime_p25519_q2: "is_prime 75445702479781427272750846543864801"
proof -
  have f: "is_prime 1919519569386763" "is_prime 75707"
    by (rule prime_p25519_q3, rule prime_75707)
  have ne: "(1919519569386763 :: nat) \<noteq> 75707"
    by (simp only: arith_simps rel_simps simp_thms if_True if_False of_nat_numeral diff_numeral_special mult_1_left mult_1_right diff_zero one_plus_numeral numeral_plus_one one_add_one)
  have N: "(75445702479781427272750846543864801 :: int) = int (519165620632800 * 1919519569386763 * 75707) + 1"
    by (simp only: arith_simps rel_simps simp_thms if_True if_False of_nat_numeral diff_numeral_special mult_1_left mult_1_right diff_zero one_plus_numeral numeral_plus_one one_add_one)
  have k: "(0 :: nat) < 519165620632800" "(519165620632800 :: nat) < 1919519569386763 * 75707" "(0 :: int) \<le> 2"
    by (simp_all only: arith_simps rel_simps simp_thms if_True if_False of_nat_numeral diff_numeral_special mult_1_left mult_1_right diff_zero one_plus_numeral numeral_plus_one one_add_one)
  have bz1: "(74602835786463724888147869570305675 :: int) * (56747016255153332959347766392083459 - 1) = 56113048138023733339996598108928949 * 75445702479781427272750846543864801 + 1"
    by (simp only: arith_simps rel_simps simp_thms if_True if_False of_nat_numeral diff_numeral_special mult_1_left mult_1_right diff_zero one_plus_numeral numeral_plus_one one_add_one)
  have bz2: "(8986369574106813140303762220009459 :: int) * (58781699294900834553279248901967638 - 1) = 7001513097443202581781503170404782 * 75445702479781427272750846543864801 + 1"
    by (simp only: arith_simps rel_simps simp_thms if_True if_False of_nat_numeral diff_numeral_special mult_1_left mult_1_right diff_zero one_plus_numeral numeral_plus_one one_add_one)
  have "is_prime (nat 75445702479781427272750846543864801)"
    by (rule pock_two [OF f ne N k pw_p25519_q2_a pw_p25519_q2_b pw_p25519_q2_c pw_p25519_q2_d bz1 bz2])
  then show ?thesis
    by (simp only: nat_numeral)
qed

lemma prime_353: "is_prime 353"
  by (rule trial_division_list [where k = 18]) simp_all

lemma pw_p25519_q1_a_0:
  "pow_chain 74058212732561358302231226437062788676166966415465897661863160754340907 0 2
    [SqMul 0,
     Sq 0,
     Sq 0,
     Sq 0,
     SqMul 0,
     Sq 0,
     Sq 0,
     SqMul 0]
    (1, 0) = Some (174224571863520493293247799005065324265472, 137)"
  by (simp only: pow_chain.simps sq_numeral sq_one sqr.simps arith_simps rel_simps simp_thms if_True if_False of_nat_numeral diff_numeral_special mult_1_left mult_1_right diff_zero one_plus_numeral numeral_plus_one one_add_one)

lemma pw_p25519_q1_a_1:
  "pow_chain 74058212732561358302231226437062788676166966415465897661863160754340907 0 2
    [Sq 409869484032,
     Sq 0,
     Sq 0,
     SqMul 0,
     SqMul 2307360069446315825524899840000000000000000,
     Sq 47050,
     SqMul 74514683798305327628518095363568399942665792637621267239572703356448270,
     Sq 15833985394330898980046317555477284167727483830796617933885360254580236]
    (174224571863520493293247799005065324265472, 137) = Some (31487460278635950127715805679633269798391889378087931287142966369578048, 35098)"
  by (simp only: pow_chain.simps sq_numeral sq_one sqr.simps arith_simps rel_simps simp_thms if_True if_False of_nat_numeral diff_numeral_special mult_1_left mult_1_right diff_zero one_plus_numeral numeral_plus_one one_add_one)

lemma pw_p25519_q1_a_2:
  "pow_chain 74058212732561358302231226437062788676166966415465897661863160754340907 0 2
    [Sq 13387578746722292930565486069956613918599957639931046215667995530597567,
     Sq 28798471862629386574879206150713643282918428576479220203247974368127939,
     SqMul 18160379228644867501659165935842394256671775398098304471814582989890073,
     Sq 52236616334794912372667557700857629169983041818249363379651602635630071,
     SqMul 137969719185159143853531581865335115426585725752841363585967022735716298,
     Sq 11253777202433569499858238560597692136617690948375988532181244372669115,
     SqMul 90010210150789130810318308214612281143334295334675510428931143249158768,
     Sq 1019845758173425792160613518910973233501274652366784458546886605499851]
    (31487460278635950127715805679633269798391889378087931287142966369578048, 35098) = Some (68436357296303454496151399257507687335220410736630604896101298717312619, 8985130)"
  by (simp only: pow_chain.simps sq_numeral sq_one sqr.simps arith_simps rel_simps simp_thms if_True if_False of_nat_numeral diff_numeral_special mult_1_left mult_1_right diff_zero one_plus_numeral numeral_plus_one one_add_one)

lemma pw_p25519_q1_a_3:
  "pow_chain 74058212732561358302231226437062788676166966415465897661863160754340907 0 2
    [SqMul 126482528464478743978855312943368975940927465725846084126117686008476843,
     Sq 34857826922768435286601435670915756747453828376053047666007790282519117,
     SqMul 9305231938639604201821043078628449117925432043277182984232411774233676,
     Sq 50937850608614194557756303716468573952610806193748460979923984930828300,
     Sq 58627968108130625824427696297408697832100500590074057607312147895691429,
     SqMul 114517438454119746754654429238335929704753635621525045373921540594464075,
     SqMul 36992981139581534216279795788600446774980587211147229831386676737440389,
     Sq 51936963390110033415046515193303051925222340628643772850151919474395075]
    (68436357296303454496151399257507687335220410736630604896101298717312619, 8985130) = Some (69290540134240288024647657273491975407399754318902192471608029708358200, 2300193446)"
  by (simp only: pow_chain.simps sq_numeral sq_one sqr.simps arith_simps rel_simps simp_thms if_True if_False of_nat_numeral diff_numeral_special mult_1_left mult_1_right diff_zero one_plus_numeral numeral_plus_one one_add_one)

lemma pw_p25519_q1_a_4:
  "pow_chain 74058212732561358302231226437062788676166966415465897661863160754340907 0 2
    [Sq 64829797735367408336938128264506442211488073533623373734388672581655218,
     SqMul 61819100367966077063450778088204930100822475823559472499455182525093556,
     SqMul 21070228325852140683888399013120269381426413250383575953305744543255546,
     Sq 71800650921155543721836008415969047749546301175929470971967016416092242,
     SqMul 3475647699042443514163302033163051665007413326952004540917179464500433,
     Sq 10920945578224464024905951027696991655296017921979378417308267499560881,
     SqMul 97211413465388166402534030387697700308553180861616721784622489411106193,
     Sq 60027438333037277145031572038313034701215722295698694354011087386294252]
    (69290540134240288024647657273491975407399754318902192471608029708358200, 2300193446) = Some (8928658044556030057302476414755707170505992661747304816605927013604677, 588849522282)"
  by (simp only: pow_chain.simps sq_numeral sq_one sqr.simps arith_simps rel_simps simp_thms if_True if_False of_nat_numeral diff_numeral_special mult_1_left mult_1_right diff_zero one_plus_numeral numeral_plus_one one_add_one)

lemma pw_p25519_q1_a_5:
  "pow_chain 74058212732561358302231226437062788676166966415465897661863160754340907 0 2
    [SqMul 2152926232894734960035271140577195101376652117338563580810126470101356,
     Sq 6387301054451037766370777720132155505312341758189154413692192790725535,
     Sq 43627592954451721515827485123268165953969054726138033891420518691457481,
     Sq 70713089371471205841818283894551325070381026176820143489846442233473244,
     SqMul 30791472820554101269363915882589458869271295653771491760714669390191168,
     Sq 15008623437242923515008800396133713264128119193840867899013593503798,
     Sq 28708466027570650123237317015856636371160743423336165632204110614829506,
     SqMul 18727145958538155832293501681274606460222100066349520127367513982987652]
    (8928658044556030057302476414755707170505992661747304816605927013604677, 588849522282) = Some (23669795189844650795582330074760675133760911470827818785871319143477084, 150745477704329)"
  by (simp only: pow_chain.simps sq_numeral sq_one sqr.simps arith_simps rel_simps simp_thms if_True if_False of_nat_numeral diff_numeral_special mult_1_left mult_1_right diff_zero one_plus_numeral numeral_plus_one one_add_one)

lemma pw_p25519_q1_a_6:
  "pow_chain 74058212732561358302231226437062788676166966415465897661863160754340907 0 2
    [Sq 7565119163115617732532039427537455990239232337230338293180515070624102,
     SqMul 118119398196203626449514212385414540299420176136701191352693573546104412,
     Sq 44836949579953446158047194178814084125237409573816803020668449668904594,
     Sq 6974681639058604228791051079785758913014943349539166009162208483249155,
     SqMul 4106212592661512435314541121622771394775514974327403911465802276602,
     SqMul 25800271339399517735356436996848985365539022397438890906036735203084169,
     Sq 38406353181464737402086878290810244269117168995743912259930129163795614,
     Sq 52297347016487045781323936900117974895175748363869297616152004428594791]
    (23669795189844650795582330074760675133760911470827818785871319143477084, 150745477704329) = Some (69756389635053270916769751840954793657318159515628265839700994318672692, 38590842292308300)"
  by (simp only: pow_chain.simps sq_numeral sq_one sqr.simps arith_simps rel_simps simp_thms if_True if_False of_nat_numeral diff_numeral_special mult_1_left mult_1_right diff_zero one_plus_numeral numeral_plus_one one_add_one)

lemma pw_p25519_q1_a_7:
  "pow_chain 74058212732561358302231226437062788676166966415465897661863160754340907 0 2
    [Sq 65704446750413426790513511897263753271041613417462674802793524341242524,
     Sq 1561123032289261621435851273216833220121298842741037503089585373921036,
     SqMul 19139245799760786093315019551038791800871306369581608610566240613564731,
     SqMul 69811859836250932780541475860763238124408145358679836283577363263858423,
     SqMul 14820680407747976230853138319060967720740977443904508763864612166311041,
     Sq 11546877522033806521992673399350469056167081417192088265519330937693412,
     Sq 2112428876666864186618366406608840232754739355051487690330639024561011,
     Sq 936925176971437545934253778316882367604319837793024762012109768329024]
    (69756389635053270916769751840954793657318159515628265839700994318672692, 38590842292308300) = Some (49081519655169855861054643538987111489757998373735909885607584579563648, 9879255626830924856)"
  by (simp only: pow_chain.simps sq_numeral sq_one sqr.simps arith_simps rel_simps simp_thms if_True if_False of_nat_numeral diff_numeral_special mult_1_left mult_1_right diff_zero one_plus_numeral numeral_plus_one one_add_one)

lemma pw_p25519_q1_a_8:
  "pow_chain 74058212732561358302231226437062788676166966415465897661863160754340907 0 2
    [SqMul 65056810926836094744051496705828121314709324315423727544554914054690799,
     Sq 9350878080952521875700497721291726840367470927039576971039258420993695,
     SqMul 24992356983382610188822841199009345582205844964211250264041908225607981,
     SqMul 4985217399862324423510389374369262543082762356519906405258878408258968,
     Sq 67112517010811635102488666427831865504924042628943042710094037915945346,
     SqMul 14238044068403376539824937436596728943254900605868698498199366954454233,
     Sq 5618666499691495807126396552912313084494090402336374094379632619271,
     SqMul 6005269761419876747685344577640468368374610221866344558529434893278363]
    (49081519655169855861054643538987111489757998373735909885607584579563648, 9879255626830924856) = Some (21342793751716097156403257792076191570114314948935833828830722708049687, 2529089440468716763317)"
  by (simp only: pow_chain.simps sq_numeral sq_one sqr.simps arith_simps rel_simps simp_thms if_True if_False of_nat_numeral diff_numeral_special mult_1_left mult_1_right diff_zero one_plus_numeral numeral_plus_one one_add_one)

lemma pw_p25519_q1_a_9:
  "pow_chain 74058212732561358302231226437062788676166966415465897661863160754340907 0 2
    [SqMul 12301534922892200305159289296348515179224497909372875291868766032450282,
     Sq 14614061570837985551146186310053580810251969850995571653264054324197312,
     SqMul 9339741993841093033129733846717355831627472345577170741067609738751740,
     SqMul 123441193038912743812453359947543327804939023444626231719941429555074474,
     Sq 17231536015831336010306924346217424109935363509732175822342063766577771,
     SqMul 73914497705350160147349454639555725717665054194217915733229746061130067,
     SqMul 23448526232977430068214754159186451735961668532442463172722479650910804,
     SqMul 107558079605302451956620274355607426893683342107919774459020284841763933]
    (21342793751716097156403257792076191570114314948935833828830722708049687, 2529089440468716763317) = Some (28109641040581334656471595035073624140881139835240194787291373960836521, 647446896759991491409335)"
  by (simp only: pow_chain.simps sq_numeral sq_one sqr.simps arith_simps rel_simps simp_thms if_True if_False of_nat_numeral diff_numeral_special mult_1_left mult_1_right diff_zero one_plus_numeral numeral_plus_one one_add_one)

lemma pw_p25519_q1_a_10:
  "pow_chain 74058212732561358302231226437062788676166966415465897661863160754340907 0 2
    [Sq 10669335516963217801512426758036260305487329029436598548467856511786906,
     Sq 33199291542733855867636776619366790950931134537838898358134655462577416,
     SqMul 92498428472253432111252761991569721231990966575470449093850057649674252,
     Sq 16220726909678730973570882524412520859163052593356601918997330266751566,
     Sq 70848952503306944618306943384598906726154563054466229108556457852664690,
     SqMul 1144625819803692912878376196593525551811462963635344365028158653140812,
     Sq 69220578912276195461413509505975552506984908009149598982072713839377318,
     Sq 72357789395748698281916504129766216838146155137180920065841511740346474]
    (28109641040581334656471595035073624140881139835240194787291373960836521, 647446896759991491409335) = Some (26078900540078926115701333141222934576614493254206861624238098010843766, 165746405570557821800789796)"
  by (simp only: pow_chain.simps sq_numeral sq_one sqr.simps arith_simps rel_simps simp_thms if_True if_False of_nat_numeral diff_numeral_special mult_1_left mult_1_right diff_zero one_plus_numeral numeral_plus_one one_add_one)

lemma pw_p25519_q1_a_11:
  "pow_chain 74058212732561358302231226437062788676166966415465897661863160754340907 0 2
    [Sq 9183438652986877548778705698264296621334553505925992980805507118802335,
     Sq 37271308171276579580553807257154443377231952729369645311829116321723326,
     SqMul 2669433025390981622505073109104528335428458584535603893445658968484446,
     SqMul 1011049644905744592512754458804609693394569603960899864821028793619774,
     Sq 34777987207461289769184166585085868396131147682416870197714274362547600,
     Sq 43668937203485388400029836962508406910442468667402465807203082517253937,
     SqMul 60362212218184249380985394629302154781916964349760393379704277467675775,
     Sq 56553593241821134336448118469142118248643599658825429086573035706646788]
    (26078900540078926115701333141222934576614493254206861624238098010843766, 165746405570557821800789796) = Some (9433487258220986933732230397134204232347481522192327762253497892142493, 42431079826062802381002187826)"
  by (simp only: pow_chain.simps sq_numeral sq_one sqr.simps arith_simps rel_simps simp_thms if_True if_False of_nat_numeral diff_numeral_special mult_1_left mult_1_right diff_zero one_plus_numeral numeral_plus_one one_add_one)

lemma pw_p25519_q1_a_12:
  "pow_chain 74058212732561358302231226437062788676166966415465897661863160754340907 0 2
    [SqMul 2403263016145971865441166861993613275536732559539091456778802878397784,
     Sq 126200121106738344272058817232277011692061757938417029915314201635957,
     SqMul 132449585500727758632699772510327775120582273180073028643675354665972598,
     SqMul 77066085989618255497710104137328171584394178015135119429349298599600165,
     SqMul 246933947165323983237142343324215378101549220842160499804948236987897,
     SqMul 2971939327144610963545552933943701925743170431846035039847120055167176,
     SqMul 40277117869108310951483286279711244823428915395246035596721109879769078,
     SqMul 8690766107703130282318376330726843538021751236259439689882728173633043]
    (9433487258220986933732230397134204232347481522192327762253497892142493, 42431079826062802381002187826) = Some (7141097368845564003495518110187726328391990547630071249223388475022231, 10862356435472077409536560083647)"
  by (simp only: pow_chain.simps sq_numeral sq_one sqr.simps arith_simps rel_simps simp_thms if_True if_False of_nat_numeral diff_numeral_special mult_1_left mult_1_right diff_zero one_plus_numeral numeral_plus_one one_add_one)

lemma pw_p25519_q1_a_13:
  "pow_chain 74058212732561358302231226437062788676166966415465897661863160754340907 0 2
    [SqMul 1377167224261457756426694792048283975698319215783783260206472925330390,
     Sq 29313766342918937199157961658133500695343589402565071861925182636175802,
     SqMul 62446368491647204880183708032940288481365223783268449562668927925475335,
     Sq 614424843082132135648775999543683864240580576033304635453515047925487,
     SqMul 638081368659243455667579366406415822573503959288915894616754059686563,
     Sq 3666326164246346183012720482118194740317546314660472027792918941530735,
     SqMul 102496820069050227959867479821496619256627167596300591041626414079407647,
     Sq 3327397887921417304031829281087839545583407484674543942562647867227753]
    (7141097368845564003495518110187726328391990547630071249223388475022231, 10862356435472077409536560083647) = Some (25686082838651505011370039260590883329232637451457271664974363710626838, 2780763247480851816841359381413802)"
  by (simp only: pow_chain.simps sq_numeral sq_one sqr.simps arith_simps rel_simps simp_thms if_True if_False of_nat_numeral diff_numeral_special mult_1_left mult_1_right diff_zero one_plus_numeral numeral_plus_one one_add_one)

lemma pw_p25519_q1_a: "(2 :: int) ^ 2780763247480851816841359381413802 mod 74058212732561358302231226437062788676166966415465897661863160754340907 = 25686082838651505011370039260590883329232637451457271664974363710626838"
  apply (rule pow_chain_result)
  apply (rule pow_chain_comp [OF pw_p25519_q1_a_13])
  apply (rule pow_chain_comp [OF pw_p25519_q1_a_12])
  apply (rule pow_chain_comp [OF pw_p25519_q1_a_11])
  apply (rule pow_chain_comp [OF pw_p25519_q1_a_10])
  apply (rule pow_chain_comp [OF pw_p25519_q1_a_9])
  apply (rule pow_chain_comp [OF pw_p25519_q1_a_8])
  apply (rule pow_chain_comp [OF pw_p25519_q1_a_7])
  apply (rule pow_chain_comp [OF pw_p25519_q1_a_6])
  apply (rule pow_chain_comp [OF pw_p25519_q1_a_5])
  apply (rule pow_chain_comp [OF pw_p25519_q1_a_4])
  apply (rule pow_chain_comp [OF pw_p25519_q1_a_3])
  apply (rule pow_chain_comp [OF pw_p25519_q1_a_2])
  apply (rule pow_chain_comp [OF pw_p25519_q1_a_1])
  apply (rule pow_chain_comp [OF pw_p25519_q1_a_0])
  apply (rule pow_chain_start)
  apply (simp only: arith_simps rel_simps simp_thms if_True if_False of_nat_numeral diff_numeral_special mult_1_left mult_1_right diff_zero one_plus_numeral numeral_plus_one one_add_one)
  apply (simp only: arith_simps rel_simps simp_thms if_True if_False of_nat_numeral diff_numeral_special mult_1_left mult_1_right diff_zero one_plus_numeral numeral_plus_one one_add_one)
  done

lemma pw_p25519_q1_b_0:
  "pow_chain 74058212732561358302231226437062788676166966415465897661863160754340907 0 25686082838651505011370039260590883329232637451457271664974363710626838
    [Sq 0,
     Mul 0,
     Sq 8908868135619785355635835561760554916581680583022386454541910646600728,
     Sq 21394680706256391653772738587981889740256835741396897810390838937260990,
     Mul 14539285187754519973835762576431992967317854429353096549016226021804324,
     Sq 30526088725465375567708089242622356097570712153968773082607677235312927,
     Mul 20885670621306427089579025835068966905661895056100513109106005194861246,
     Sq 966522749157942967561712988976652524282342557212726590828093275951844]
    (1, 0) = Some (31629568520921214875502618052685466098344295851729552370902660857983988, 22)"
  by (simp only: pow_chain.simps sq_numeral sq_one sqr.simps arith_simps rel_simps simp_thms if_True if_False of_nat_numeral diff_numeral_special mult_1_left mult_1_right diff_zero one_plus_numeral numeral_plus_one one_add_one)

lemma pw_p25519_q1_b_1:
  "pow_chain 74058212732561358302231226437062788676166966415465897661863160754340907 0 25686082838651505011370039260590883329232637451457271664974363710626838
    [Sq 13508692255812283189457464848542721074899110681650959719292644752769394,
     Sq 376940827733328312781916256936884734008616669940870750866702116324930,
     Sq 11364995957461186655673396592087087969113192286024685136242924934061587,
     Sq 35877286075606686361035767978452768578899685388794657599296841205999601,
     Mul 7371269522867297349425841017487787929422473748271725562159849478889028]
    (31629568520921214875502618052685466098344295851729552370902660857983988, 22) = Some (69490809710348678725736597923071784769591275419387514694139338586948360, 353)"
  by (simp only: pow_chain.simps sq_numeral sq_one sqr.simps arith_simps rel_simps simp_thms if_True if_False of_nat_numeral diff_numeral_special mult_1_left mult_1_right diff_zero one_plus_numeral numeral_plus_one one_add_one)

lemma pw_p25519_q1_b: "(25686082838651505011370039260590883329232637451457271664974363710626838 :: int) ^ 353 mod 74058212732561358302231226437062788676166966415465897661863160754340907 = 69490809710348678725736597923071784769591275419387514694139338586948360"
  apply (rule pow_chain_result)
  apply (rule pow_chain_comp [OF pw_p25519_q1_b_1])
  apply (rule pow_chain_comp [OF pw_p25519_q1_b_0])
  apply (rule pow_chain_start)
  apply (simp only: arith_simps rel_simps simp_thms if_True if_False of_nat_numeral diff_numeral_special mult_1_left mult_1_right diff_zero one_plus_numeral numeral_plus_one one_add_one)
  apply (simp only: arith_simps rel_simps simp_thms if_True if_False of_nat_numeral diff_numeral_special mult_1_left mult_1_right diff_zero one_plus_numeral numeral_plus_one one_add_one)
  done

lemma pw_p25519_q1_c_0:
  "pow_chain 74058212732561358302231226437062788676166966415465897661863160754340907 0 25686082838651505011370039260590883329232637451457271664974363710626838
    [Sq 0,
     Mul 0,
     Sq 8908868135619785355635835561760554916581680583022386454541910646600728,
     Mul 13805882413512255194642145080879652063773023491081789781688006780700132,
     Sq 24738055068437573470930350890481228183249891307046756258937194156139932,
     Mul 12313772472589010903707103112480395173613355786819305177458746685794262,
     Sq 2884373566949150479498426913170197455376795218438733909078238953481542,
     Sq 822217039625591968633181167611391282194924933089520897998446971542889]
    (1, 0) = Some (39482965455687707356804891129261446497048713286886196030701100856468961, 28)"
  by (simp only: pow_chain.simps sq_numeral sq_one sqr.simps arith_simps rel_simps simp_thms if_True if_False of_nat_numeral diff_numeral_special mult_1_left mult_1_right diff_zero one_plus_numeral numeral_plus_one one_add_one)

lemma pw_p25519_q1_c_1:
  "pow_chain 74058212732561358302231226437062788676166966415465897661863160754340907 0 25686082838651505011370039260590883329232637451457271664974363710626838
    [Mul 13694129037015104431113089271916369697772896124089900864563218858806950,
     Sq 7130955745493624510086305896735356460818663409008416182264440069038828,
     Sq 9672691082518409701161493130510988119769149304058287012895583910408193,
     Sq 16880523607394723514468743935356333886434205354150673650698794343037643,
     Sq 23244112781958384863016228822454812013564773636871793266267736378736476,
     Sq 633030490809562215491801616172115940996301127686007828567089089984484,
     Mul 23883051236644230325708462403863000735519821878228870266645393073044304,
     Sq 28715158655076790984216817848632843281325038092169198107135386705302376]
    (39482965455687707356804891129261446497048713286886196030701100856468961, 28) = Some (33824071024571649221323628964782481779168018637594926259833486478464968, 1858)"
  by (simp only: pow_chain.simps sq_numeral sq_one sqr.simps arith_simps rel_simps simp_thms if_True if_False of_nat_numeral diff_numeral_special mult_1_left mult_1_right diff_zero one_plus_numeral numeral_plus_one one_add_one)

lemma pw_p25519_q1_c_2:
  "pow_chain 74058212732561358302231226437062788676166966415465897661863160754340907 0 25686082838651505011370039260590883329232637451457271664974363710626838
    [Mul 11731418545232979197969089707462261677075522775429158539386592104088313,
     Sq 3701444553801492613514456234611247804991836742745152933850313678007563,
     Mul 11469377782256616327243274413000975780120761743223800241617862954299300,
     Sq 68027541964978704356225545800457142324316261800152738582898677038709050,
     Mul 3274210470841540014348621584550358539054808757035663158502802099173945,
     Sq 10133621491648794890309591774842942251438161139665640222612543551995827,
     Mul 3063183398874227945359050210951865087070490120464374308472261956447251,
     Sq 30338042938474885030901134236051630506116807570233398229316997445898249]
    (33824071024571649221323628964782481779168018637594926259833486478464968, 1858) = Some (67866612168168471032109751989820249291412395788472225005358004164129886, 29758)"
  by (simp only: pow_chain.simps sq_numeral sq_one sqr.simps arith_simps rel_simps simp_thms if_True if_False of_nat_numeral diff_numeral_special mult_1_left mult_1_right diff_zero one_plus_numeral numeral_plus_one one_add_one)

lemma pw_p25519_q1_c_3:
  "pow_chain 74058212732561358302231226437062788676166966415465897661863160754340907 0 25686082838651505011370039260590883329232637451457271664974363710626838
    [Sq 62192657333188860192755474763953335797959269628881737915900412213687470,
     Sq 524116796371358039980106775898442810770105584504695717625798937451,
     Sq 3468669902444050573147376634960176487636819564640006334636041148215443,
     Sq 20549847803135942902371770110444598492561289686039039127362961650747412,
     Mul 7399398255131424987385518983859091791839679080828071906868895571558433,
     Sq 33497626588516087999032332267991691014051115429770301277415374821561399,
     Sq 4233186379276495178488524217481302782582637344188877123968548890849118,
     Mul 16740091962970820231612703777380280754845642948836111723777327906969488]
    (67866612168168471032109751989820249291412395788472225005358004164129886, 29758) = Some (7795415714129221753238566613556411137524920094496473718896485424165844, 1904517)"
  by (simp only: pow_chain.simps sq_numeral sq_one sqr.simps arith_simps rel_simps simp_thms if_True if_False of_nat_numeral diff_numeral_special mult_1_left mult_1_right diff_zero one_plus_numeral numeral_plus_one one_add_one)

lemma pw_p25519_q1_c_4:
  "pow_chain 74058212732561358302231226437062788676166966415465897661863160754340907 0 25686082838651505011370039260590883329232637451457271664974363710626838
    [Sq 820550536043041237996342293321063672532242979205373104921952240109178,
     Sq 2585545982056962236327416344510204709024225564865190476493413096832122,
     Mul 25531203090209351217695723554133035296572824030566858816290411295225127,
     Sq 48961367019934720050504104392348686916328658312888887153439430795722642,
     Sq 43634344005854264567384107483385442924698488823016102355790034726146085,
     Sq 3776992484224247396380682756343516384408777233627691970924719817504065,
     Mul 24107855865772997127573331105555964017165672241731615150702138176654484,
     Sq 2313157826647526307129999177112046209924290333940809508745553378622252]
    (7795415714129221753238566613556411137524920094496473718896485424165844, 1904517) = Some (26022302115055942816559189223040055676180976962478913277522595983073536, 121889106)"
  by (simp only: pow_chain.simps sq_numeral sq_one sqr.simps arith_simps rel_simps simp_thms if_True if_False of_nat_numeral diff_numeral_special mult_1_left mult_1_right diff_zero one_plus_numeral numeral_plus_one one_add_one)

lemma pw_p25519_q1_c_5:
  "pow_chain 74058212732561358302231226437062788676166966415465897661863160754340907 0 25686082838651505011370039260590883329232637451457271664974363710626838
    [Sq 9143620705681927495327308213887791854485796413798644054607440975261063,
     Sq 40190355770521638452236108679637150837489685942679542628691526010445028,
     Sq 1555411384874624045908033019418865425970279636203565902345537711971241,
     Mul 17634796626678390256029860177765530811772409162061570710352455638939628,
     Sq 39489276016546541621887894086357821002120110628061737800249569177608723,
     Mul 15870506981659282333518053009658482022800022406121927341912342295458903,
     Sq 54683835440170952696212252586748526730951258913238152149878950344091687,
     Mul 5483134824686488855298425774246653960058620001034244730279566664865037]
    (26022302115055942816559189223040055676180976962478913277522595983073536, 121889106) = Some (26971238654822912305355593927627144448426019583059678264345212545232057, 3900451399)"
  by (simp only: pow_chain.simps sq_numeral sq_one sqr.simps arith_simps rel_simps simp_thms if_True if_False of_nat_numeral diff_numeral_special mult_1_left mult_1_right diff_zero one_plus_numeral numeral_plus_one one_add_one)

lemma pw_p25519_q1_c_6:
  "pow_chain 74058212732561358302231226437062788676166966415465897661863160754340907 0 25686082838651505011370039260590883329232637451457271664974363710626838
    [Sq 9822647451706256434180585675853971071015587069703513888409053270467294,
     Sq 71292978187621787621793537481775073510280960996536908006982721756037021,
     Mul 18201485805976666643293745242478716189744827904377557166085739916657533,
     Sq 19285186831708783179572920346963767950741089110350635110325250950456541,
     Mul 15580951814895446219460286788317849135907670663815913094347421933101525,
     Sq 6596796482030321035138760103422150228473481429686915843656590222659984,
     Mul 22281908203187482449708551419123256061857694482730143749322603704918448,
     Sq 73260662868047951632448465876851281468291567344228717438927281104599310]
    (26971238654822912305355593927627144448426019583059678264345212545232057, 3900451399) = Some (25718351486598565978920165894767122469542461887120907609028727490138634, 124814444782)"
  by (simp only: pow_chain.simps sq_numeral sq_one sqr.simps arith_simps rel_simps simp_thms if_True if_False of_nat_numeral diff_numeral_special mult_1_left mult_1_right diff_zero one_plus_numeral numeral_plus_one one_add_one)

lemma pw_p25519_q1_c_7:
  "pow_chain 74058212732561358302231226437062788676166966415465897661863160754340907 0 25686082838651505011370039260590883329232637451457271664974363710626838
    [Mul 8920060076846515298425766832041945704186930242972977281828551047170322,
     Sq 13189146999199137436240279400685183941270088191180689238310666981641944,
     Sq 19840894487089994304603452603871814109591468704367373303883794604285478,
     Mul 5212856024093872929458058354226480545046857070179993944353632179091238,
     Sq 73893273658532077920708698759632768764525821332830503247537565232283416,
     Mul 12325440120807611814126833293035990476652709692729084056499526581548760,
     Sq 848462948250032565632500576418368588388810412660803819600553406461075,
     Mul 22322357081129217839581889885775900965172529823574621338296972557379830]
    (25718351486598565978920165894767122469542461887120907609028727490138634, 124814444782) = Some (33898716734542869225241031708002579540654039956039982146655270181679992, 1997031116535)"
  by (simp only: pow_chain.simps sq_numeral sq_one sqr.simps arith_simps rel_simps simp_thms if_True if_False of_nat_numeral diff_numeral_special mult_1_left mult_1_right diff_zero one_plus_numeral numeral_plus_one one_add_one)

lemma pw_p25519_q1_c_8:
  "pow_chain 74058212732561358302231226437062788676166966415465897661863160754340907 0 25686082838651505011370039260590883329232637451457271664974363710626838
    [Sq 15516482964536072385361147491850148466332390709157748939874014406515143,
     Sq 35156999587973596929750256616663133356976204546890728536795309639399855,
     Sq 43872078193456648151130210179967762896594541411409533845335097142527532,
     Sq 1921578496804641685642428922133960980417175054846430095692110117237955,
     Sq 3434335639723877554732079945091988135569959847981589236918155179982177,
     Sq 4653131933984062795082312161119256118070541841478993437280287919071129,
     Sq 60464836966106818511104654348987771981451815722292950894860983444546240,
     Mul 23127959911717298423877691398985517723391028512412948100107248863373094]
    (33898716734542869225241031708002579540654039956039982146655270181679992, 1997031116535) = Some (42196241543750705315662263333972691556766463701996598509139192685324660, 255619982916481)"
  by (simp only: pow_chain.simps sq_numeral sq_one sqr.simps arith_simps rel_simps simp_thms if_True if_False of_nat_numeral diff_numeral_special mult_1_left mult_1_right diff_zero one_plus_numeral numeral_plus_one one_add_one)

lemma pw_p25519_q1_c_9:
  "pow_chain 74058212732561358302231226437062788676166966415465897661863160754340907 0 25686082838651505011370039260590883329232637451457271664974363710626838
    [Sq 24042205917774005707803127471974008256634101389994550806925657748129582,
     Sq 1051211561670283989109330868392842374307011803148843693825816517960320,
     Mul 12581775260839195070050290712524841109912377115305453205002216640862315,
     Sq 8246484587076347791610634162422801928496018142424892048600510756348,
     Sq 27419680845327196253283715511981953789749332924544497163537921082421724,
     Mul 13375973332347873205542224623480511705741253648992942775404937769699917,
     Sq 21787441845412068021373625538523775692879130841259464286279132817907919,
     Mul 18752361225873793533222747024292170425424329218467850597367295323483610]
    (42196241543750705315662263333972691556766463701996598509139192685324660, 255619982916481) = Some (50800324469166578327408836597575340198266890236241805743510544628084234, 8179839453327403)"
  by (simp only: pow_chain.simps sq_numeral sq_one sqr.simps arith_simps rel_simps simp_thms if_True if_False of_nat_numeral diff_numeral_special mult_1_left mult_1_right diff_zero one_plus_numeral numeral_plus_one one_add_one)

lemma pw_p25519_q1_c_10:
  "pow_chain 74058212732561358302231226437062788676166966415465897661863160754340907 0 25686082838651505011370039260590883329232637451457271664974363710626838
    [Sq 34846546668523013200608505610082414620900289051543503569769385584285775,
     Sq 1621708227266301075140856764088478573700112420188461280333967418,
     Mul 13689997289860444191749008335382453109449632150843200721450890407557450,
     Sq 14006274161629274604072279259679711050335377162173753653668182648988674,
     Sq 1072310707133842393638538230955041305509989547269921392620859682036743,
     Sq 20651746032137682892861776602426907619069238396099420588147295186298314,
     Sq 11457027965630331000511869693831435591958757767718960976249499085362332,
     Sq 52142869870559915351230927581245072700553875965691030265221857184695711]
    (50800324469166578327408836597575340198266890236241805743510544628084234, 8179839453327403) = Some (39237797021467349081078523622722890691480403040679886943626390140786692, 1047019450025907616)"
  by (simp only: pow_chain.simps sq_numeral sq_one sqr.simps arith_simps rel_simps simp_thms if_True if_False of_nat_numeral diff_numeral_special mult_1_left mult_1_right diff_zero one_plus_numeral numeral_plus_one one_add_one)

lemma pw_p25519_q1_c_11:
  "pow_chain 74058212732561358302231226437062788676166966415465897661863160754340907 0 25686082838651505011370039260590883329232637451457271664974363710626838
    [Mul 13609095703392163727385562079526891720952978822936686829834548336754647,
     Sq 40241463022284257326846569901900811414488537014661356269677972025071,
     Sq 2269723295727763949437766429023261736073745895320333952518084677398479,
     Mul 16594039336685635503029611440242158723214916298520601967601289478379517,
     Sq 10349852876776945403482215381758027644571936055592739828733642765373049,
     Mul 9355070703019987949910531451238906359632163937009589199474976469805959,
     Sq 47769887846361021373057175951417208353167359059841056609000450620423062,
     Mul 17827856274611225618187607836200067303364890784349627333575760205918132]
    (39237797021467349081078523622722890691480403040679886943626390140786692, 1047019450025907616) = Some (14168464937297124940319346047097870384240814318808446129030613133630062, 16752311200414521879)"
  by (simp only: pow_chain.simps sq_numeral sq_one sqr.simps arith_simps rel_simps simp_thms if_True if_False of_nat_numeral diff_numeral_special mult_1_left mult_1_right diff_zero one_plus_numeral numeral_plus_one one_add_one)

lemma pw_p25519_q1_c_12:
  "pow_chain 74058212732561358302231226437062788676166966415465897661863160754340907 0 25686082838651505011370039260590883329232637451457271664974363710626838
    [Sq 2710643307101520080495494303340112588826678446784352485359078263168815,
     Mul 15003164113921531198432359630538463497490793873972380331092043076415852,
     Sq 51686091928131678860448741940416976539556501685084405654287000747516346,
     Sq 2573694231770470159116912717560857071793462346377107086049245249380628,
     Sq 43501088640033052399532824237861737655137607035387176063112683163416294,
     Mul 11201620762232835985163496093982859352990571371388844976031483118763506,
     Sq 53227599502684360459035848439965283696646537178332738174886782271759823,
     Sq 73696242313487324508437568305369435013879317397744425592198836868103412]
    (14168464937297124940319346047097870384240814318808446129030613133630062, 16752311200414521879) = Some (32078872510034300683721969666082605205980797407905313634227873339841541, 1072147916826529400292)"
  by (simp only: pow_chain.simps sq_numeral sq_one sqr.simps arith_simps rel_simps simp_thms if_True if_False of_nat_numeral diff_numeral_special mult_1_left mult_1_right diff_zero one_plus_numeral numeral_plus_one one_add_one)

lemma pw_p25519_q1_c_13:
  "pow_chain 74058212732561358302231226437062788676166966415465897661863160754340907 0 25686082838651505011370039260590883329232637451457271664974363710626838
    [Sq 13895205184483038434510772456851356006440427776273084011111636727260504,
     Mul 6812191466364575249289977937500582120720741276930261995541816590408656,
     Sq 10104265246033905320341790450722870055122639570324753704793956874057443,
     Mul 7925055389269156048894429114331151541224082251354232279621110843078297,
     Sq 643580596413748623336775000418865767840609798577104082876110717065621,
     Sq 41325300139405709829284804439841681608454971776382943562139823040976883,
     Mul 14956462726821131422869580741549585246111479668547634616777654758013807,
     Sq 2489570308568351855854591728340646125509757964048247089089805232439343]
    (32078872510034300683721969666082605205980797407905313634227873339841541, 1072147916826529400292) = Some (1767251726565775986919310699007786135292699202748444418719751747705124, 34308733338448940809370)"
  by (simp only: pow_chain.simps sq_numeral sq_one sqr.simps arith_simps rel_simps simp_thms if_True if_False of_nat_numeral diff_numeral_special mult_1_left mult_1_right diff_zero one_plus_numeral numeral_plus_one one_add_one)

lemma pw_p25519_q1_c_14:
  "pow_chain 74058212732561358302231226437062788676166966415465897661863160754340907 0 25686082838651505011370039260590883329232637451457271664974363710626838
    [Mul 612947201537852224758681424834290878444151656292059866073832709531054,
     Sq 32868697759128589020818257048810414175636951464167024869924955232507499,
     Mul 2959830435776696611823016937857555467535983456739026242280118020886551,
     Sq 13397467966895307272182352570309293873265203771962923436977241587726702,
     Mul 18732988702039738013799278467300480833862761537505514201563419642265657,
     Sq 1309874676624412144283553284151471442223657046818659022511823688549120,
     Sq 68957537253493464381695485797523569537814689913857575043030259719712435,
     Sq 963337530912371073953917856718319123416882836481159856947889675928060]
    (1767251726565775986919310699007786135292699202748444418719751747705124, 34308733338448940809370) = Some (72284799931139302251843776583201538756043654313967963413173182362434476, 1097879466830366105899896)"
  by (simp only: pow_chain.simps sq_numeral sq_one sqr.simps arith_simps rel_simps simp_thms if_True if_False of_nat_numeral diff_numeral_special mult_1_left mult_1_right diff_zero one_plus_numeral numeral_plus_one one_add_one)

lemma pw_p25519_q1_c_15:
  "pow_chain 74058212732561358302231226437062788676166966415465897661863160754340907 0 25686082838651505011370039260590883329232637451457271664974363710626838
    [Sq 70553853628005623851428459890349044460855468919706645907978811512223495,
     Sq 13527175401147246201551695744868218759837010655427024081120361165083830,
     Mul 5486411585294977335446151361743444762804409109604914556137348312208629,
     Sq 46117897630221269260027438279492539790279673494331935546357125126442277,
     Mul 6629812809612322780058625756588251350254463235489557027332279486152541,
     Sq 11942115874334429244033248638786609223933596698668676592275637810909029,
     Mul 8473066790828053994226694943588888295555425822465496320768369476848593,
     Sq 53596540144023032646866085491572711285067073546594592770790608035695620]
    (72284799931139302251843776583201538756043654313967963413173182362434476, 1097879466830366105899896) = Some (27888460527428023957626267190656043244582985061948661907009352904953269, 35132142938571715388796686)"
  by (simp only: pow_chain.simps sq_numeral sq_one sqr.simps arith_simps rel_simps simp_thms if_True if_False of_nat_numeral diff_numeral_special mult_1_left mult_1_right diff_zero one_plus_numeral numeral_plus_one one_add_one)

lemma pw_p25519_q1_c_16:
  "pow_chain 74058212732561358302231226437062788676166966415465897661863160754340907 0 25686082838651505011370039260590883329232637451457271664974363710626838
    [Sq 10502092906273291229163550284656359657540521239509265860349119924836882,
     Sq 63207981708061964389918049675970404438726757610174643083750147917161220,
     Mul 13995265065573322564202018434088032972741658479422462331506581235431156,
     Sq 41535689943442961056042017365674794036284450769443004232690100315383650,
     Mul 14848670253617728929073440410418731033997747441871437544490806445308168,
     Sq 7054446268232552790555110859821253627899869966555231810498674915984984,
     Mul 12556139473645297314290118514427815270253329385336247008116911202045191,
     Sq 12848689507497770424434271561781377767758614882378672980376733283962]
    (27888460527428023957626267190656043244582985061948661907009352904953269, 35132142938571715388796686) = Some (21438267224828973234986836802618761923942579222858213369270628019461515, 1124228574034294892441493966)"
  by (simp only: pow_chain.simps sq_numeral sq_one sqr.simps arith_simps rel_simps simp_thms if_True if_False of_nat_numeral diff_numeral_special mult_1_left mult_1_right diff_zero one_plus_numeral numeral_plus_one one_add_one)

lemma pw_p25519_q1_c_17:
  "pow_chain 74058212732561358302231226437062788676166966415465897661863160754340907 0 25686082838651505011370039260590883329232637451457271664974363710626838
    [Sq 6205919433444590803308721596636083275714441935668651631273486555348328,
     Sq 17900236174811815679710832915230527355632069265231203214087501560068508,
     Mul 24748064085518823686308281360359680889665376199365490392383318060149323,
     Sq 195784689561462047082744531554771061451994996508051612452551841419082,
     Sq 65273933237033234484881795051962205397791659537122607653142458714714730,
     Mul 3586301485415450345684960237484354486478757239490773775160471683533062,
     Sq 73869282160954435249238442391714808378844070623980394283551229072778674,
     Sq 612614008979862364909912761243796339862068297949369931579629231217442]
    (21438267224828973234986836802618761923942579222858213369270628019461515, 1124228574034294892441493966) = Some (38711975392776241626659989917900991106583769860158930518981558005488622, 71950628738194873116255613844)"
  by (simp only: pow_chain.simps sq_numeral sq_one sqr.simps arith_simps rel_simps simp_thms if_True if_False of_nat_numeral diff_numeral_special mult_1_left mult_1_right diff_zero one_plus_numeral numeral_plus_one one_add_one)

lemma pw_p25519_q1_c_18:
  "pow_chain 74058212732561358302231226437062788676166966415465897661863160754340907 0 25686082838651505011370039260590883329232637451457271664974363710626838
    [Mul 13426721630152126009454967860687113770729867200503086442235536089088968,
     Sq 397759425504420011841010400719721301395962130067926043016562316254466,
     Mul 14925324241091872260391429257011821549293362305181059687344526726520484,
     Sq 579632037665189099100676911021428000190627783692483761238976884214165,
     Sq 7818451881430156926281288898569565508273019597072275975368911713155690,
     Mul 17312715997512110347615499874944519550597823381992675023704975053212213,
     Sq 8953445648855349432454977854077690654867458241106190401086533605785847,
     Mul 15697285726062706362152362335144400107537137927238366041253529279034918]
    (38711975392776241626659989917900991106583769860158930518981558005488622, 71950628738194873116255613844) = Some (18186090025996518795189365466940014515526868970139684008464777792162694, 1151210059811117969860089821531)"
  by (simp only: pow_chain.simps sq_numeral sq_one sqr.simps arith_simps rel_simps simp_thms if_True if_False of_nat_numeral diff_numeral_special mult_1_left mult_1_right diff_zero one_plus_numeral numeral_plus_one one_add_one)

lemma pw_p25519_q1_c_19:
  "pow_chain 74058212732561358302231226437062788676166966415465897661863160754340907 0 25686082838651505011370039260590883329232637451457271664974363710626838
    [Sq 4465863517770737120919392413630705127742368880515981751625612955656145,
     Sq 32347999321549093448092528577443997627248890941679907053368043134231274,
     Sq 68652043588985120156545853560713487346015897008787120448455775319168545,
     Mul 25064628191404356667386044646871505748533217082338934873385919913784283,
     Sq 4691996576966678049583647904272162820564334309674845646280465627396745,
     Sq 59865440428392259837493358323921566409504756373822529364185123592616088,
     Sq 61568889113932107347639572498936710394914622819563215911906359531190895,
     Sq 5756903330644333950536723770854899942275459167517528580477110504047073]
    (18186090025996518795189365466940014515526868970139684008464777792162694, 1151210059811117969860089821531) = Some (32141593846981839390406985814275265592241581202875791194022504558508014, 147354887655823100142091497155984)"
  by (simp only: pow_chain.simps sq_numeral sq_one sqr.simps arith_simps rel_simps simp_thms if_True if_False of_nat_numeral diff_numeral_special mult_1_left mult_1_right diff_zero one_plus_numeral numeral_plus_one one_add_one)

lemma pw_p25519_q1_c_20:
  "pow_chain 74058212732561358302231226437062788676166966415465897661863160754340907 0 25686082838651505011370039260590883329232637451457271664974363710626838
    [Mul 11147874241864833781368844764450646918908260305004981574019488326176280,
     Sq 15922334813820548595118490711241727707672300379547140327357439693814626,
     Mul 8636883517860950988081136068740852704469421157527701837051314654871673,
     Sq 51101366080166751999636207937741260139559467332383471657748904609387573,
     Mul 17526332768313611300872357149470097994665843071330139659703329253795692,
     Sq 458981890777580165312237050352615426766059729261197250159307766674850,
     Mul 20121489687680673045075494002588779460611413226579793633758581678707610,
     Sq 4772893857180858595041512595755727245221956632013875062830608907192454]
    (32141593846981839390406985814275265592241581202875791194022504558508014, 147354887655823100142091497155984) = Some (52074005305945910046105847959004436155438868063022872946213047675146626, 2357678202493169602273463954495774)"
  by (simp only: pow_chain.simps sq_numeral sq_one sqr.simps arith_simps rel_simps simp_thms if_True if_False of_nat_numeral diff_numeral_special mult_1_left mult_1_right diff_zero one_plus_numeral numeral_plus_one one_add_one)

lemma pw_p25519_q1_c_21:
  "pow_chain 74058212732561358302231226437062788676166966415465897661863160754340907 0 25686082838651505011370039260590883329232637451457271664974363710626838
    [Mul 18061159791408370829999860683582668805270361854287299092053677567318445,
     Sq 2250046643045713204307098135692400015772840444034529349494842611395171,
     Sq 4745937861198174983095388860137087127119145126952011836814591594339652,
     Sq 62545721373045485262402437672854469285998174831778023368177817403928372,
     Sq 6663734959624097350420385483685894090076367048059965042470725861535580,
     Sq 66203296576652473769146651001086397443901280692112864691468442649629462,
     Mul 11207965578490010691720387104959295958617726938982817304037553207363600]
    (52074005305945910046105847959004436155438868063022872946213047675146626, 2357678202493169602273463954495774) = Some (8562916886866218785688304546164188478888058893729309188831496247839076, 75445702479781427272750846543864801)"
  by (simp only: pow_chain.simps sq_numeral sq_one sqr.simps arith_simps rel_simps simp_thms if_True if_False of_nat_numeral diff_numeral_special mult_1_left mult_1_right diff_zero one_plus_numeral numeral_plus_one one_add_one)

lemma pw_p25519_q1_c: "(25686082838651505011370039260590883329232637451457271664974363710626838 :: int) ^ 75445702479781427272750846543864801 mod 74058212732561358302231226437062788676166966415465897661863160754340907 = 8562916886866218785688304546164188478888058893729309188831496247839076"
  apply (rule pow_chain_result)
  apply (rule pow_chain_comp [OF pw_p25519_q1_c_21])
  apply (rule pow_chain_comp [OF pw_p25519_q1_c_20])
  apply (rule pow_chain_comp [OF pw_p25519_q1_c_19])
  apply (rule pow_chain_comp [OF pw_p25519_q1_c_18])
  apply (rule pow_chain_comp [OF pw_p25519_q1_c_17])
  apply (rule pow_chain_comp [OF pw_p25519_q1_c_16])
  apply (rule pow_chain_comp [OF pw_p25519_q1_c_15])
  apply (rule pow_chain_comp [OF pw_p25519_q1_c_14])
  apply (rule pow_chain_comp [OF pw_p25519_q1_c_13])
  apply (rule pow_chain_comp [OF pw_p25519_q1_c_12])
  apply (rule pow_chain_comp [OF pw_p25519_q1_c_11])
  apply (rule pow_chain_comp [OF pw_p25519_q1_c_10])
  apply (rule pow_chain_comp [OF pw_p25519_q1_c_9])
  apply (rule pow_chain_comp [OF pw_p25519_q1_c_8])
  apply (rule pow_chain_comp [OF pw_p25519_q1_c_7])
  apply (rule pow_chain_comp [OF pw_p25519_q1_c_6])
  apply (rule pow_chain_comp [OF pw_p25519_q1_c_5])
  apply (rule pow_chain_comp [OF pw_p25519_q1_c_4])
  apply (rule pow_chain_comp [OF pw_p25519_q1_c_3])
  apply (rule pow_chain_comp [OF pw_p25519_q1_c_2])
  apply (rule pow_chain_comp [OF pw_p25519_q1_c_1])
  apply (rule pow_chain_comp [OF pw_p25519_q1_c_0])
  apply (rule pow_chain_start)
  apply (simp only: arith_simps rel_simps simp_thms if_True if_False of_nat_numeral diff_numeral_special mult_1_left mult_1_right diff_zero one_plus_numeral numeral_plus_one one_add_one)
  apply (simp only: arith_simps rel_simps simp_thms if_True if_False of_nat_numeral diff_numeral_special mult_1_left mult_1_right diff_zero one_plus_numeral numeral_plus_one one_add_one)
  done

lemma pw_p25519_q1_d_0:
  "pow_chain 74058212732561358302231226437062788676166966415465897661863160754340907 0 8562916886866218785688304546164188478888058893729309188831496247839076
    [Sq 0,
     Mul 0,
     Sq 990079869685274089067819496795799193426049271434876125113348038497139,
     Sq 3523234067486837190167727816620328707138147160225995919857807195680933,
     Mul 6943902598427620566040507888544225490013296520125495564525126341218717,
     Sq 8555782696598372221507375289885155425853886992120632874908843432422649,
     Mul 7751844576858213551866358427525485044944268855197018995478577627578812,
     Sq 38476664613835196748834781468705115678974470112494513702026977008765452]
    (1, 0) = Some (44834681646896416774739443742377987341720075798897526609092454803933452, 22)"
  by (simp only: pow_chain.simps sq_numeral sq_one sqr.simps arith_simps rel_simps simp_thms if_True if_False of_nat_numeral diff_numeral_special mult_1_left mult_1_right diff_zero one_plus_numeral numeral_plus_one one_add_one)

lemma pw_p25519_q1_d_1:
  "pow_chain 74058212732561358302231226437062788676166966415465897661863160754340907 0 8562916886866218785688304546164188478888058893729309188831496247839076
    [Sq 27142819198696964090932012945428575420921880469737623229143591720974848,
     Sq 60850260036196156930366811057474256033212425607645421547079812641604177,
     Sq 20346677712519600861533358236967420646558390703252951092134017590391550,
     Sq 21078893406841075082597818872810546538805489190137209929913121615514,
     Mul 4024672412600698598173501434647204766160835522747065800799027201499393]
    (44834681646896416774739443742377987341720075798897526609092454803933452, 22) = Some (1, 353)"
  by (simp only: pow_chain.simps sq_numeral sq_one sqr.simps arith_simps rel_simps simp_thms if_True if_False of_nat_numeral diff_numeral_special mult_1_left mult_1_right diff_zero one_plus_numeral numeral_plus_one one_add_one)

lemma pw_p25519_q1_d: "(8562916886866218785688304546164188478888058893729309188831496247839076 :: int) ^ 353 mod 74058212732561358302231226437062788676166966415465897661863160754340907 = 1"
  apply (rule pow_chain_result)
  apply (rule pow_chain_comp [OF pw_p25519_q1_d_1])
  apply (rule pow_chain_comp [OF pw_p25519_q1_d_0])
  apply (rule pow_chain_start)
  apply (simp only: arith_simps rel_simps simp_thms if_True if_False of_nat_numeral diff_numeral_special mult_1_left mult_1_right diff_zero one_plus_numeral numeral_plus_one one_add_one)
  apply (simp only: arith_simps rel_simps simp_thms if_True if_False of_nat_numeral diff_numeral_special mult_1_left mult_1_right diff_zero one_plus_numeral numeral_plus_one one_add_one)
  done

lemma prime_p25519_q1: "is_prime 74058212732561358302231226437062788676166966415465897661863160754340907"
proof -
  have f: "is_prime 75445702479781427272750846543864801" "is_prime 353"
    by (rule prime_p25519_q2, rule prime_353)
  have ne: "(75445702479781427272750846543864801 :: nat) \<noteq> 353"
    by (simp only: arith_simps rel_simps simp_thms if_True if_False of_nat_numeral diff_numeral_special mult_1_left mult_1_right diff_zero one_plus_numeral numeral_plus_one one_add_one)
  have N: "(74058212732561358302231226437062788676166966415465897661863160754340907 :: int) = int (2780763247480851816841359381413802 * 75445702479781427272750846543864801 * 353) + 1"
    by (simp only: arith_simps rel_simps simp_thms if_True if_False of_nat_numeral diff_numeral_special mult_1_left mult_1_right diff_zero one_plus_numeral numeral_plus_one one_add_one)
  have k: "(0 :: nat) < 2780763247480851816841359381413802" "(2780763247480851816841359381413802 :: nat) < 75445702479781427272750846543864801 * 353" "(0 :: int) \<le> 2"
    by (simp_all only: arith_simps rel_simps simp_thms if_True if_False of_nat_numeral diff_numeral_special mult_1_left mult_1_right diff_zero one_plus_numeral numeral_plus_one one_add_one)
  have bz1: "(70463328703800545008217672123162676565183935400628861884889913886334520 :: int) * (69490809710348678725736597923071784769591275419387514694139338586948360 - 1) = 66117633491858138461393741777649859022484251587227054915412604379442197 * 74058212732561358302231226437062788676166966415465897661863160754340907 + 1"
    by (simp only: arith_simps rel_simps simp_thms if_True if_False of_nat_numeral diff_numeral_special mult_1_left mult_1_right diff_zero one_plus_numeral numeral_plus_one one_add_one)
  have bz2: "(37940283535957283147790493383286696582099159842122763948555891970476459 :: int) * (8562916886866218785688304546164188478888058893729309188831496247839076 - 1) = 4386812516739286907093083275457056104889941688880599415971985667035232 * 74058212732561358302231226437062788676166966415465897661863160754340907 + 1"
    by (simp only: arith_simps rel_simps simp_thms if_True if_False of_nat_numeral diff_numeral_special mult_1_left mult_1_right diff_zero one_plus_numeral numeral_plus_one one_add_one)
  have "is_prime (nat 74058212732561358302231226437062788676166966415465897661863160754340907)"
    by (rule pock_two [OF f ne N k pw_p25519_q1_a pw_p25519_q1_b pw_p25519_q1_c pw_p25519_q1_d bz1 bz2])
  then show ?thesis
    by (simp only: nat_numeral)
qed

lemma pw_p25519_a_0:
  "pow_chain 57896044618658097711785492504343953926634992332820282019728792003956564819968 19 2
    [SqMul 0,
     Sq 0,
     SqMul 0,
     SqMul 0,
     SqMul 0,
     SqMul 0,
     SqMul 0,
     Sq 0]
    (1, 0) = Some (1569275433846670190958947355801916604025588861116008628224, 190)"
  by (simp only: pow_chain.simps sq_numeral sq_one sqr.simps arith_simps rel_simps simp_thms if_True if_False of_nat_numeral diff_numeral_special mult_1_left mult_1_right diff_zero one_plus_numeral numeral_plus_one one_add_one)

lemma pw_p25519_a_1:
  "pow_chain 57896044618658097711785492504343953926634992332820282019728792003956564819968 19 2
    [SqMul 85070591730234615865843651857942052864,
     SqMul 90,
     Sq 3618502788666131106986593281521497120414687020801267626233049500247285302104,
     SqMul 4070815637249397495359917441711684260466522898401426079512180687778198169178,
     SqMul 13067600891100930501598068315494625343060070901292077814267399487995699632785,
     SqMul 1180076119303530875144116285532815935167358627057121551494565672490314011965,
     Sq 1731074615247051634489172293683676124410868977223555680707173906843900652117,
     Sq 43324204993500061597826158612414131961250850909546105626879919447147686421064]
    (1569275433846670190958947355801916604025588861116008628224, 190) = Some (13343768986571359007854455104042816243275199009921288930213888121862028233560, 48860)"
  by (simp only: pow_chain.simps sq_numeral sq_one sqr.simps arith_simps rel_simps simp_thms if_True if_False of_nat_numeral diff_numeral_special mult_1_left mult_1_right diff_zero one_plus_numeral numeral_plus_one one_add_one)

lemma pw_p25519_a_2:
  "pow_chain 57896044618658097711785492504343953926634992332820282019728792003956564819968 19 2
    [Sq 3075446206036701470872393826992783401752763128678510908850634197157076446817,
     SqMul 29096143762806239262705528706363760764796179979535943756800641576788782737836,
     Sq 802028749036987574340757424989663227075669220565584140869463940457761020232,
     Sq 27665405654990747157847101006816744579137975244959593346139654333549227807747]
    (13343768986571359007854455104042816243275199009921288930213888121862028233560, 48860) = Some (427094198651976259540344842774561673889945192655078505504941250475370961481, 781764)"
  by (simp only: pow_chain.simps sq_numeral sq_one sqr.simps arith_simps rel_simps simp_thms if_True if_False of_nat_numeral diff_numeral_special mult_1_left mult_1_right diff_zero one_plus_numeral numeral_plus_one one_add_one)

lemma pw_p25519_a: "(2 :: int) ^ 781764 mod 57896044618658097711785492504343953926634992332820282019728792003956564819949 = 427094198651976259540344842774561673889945192655078505504941250475370961481"
  apply (rule pow_chain_result)
  apply (rule pow_chain_comp [OF pw_p25519_a_2])
  apply (rule pow_chain_comp [OF pw_p25519_a_1])
  apply (rule pow_chain_comp [OF pw_p25519_a_0])
  apply (rule pow_chain_start)
  apply (simp only: arith_simps rel_simps simp_thms if_True if_False of_nat_numeral diff_numeral_special mult_1_left mult_1_right diff_zero one_plus_numeral numeral_plus_one one_add_one)
  apply (simp only: arith_simps rel_simps simp_thms if_True if_False of_nat_numeral diff_numeral_special mult_1_left mult_1_right diff_zero one_plus_numeral numeral_plus_one one_add_one)
  done

lemma pw_p25519_b_0:
  "pow_chain 57896044618658097711785492504343953926634992332820282019728792003956564819968 19 2
    [SqMul 0,
     SqMul 0,
     SqMul 0,
     SqMul 0,
     SqMul 0,
     SqMul 0,
     SqMul 0,
     SqMul 1]
    (1, 0) = Some (19, 255)"
  by (simp only: pow_chain.simps sq_numeral sq_one sqr.simps arith_simps rel_simps simp_thms if_True if_False of_nat_numeral diff_numeral_special mult_1_left mult_1_right diff_zero one_plus_numeral numeral_plus_one one_add_one)

lemma pw_p25519_b_1:
  "pow_chain 57896044618658097711785492504343953926634992332820282019728792003956564819968 19 2
    [SqMul 0,
     SqMul 0,
     SqMul 0,
     SqMul 0,
     SqMul 0,
     SqMul 1102735341553402596310854,
     SqMul 942829938632377296283697278013626408871977656445920132388689198435089693638,
     SqMul 6815733051070227683007179917180087812609369800448030980539184427408636433503]
    (19, 255) = Some (57667402193205334524132346572890988529514358996637946074273776214954518058325, 65535)"
  by (simp only: pow_chain.simps sq_numeral sq_one sqr.simps arith_simps rel_simps simp_thms if_True if_False of_nat_numeral diff_numeral_special mult_1_left mult_1_right diff_zero one_plus_numeral numeral_plus_one one_add_one)

lemma pw_p25519_b_2:
  "pow_chain 57896044618658097711785492504343953926634992332820282019728792003956564819968 19 2
    [SqMul 114879325439831120582747090688887667074747292471742683459243989529882896618193,
     SqMul 1363507734306928362696447675741476609570644136198115698492051297579001177689,
     SqMul 60281560627484322310792839924240717015033807934019655554939244451219324850406,
     SqMul 5331693904062729566037547984692072219510661479864448302962544173935049584407,
     SqMul 35065293505473288976672381607127066069505943702778691011549454109933861234535,
     SqMul 31019118348922017079496557108320858793725621413120280228424085478614676735374,
     SqMul 47856795871840759911024015570744251322235577976228105126831564726359485557293,
     SqMul 59991837576878843771554544271772015880025582439139954621350529534145438039506]
    (57667402193205334524132346572890988529514358996637946074273776214954518058325, 65535) = Some (14357806875099573081046010407345500900557142388859621890028323395882441450808, 16777215)"
  by (simp only: pow_chain.simps sq_numeral sq_one sqr.simps arith_simps rel_simps simp_thms if_True if_False of_nat_numeral diff_numeral_special mult_1_left mult_1_right diff_zero one_plus_numeral numeral_plus_one one_add_one)

lemma pw_p25519_b_3:
  "pow_chain 57896044618658097711785492504343953926634992332820282019728792003956564819968 19 2
    [SqMul 7121267769516051285566233254304252315191214831187063451453953938710815970236,
     SqMul 107846588301411657130737652676825599297713318326640615414520771407115973263167,
     SqMul 2470468345765169256498627346708025649968788340042232423154962042227618355247,
     SqMul 21126968888001574160911701676469058525009290688311535334857835858306499080215,
     SqMul 72129434840800993737594766937562980241504242759286808727511959662022683254,
     SqMul 23886744714801014886696507769537827772679352855246385159771542539295817218,
     SqMul 34236317605904163585681062992716918235371304725150807566214975380922891374656,
     SqMul 49418068814073027786939222965101384818570426595103275001994154559470811450263]
    (14357806875099573081046010407345500900557142388859621890028323395882441450808, 16777215) = Some (26842178458649787340962453003574671094533543717061574803129506058013583129781, 4294967295)"
  by (simp only: pow_chain.simps sq_numeral sq_one sqr.simps arith_simps rel_simps simp_thms if_True if_False of_nat_numeral diff_numeral_special mult_1_left mult_1_right diff_zero one_plus_numeral numeral_plus_one one_add_one)

lemma pw_p25519_b_4:
  "pow_chain 57896044618658097711785492504343953926634992332820282019728792003956564819968 19 2
    [SqMul 24889525671458636133049918620134199815995737275128861818537651559096112549957,
     SqMul 33909823889445468395816053112666583997348647557673551830151649432773615972057,
     SqMul 68705220018839470701708344091363781623830380996174727005071506490276201279,
     SqMul 33653353227861115471807244732842623038077835185459716990702003422470968482121,
     SqMul 184680957350171053601008169484232251864932553604089789576768160930510728638,
     SqMul 70559746098075625025131452555425960169398508764954262929862801133083377400181,
     SqMul 699671138370607142638158399561479379192385640216381956865657898524272280113,
     SqMul 45986729705108761893603616490337953950205357797901125778761069926574284463]
    (26842178458649787340962453003574671094533543717061574803129506058013583129781, 4294967295) = Some (40855687261085163679075598424383040827337295504513323885754385820034201474735, 1099511627775)"
  by (simp only: pow_chain.simps sq_numeral sq_one sqr.simps arith_simps rel_simps simp_thms if_True if_False of_nat_numeral diff_numeral_special mult_1_left mult_1_right diff_zero one_plus_numeral numeral_plus_one one_add_one)

lemma pw_p25519_b_5:
  "pow_chain 57896044618658097711785492504343953926634992332820282019728792003956564819968 19 2
    [SqMul 57661527400359551235189990161715595912155971929750886157147215303049275347867,
     SqMul 5594110253028340288798724916772088337448547922689054508110472075031578891454,
     SqMul 49725796211940085457352700556331510706638872021124800585935446561303865667288,
     SqMul 73513605457459201063452174545633124813758896002802747858592922549656155836418,
     SqMul 50707511896394559525332794583552196075700316238902702544794226182985420195280,
     SqMul 34535707828096941879021334208018637816193227708579053180709331689349993804823,
     SqMul 75757763576012600060890577488242269808913106080196825788218696325009937112779,
     SqMul 65388483220840084844503722245902371806649787950636647710512328994131542996056]
    (40855687261085163679075598424383040827337295504513323885754385820034201474735, 1099511627775) = Some (57216950547371830068827719320242948460997140955201589226694955077452539901594, 281474976710655)"
  by (simp only: pow_chain.simps sq_numeral sq_one sqr.simps arith_simps rel_simps simp_thms if_True if_False of_nat_numeral diff_numeral_special mult_1_left mult_1_right diff_zero one_plus_numeral numeral_plus_one one_add_one)

lemma pw_p25519_b_6:
  "pow_chain 57896044618658097711785492504343953926634992332820282019728792003956564819968 19 2
    [SqMul 113091643876664973192676911548936802639023553217373243526750777290065189757887,
     SqMul 21951598912791625014794482044960899374008813768385607956460346571117008405495,
     SqMul 29911270452874792860804306021600080138446300369475900803036699849147729663689,
     SqMul 70098129730927745549334358220234237641903814119017147622221604529308147930369,
     SqMul 38894597506198890090533248757559052673473776389786401076392118655196940720228,
     SqMul 68844445871547581578443438305970153888435062845642087781737184812917979347250,
     SqMul 6833738372153958390816763840328580942651894780661843387767566082887943899746,
     SqMul 62036121525276786361129582727978514126980334016848541147639853690961492930535]
    (57216950547371830068827719320242948460997140955201589226694955077452539901594, 281474976710655) = Some (21847452534710602092746359412823104712261255210105361772448459469926903743917, 72057594037927935)"
  by (simp only: pow_chain.simps sq_numeral sq_one sqr.simps arith_simps rel_simps simp_thms if_True if_False of_nat_numeral diff_numeral_special mult_1_left mult_1_right diff_zero one_plus_numeral numeral_plus_one one_add_one)

lemma pw_p25519_b_7:
  "pow_chain 57896044618658097711785492504343953926634992332820282019728792003956564819968 19 2
    [SqMul 16488559292791830443437233576266510341323679343687904878891414320641194052143,
     SqMul 90675300826876570257964173589869632215551221053836429204874863958324782489758,
     SqMul 433986035544067378768525724930806284753631410967524787277712256961097284482,
     SqMul 4203577074097247009668451653940048620250453719405284675649793245333694165784,
     SqMul 17791698675592190232474878770473095402612049298441782134410277495684257472537,
     SqMul 27687572638594103054705923628922746716039573944299549405064096788681639080602,
     SqMul 57432884453438137317648403559665629027897111204616886666763003208069461109571,
     SqMul 30433914591206086655608294228763483276043747474712097525447955223123828159904]
    (21847452534710602092746359412823104712261255210105361772448459469926903743917, 72057594037927935) = Some (18878952571897396674442432668174851814068411255301696874725003248685998027586, 18446744073709551615)"
  by (simp only: pow_chain.simps sq_numeral sq_one sqr.simps arith_simps rel_simps simp_thms if_True if_False of_nat_numeral diff_numeral_special mult_1_left mult_1_right diff_zero one_plus_numeral numeral_plus_one one_add_one)

lemma pw_p25519_b_8:
  "pow_chain 57896044618658097711785492504343953926634992332820282019728792003956564819968 19 2
    [SqMul 12312234887876602463302682203350084809372534625901331288256269873514451665759,
     SqMul 89716229323738468356297928799983150520706210586994565637666193051278784164853,
     SqMul 73992579201980196177133953064924036416258108289854623838354300765080031423563,
     SqMul 62450490420720726365096473025375917461390301069702083230526517023196685986030,
     SqMul 4011708024670205646904773237461208104412745582931813139880285262458445039294,
     SqMul 112788798186061165568232112285415094613530685650188299178786624149805459222425,
     SqMul 35968584576694150731802210657912269816102424359723198576522881775916193206618,
     SqMul 33778536389074492167093623245750137635126640889871494829332431893709929059776]
    (18878952571897396674442432668174851814068411255301696874725003248685998027586, 18446744073709551615) = Some (34258166528311316488034424742641032338801523995662611775475450041611407899968, 4722366482869645213695)"
  by (simp only: pow_chain.simps sq_numeral sq_one sqr.simps arith_simps rel_simps simp_thms if_True if_False of_nat_numeral diff_numeral_special mult_1_left mult_1_right diff_zero one_plus_numeral numeral_plus_one one_add_one)

lemma pw_p25519_b_9:
  "pow_chain 57896044618658097711785492504343953926634992332820282019728792003956564819968 19 2
    [SqMul 40542388745613475419412795521961885166191856346960060743357652930813232951229,
     SqMul 36940847510761537049519302323760336569418914353754154818909612656321600318701,
     SqMul 1482936661063965941508723763038234862371988036480666090347743413112811770965,
     SqMul 177297858094954578974222487749192763172459566360835587831674896873228531320,
     SqMul 16477362849130450598533503689684345657660639061566213704638782611607952819942,
     SqMul 10250655137755083936554601777335218503622461026677150232654266668018655170,
     SqMul 65621314111920564825831336846232123239208664988423875896416652106963270576764,
     SqMul 84957821439134776331261502280840113420261735806276486858221555402042411995466]
    (34258166528311316488034424742641032338801523995662611775475450041611407899968, 4722366482869645213695) = Some (20756486169383920521134455532562552711687687217901827738778514137285634944158, 1208925819614629174706175)"
  by (simp only: pow_chain.simps sq_numeral sq_one sqr.simps arith_simps rel_simps simp_thms if_True if_False of_nat_numeral diff_numeral_special mult_1_left mult_1_right diff_zero one_plus_numeral numeral_plus_one one_add_one)

lemma pw_p25519_b_10:
  "pow_chain 57896044618658097711785492504343953926634992332820282019728792003956564819968 19 2
    [SqMul 14882941345564124828066017612008485121994852820235293373220361869233929282172,
     SqMul 66167888761114278329360047299677447646835902200218611490803830916393541628264,
     SqMul 40990137132804309067993861405480738383748193085991310918309078030973619724934,
     SqMul 10493482402112578222049733773275244280863471691002947925447218845449690248560,
     SqMul 82887639150859627985695389084459401301614568515524425440814149350044640278977,
     SqMul 40341900485396506810626534887925053320998289030557401725810308111996057365195,
     SqMul 24348555900761357856719497658816941186952571108290407458726547343078040770,
     SqMul 33035992638159361878070554388821304506817225796044458999502934228030073007292]
    (20756486169383920521134455532562552711687687217901827738778514137285634944158, 1208925819614629174706175) = Some (10206601475148846935039781527637194584781325524341657018546582116449603416692, 309485009821345068724781055)"
  by (simp only: pow_chain.simps sq_numeral sq_one sqr.simps arith_simps rel_simps simp_thms if_True if_False of_nat_numeral diff_numeral_special mult_1_left mult_1_right diff_zero one_plus_numeral numeral_plus_one one_add_one)

lemma pw_p25519_b_11:
  "pow_chain 57896044618658097711785492504343953926634992332820282019728792003956564819968 19 2
    [SqMul 3598681545818014046532595030349327627238966246022107880752365188520292762450,
     SqMul 3509260953049044626037840471861058536515752603446055066082547407964220423174,
     SqMul 21296923116951245854307701228943322563305897622673032852674013740373971891202,
     SqMul 2068542610636003040148657141626538149954058585666694678296033673991557851997,
     SqMul 27835152366901602869213775208870338142669300156406924730895913480295754491170,
     SqMul 76135800261391303496220006170475584376563810867234292070259099341430269826758,
     SqMul 107021522777331710532511463055934353685744418295791798033768540634561326231025,
     SqMul 12905000268571371168102031251766382466034814903427797583691205750547279589538]
    (10206601475148846935039781527637194584781325524341657018546582116449603416692, 309485009821345068724781055) = Some (50474905824970365894909409390984680001117021966810417657380743844501021762936, 79228162514264337593543950335)"
  by (simp only: pow_chain.simps sq_numeral sq_one sqr.simps arith_simps rel_simps simp_thms if_True if_False of_nat_numeral diff_numeral_special mult_1_left mult_1_right diff_zero one_plus_numeral numeral_plus_one one_add_one)

lemma pw_p25519_b_12:
  "pow_chain 57896044618658097711785492504343953926634992332820282019728792003956564819968 19 2
    [SqMul 88010023303684465038199101971432350675823760395079792878159552348849283571707,
     SqMul 33268637746747086649300906977479322187440244455853081277110274589156067877483,
     SqMul 42060071605713142253378839584932387232486306678018152651713985412535598399254,
     SqMul 39839382964208848360334067271390003525226080343821050650903459576745340575850,
     SqMul 102350871631821708217226978349463918223567800242376397877045874881216697941533,
     SqMul 21551224416963073931958173655969196502583458339059700066971628739627552918331,
     SqMul 68920672239601872127110438747516143379289217536109008933192685770761686249272,
     SqMul 66617145310951226535649859049230895090316809445487499335578021564514512252907]
    (50474905824970365894909409390984680001117021966810417657380743844501021762936, 79228162514264337593543950335) = Some (57608036939302764840478145776034576230768319873591038614247645218099795254457, 20282409603651670423947251286015)"
  by (simp only: pow_chain.simps sq_numeral sq_one sqr.simps arith_simps rel_simps simp_thms if_True if_False of_nat_numeral diff_numeral_special mult_1_left mult_1_right diff_zero one_plus_numeral numeral_plus_one one_add_one)

lemma pw_p25519_b_13:
  "pow_chain 57896044618658097711785492504343953926634992332820282019728792003956564819968 19 2
    [SqMul 114642923946157193179762947389674802568062366165219526288805946914335514412463,
     SqMul 5302157403045826681819926891373769556938583205314960449317747356958154950146,
     SqMul 110090978274799507594614258164302118311941260200430991148351067799459978824447,
     SqMul 25410733470850677615756904457297141522519319513288968301441171753949001603956,
     SqMul 2610713715728084432186256106008826940331119867475596889210724823511239868971,
     SqMul 1773823798640148924971310911663430344809015098267929626626178457686530130358,
     SqMul 85645468321354912537564040079950959173999572124923354990543607696877755765852,
     SqMul 34958540716999933903659224261659778987741104028921057937050563883786112750261]
    (57608036939302764840478145776034576230768319873591038614247645218099795254457, 20282409603651670423947251286015) = Some (21880558264494216808287980994218397563141933685170264459882187058272291026063, 5192296858534827628530496329220095)"
  by (simp only: pow_chain.simps sq_numeral sq_one sqr.simps arith_simps rel_simps simp_thms if_True if_False of_nat_numeral diff_numeral_special mult_1_left mult_1_right diff_zero one_plus_numeral numeral_plus_one one_add_one)

lemma pw_p25519_b_14:
  "pow_chain 57896044618658097711785492504343953926634992332820282019728792003956564819968 19 2
    [SqMul 16538567811302158141411194913492995872801123104428166834159714586081056640480,
     SqMul 114560925300620211026059563263751061831340433501817202116617979490432906880385,
     SqMul 118527773247431684770500858927808657703675953607098613768931043887889997902,
     SqMul 310875878529656691448703851227893817197627909111716434032923063868271649320,
     SqMul 111221365025412675747956376611849817076852491744775589072119894329333407438431,
     SqMul 96974790057819721861825314266735192123796800858614364812552591900009386467466,
     SqMul 18982698857871083086182549736300479685966229295121067527056855531859555548581,
     SqMul 67547479884447420660787454060870603558801664896804797072970719315679249953620]
    (21880558264494216808287980994218397563141933685170264459882187058272291026063, 5192296858534827628530496329220095) = Some (55937530409946316548552502116686273223393472796871774714777090375113360366142, 1329227995784915872903807060280344575)"
  by (simp only: pow_chain.simps sq_numeral sq_one sqr.simps arith_simps rel_simps simp_thms if_True if_False of_nat_numeral diff_numeral_special mult_1_left mult_1_right diff_zero one_plus_numeral numeral_plus_one one_add_one)

lemma pw_p25519_b_15:
  "pow_chain 57896044618658097711785492504343953926634992332820282019728792003956564819968 19 2
    [SqMul 108090538100604096118304240725110680872291140372784317374303727527994397312650,
     SqMul 564762749257840590673440239729974843475440910701497854226515968137418131555,
     SqMul 31099169292798843622050696140956521451060393021839821803782179280418658226990,
     SqMul 15238158146800529077116263893970360384118671085496816356940712432952763817373,
     SqMul 10802904796157320391335265115260989674685824036037660820338680353868854321115,
     SqMul 39162338906026079335215335328304674344687630835566103104216223267883526155280,
     SqMul 4440788632666432019249815997819417179592159489060161313891228094890738425608,
     SqMul 88111188870696254755449552974409393815014423354944383796027125958950030473209]
    (55937530409946316548552502116686273223393472796871774714777090375113360366142, 1329227995784915872903807060280344575) = Some (26963434268030124490232869225365333943046998147329985868172663616110233431931, 340282366920938463463374607431768211455)"
  by (simp only: pow_chain.simps sq_numeral sq_one sqr.simps arith_simps rel_simps simp_thms if_True if_False of_nat_numeral diff_numeral_special mult_1_left mult_1_right diff_zero one_plus_numeral numeral_plus_one one_add_one)

lemma pw_p25519_b_16:
  "pow_chain 57896044618658097711785492504343953926634992332820282019728792003956564819968 19 2
    [SqMul 25114903524586653826662315338969714662406522073540194989592059475750281158218,
     SqMul 605751778060345461671016514523729909423593143178471046232124619385626244189,
     SqMul 1744864231469849974112354672122145060993553896207903176120682340458473632686,
     SqMul 30054950445788393613605989667092520738884439554979612480591510034787511326693,
     SqMul 86363330233426273396377911430734596397474272800053473858361391588585251686947,
     SqMul 33488258807715967697761766448059055738404468817230433671428649140773875457260,
     SqMul 75700136442190403065218753352009466604487886460409827937139038491364131597516,
     SqMul 55567007672627143614729654096522897032199591137465526892863225225929085584284]
    (26963434268030124490232869225365333943046998147329985868172663616110233431931, 340282366920938463463374607431768211455) = Some (33417327200782650993787628772606431437902672847704516142353609196254157350836, 87112285931760246646623899502532662132735)"
  by (simp only: pow_chain.simps sq_numeral sq_one sqr.simps arith_simps rel_simps simp_thms if_True if_False of_nat_numeral diff_numeral_special mult_1_left mult_1_right diff_zero one_plus_numeral numeral_plus_one one_add_one)

lemma pw_p25519_b_17:
  "pow_chain 57896044618658097711785492504343953926634992332820282019728792003956564819968 19 2
    [SqMul 38576651120110702197779600441666693884358827431915363858168627966250487250875,
     SqMul 10759761007217206031325290023206550541743494695725873171292104845553763856339,
     SqMul 5939767283352931431985716365734046376026248774106787094486113023710149896781,
     SqMul 26743872708913286202373842799721015217206051541719712602785366798746573947123,
     SqMul 14115509983820132625438042482052551167784297491585821798176394036057575417378,
     SqMul 2842585745982893617293124083823514537634167012734764358418444497757315728595,
     SqMul 33881980811036541472033898503473800664499624824355458435912878190270506044514,
     SqMul 63802302515798422379245586793185974195111664963371835224704263527059282209]
    (33417327200782650993787628772606431437902672847704516142353609196254157350836, 87112285931760246646623899502532662132735) = Some (14398822984063074768968153532697637190471276264929534688614638524962533306867, 22300745198530623141535718272648361505980415)"
  by (simp only: pow_chain.simps sq_numeral sq_one sqr.simps arith_simps rel_simps simp_thms if_True if_False of_nat_numeral diff_numeral_special mult_1_left mult_1_right diff_zero one_plus_numeral numeral_plus_one one_add_one)

lemma pw_p25519_b_18:
  "pow_chain 57896044618658097711785492504343953926634992332820282019728792003956564819968 19 2
    [SqMul 7162012696790284798398180312341660849474109904106232763679276648418733861101,
     SqMul 114360181474381813137840557426815433171026860246966996689286650914105276457265,
     SqMul 56794777995493576020240577562350491590808922494996314790896039574132059826598,
     SqMul 73007510055564560104349826962464043465309804757690126818907219567773497171056,
     SqMul 26475747680083983496230108936423991337635288002028276688922985176814745290899,
     SqMul 44167605923106563104188016223590846343945229021755613036295058864461190317974,
     SqMul 50216973258116365209524540063075467803417184657892748373851398968378418394460,
     SqMul 6675552609080276611244349742173351464965958472069789748282620977888559021339]
    (14398822984063074768968153532697637190471276264929534688614638524962533306867, 22300745198530623141535718272648361505980415) = Some (5454410152077933777103100970173391160692099338506939472643174185754823698977, 5708990770823839524233143877797980545530986495)"
  by (simp only: pow_chain.simps sq_numeral sq_one sqr.simps arith_simps rel_simps simp_thms if_True if_False of_nat_numeral diff_numeral_special mult_1_left mult_1_right diff_zero one_plus_numeral numeral_plus_one one_add_one)

lemma pw_p25519_b_19:
  "pow_chain 57896044618658097711785492504343953926634992332820282019728792003956564819968 19 2
    [SqMul 1027724443113446721845149397926748437689418674520782065013613455796394928743,
     SqMul 105880523778775898649789442283871116994999172150061642298388401429050124189705,
     SqMul 16364448797414004016935442433817151154903072771179003446381278293219766429705,
     SqMul 1629674709010145781567724911074021394837156596698000293511699479921077136332,
     SqMul 16027988019749990667968078807425288476783301496478787031260703591891746647388,
     SqMul 18770993228959014375168938097518852292827013663389723557022526825773154578937,
     SqMul 2984982946272706557730076495588203411743423818118343095025383949986404589165,
     SqMul 24056336605108267934262722213082671422221194304435394145711208271514514723157]
    (5454410152077933777103100970173391160692099338506939472643174185754823698977, 5708990770823839524233143877797980545530986495) = Some (41577931303125218655368411065379178664242088974509779353166293289040071305457, 1461501637330902918203684832716283019655932542975)"
  by (simp only: pow_chain.simps sq_numeral sq_one sqr.simps arith_simps rel_simps simp_thms if_True if_False of_nat_numeral diff_numeral_special mult_1_left mult_1_right diff_zero one_plus_numeral numeral_plus_one one_add_one)

lemma pw_p25519_b_20:
  "pow_chain 57896044618658097711785492504343953926634992332820282019728792003956564819968 19 2
    [SqMul 59718220228477775803430539865569976364492777564242064434753391855748161551541,
     SqMul 24409118098325100620684301060475331658149855347303882843425660276191920168233,
     SqMul 106752997363902227275846233111344972455748592338486832573991598035947091827971,
     SqMul 1760235207261448101400917070109583781090077042682496295978264267509801174521,
     SqMul 15766045955247093706865167660048932482760871291574595400024946796442405901939,
     SqMul 26958581517310207078548026223582635705116482300748825839201561774177508778390,
     SqMul 43729979884628844514961163959984934689027826546456740975827991814152907761552,
     SqMul 115675552371309004746650172950541549573762991964391863556167314696094380637985]
    (41577931303125218655368411065379178664242088974509779353166293289040071305457, 1461501637330902918203684832716283019655932542975) = Some (43360846569293993820275693050384192156330769926392333168517301831384209752435, 374144419156711147060143317175368453031918731001855)"
  by (simp only: pow_chain.simps sq_numeral sq_one sqr.simps arith_simps rel_simps simp_thms if_True if_False of_nat_numeral diff_numeral_special mult_1_left mult_1_right diff_zero one_plus_numeral numeral_plus_one one_add_one)

lemma pw_p25519_b_21:
  "pow_chain 57896044618658097711785492504343953926634992332820282019728792003956564819968 19 2
    [SqMul 64949618841489442485459062567039650228872921051349390588448231638339439105859,
     SqMul 8497832763771902775038090377298488152418614983823215514164015516462540094787,
     SqMul 81554644188702301886043824368740835519840372024765971879505442436884737630,
     SqMul 3576259472552189766538554144532384344725373148939601174843544444239720922392,
     SqMul 97922094252954841580436158849962182015990245232388346444910758876004225220097,
     SqMul 6797799493774940782315341229939043353078157670583260907545545786492207907446,
     SqMul 1270892248064565011731931979229484580348423213730173914072204635218210266200,
     SqMul 9337566263196083440880237632939595892353753175270164222661303864127377219790]
    (43360846569293993820275693050384192156330769926392333168517301831384209752435, 374144419156711147060143317175368453031918731001855) = Some (6194970277937707253775099527297108592051974592490823042763801755464669391818, 95780971304118053647396689196894323976171195136475135)"
  by (simp only: pow_chain.simps sq_numeral sq_one sqr.simps arith_simps rel_simps simp_thms if_True if_False of_nat_numeral diff_numeral_special mult_1_left mult_1_right diff_zero one_plus_numeral numeral_plus_one one_add_one)

lemma pw_p25519_b_22:
  "pow_chain 57896044618658097711785492504343953926634992332820282019728792003956564819968 19 2
    [SqMul 1325743649581327930090533642166358718458614003655066599811942150110280948209,
     SqMul 16190985493593925008338701609184484960630540785055286743058726999387120317,
     SqMul 102098750948385263615548679805957788779318581884505064888051734666373773862407,
     SqMul 59169232505567184305421169843227849156496285224945090245673964009779441861981,
     SqMul 98883869777991591692200403316074888097861101298223795119979037365591047168210,
     SqMul 30614730492615893651777564138148123007690506370754340805410261947675162337450,
     SqMul 1472226194860407327939406112525751104797216619309044555009447628076961690518,
     SqMul 5707671407550746083628861245160355009642684000121147243669686455470024521054]
    (6194970277937707253775099527297108592051974592490823042763801755464669391818, 95780971304118053647396689196894323976171195136475135) = Some (24023237773304088355367946030695448843319069214091389862021789217161946282946, 24519928653854221733733552434404946937899825954937634815)"
  by (simp only: pow_chain.simps sq_numeral sq_one sqr.simps arith_simps rel_simps simp_thms if_True if_False of_nat_numeral diff_numeral_special mult_1_left mult_1_right diff_zero one_plus_numeral numeral_plus_one one_add_one)

lemma pw_p25519_b_23:
  "pow_chain 57896044618658097711785492504343953926634992332820282019728792003956564819968 19 2
    [SqMul 19936282587661189517389820021190447876345778058782210102910438172928597695032,
     SqMul 47313713253488906042808340731428985355312158499563503835177313716807217353298,
     SqMul 58004387539622085164282737983403807747971906696474994356321912320073377024490,
     SqMul 32051610840941404713960218040075651889489654966559030743224553634388224793791,
     SqMul 80627886020193451209957314133038230128900897545505519542167669177457174326302,
     SqMul 20286119184402312896158504202260467186492442673769965307943695141234975076626,
     SqMul 68539992020267633820485159182892409706122368845377809604639198334172019229466,
     SqMul 100066169176399347822725591111289443593712392604818543848675560599062036023280]
    (24023237773304088355367946030695448843319069214091389862021789217161946282946, 24519928653854221733733552434404946937899825954937634815) = Some (32059910633176193622138024243719773757257401337919911903483392576788485259672, 6277101735386680763835789423207666416102355444464034512895)"
  by (simp only: pow_chain.simps sq_numeral sq_one sqr.simps arith_simps rel_simps simp_thms if_True if_False of_nat_numeral diff_numeral_special mult_1_left mult_1_right diff_zero one_plus_numeral numeral_plus_one one_add_one)

lemma pw_p25519_b_24:
  "pow_chain 57896044618658097711785492504343953926634992332820282019728792003956564819968 19 2
    [SqMul 35506324363858311991321119460829789107798122759392181367135885037886599880587,
     SqMul 90246667795034992004292730401003788333181651450349129958268996401971357097414,
     SqMul 82112928357912042852474345081823957601113537828821950574218809391071779775414,
     SqMul 45337374349380054044296182014974884345690896089732339320745467038170136790065,
     SqMul 51806724691223113204700370986623414773557566701137437371103298936036983839482,
     SqMul 71451211547909170306290127088657338243372272262820662278598676986816170828882,
     SqMul 64314203920079705065838344435537391234321221815124083317341594043375963705872,
     SqMul 87055488545220954442423999313867354390128224210491086455916563780750119739487]
    (32059910633176193622138024243719773757257401337919911903483392576788485259672, 6277101735386680763835789423207666416102355444464034512895) = Some (32130093957348876535958107736349013334990574945634455035178054147542185674637, 1606938044258990275541962092341162602522202993782792835301375)"
  by (simp only: pow_chain.simps sq_numeral sq_one sqr.simps arith_simps rel_simps simp_thms if_True if_False of_nat_numeral diff_numeral_special mult_1_left mult_1_right diff_zero one_plus_numeral numeral_plus_one one_add_one)

lemma pw_p25519_b_25:
  "pow_chain 57896044618658097711785492504343953926634992332820282019728792003956564819968 19 2
    [SqMul 35661950466832917681117845387774122029854310315808135677675700499843949427455,
     SqMul 4222981435127824194292833681671228515188221348082536523085798595517273828694,
     SqMul 1048578894279059557835586831415461858190826159564810201554052990818311686293,
     SqMul 53035133632924709134138584286381598742332730364314402303128189876192530140635,
     SqMul 33839611960660277626943348216192562676643815907243995882872804003236853248769,
     SqMul 8861725351612733179999554277473080924110981746402813108971046972581479777367,
     SqMul 1629146967295707459833087767044304513434445771118578304807454679216681049649,
     SqMul 237838250234737005399441533290637460414814956761644585837062302903020817331]
    (32130093957348876535958107736349013334990574945634455035178054147542185674637, 1606938044258990275541962092341162602522202993782792835301375) = Some (27289357948726713611986542207589493182563159105075691984536234051570781506683, 411376139330301510538742295639337626245683966408394965837152255)"
  by (simp only: pow_chain.simps sq_numeral sq_one sqr.simps arith_simps rel_simps simp_thms if_True if_False of_nat_numeral diff_numeral_special mult_1_left mult_1_right diff_zero one_plus_numeral numeral_plus_one one_add_one)

lemma pw_p25519_b_26:
  "pow_chain 57896044618658097711785492504343953926634992332820282019728792003956564819968 19 2
    [SqMul 25725731771794899367554746637524451810544976575527858686160411599106482776284,
     SqMul 21211651254132705903606869028799928617524066286236292272655086648503571851196,
     SqMul 67103556142979995951677411268714025613358797236225737859292948855529943662172,
     SqMul 112549017452900656837600807460527727797542322127410421293783528396358024973824,
     SqMul 325993713232584152403783305726775850020875897191370107993638466699407322542,
     SqMul 10153630123726883954600382569867503067257969122756506876810668466206730065849,
     SqMul 346236774784282048982287196507942687420048610765782093316028690887186637220,
     SqMul 103982915917262684091713821539452261199422400941298162738031943512584732294036]
    (27289357948726713611986542207589493182563159105075691984536234051570781506683, 411376139330301510538742295639337626245683966408394965837152255) = Some (38167929923336629992940764174428308519642977592094795664038841569520591249924, 105312291668557186697918027683670432318895095400549111254310977535)"
  by (simp only: pow_chain.simps sq_numeral sq_one sqr.simps arith_simps rel_simps simp_thms if_True if_False of_nat_numeral diff_numeral_special mult_1_left mult_1_right diff_zero one_plus_numeral numeral_plus_one one_add_one)

lemma pw_p25519_b_27:
  "pow_chain 57896044618658097711785492504343953926634992332820282019728792003956564819968 19 2
    [SqMul 50324366171407062071915938371308680622477068193435267725030145000815887663853,
     SqMul 57248033214146416679004895045047970885313643423296373108434881316451182644036,
     SqMul 4606457201145289209030883952814959167680934483499460463844363761512686800012,
     SqMul 2887517186413785412147386624891128719852770957645866966101228741041567248543,
     SqMul 823671543061422590538933473883423503098856488889328699614575005671998107518,
     SqMul 19619279503324135551736184995424164311143606891945765330952709817161126290394,
     SqMul 111110166974807829943924490733480896646621990295083136777488477894090277179203,
     SqMul 15697097024904490023314644856311081511390184007456081443080285325696271689298]
    (38167929923336629992940764174428308519642977592094795664038841569520591249924, 105312291668557186697918027683670432318895095400549111254310977535) = Some (24605409678848788938025967347965514085894017404791575956843964561310096170520, 26959946667150639794667015087019630673637144422540572481103610249215)"
  by (simp only: pow_chain.simps sq_numeral sq_one sqr.simps arith_simps rel_simps simp_thms if_True if_False of_nat_numeral diff_numeral_special mult_1_left mult_1_right diff_zero one_plus_numeral numeral_plus_one one_add_one)

lemma pw_p25519_b_28:
  "pow_chain 57896044618658097711785492504343953926634992332820282019728792003956564819968 19 2
    [SqMul 20914250341339401260809467524537702095655217325448129132055419330101915082559,
     SqMul 95904574508272335054729634748457204111150957928688871484759248037084303558943,
     SqMul 5251497978101848495924295816387004670950041672497871491771754700927306395447,
     SqMul 978178737041163663962443647466362324135524544872190231728991176354193162,
     SqMul 78882993310446606079518835831723378978727237688761759971463048956226180081609,
     SqMul 13139897993387627732373127986684184230359577417313662381823690285498056949606,
     SqMul 9780903108888347696821915469366969466452103835306477429771145416059591070340,
     SqMul 36913040796740976079687075135687449967910678913365092604224181346215831692497]
    (24605409678848788938025967347965514085894017404791575956843964561310096170520, 26959946667150639794667015087019630673637144422540572481103610249215) = Some (37708960546153945843958973812618546261670618580507553614517327413904816963235, 6901746346790563787434755862277025452451108972170386555162524223799295)"
  by (simp only: pow_chain.simps sq_numeral sq_one sqr.simps arith_simps rel_simps simp_thms if_True if_False of_nat_numeral diff_numeral_special mult_1_left mult_1_right diff_zero one_plus_numeral numeral_plus_one one_add_one)

lemma pw_p25519_b_29:
  "pow_chain 57896044618658097711785492504343953926634992332820282019728792003956564819968 19 2
    [SqMul 49121342048058996202818384028079788763593058647873047451064990681005274235703,
     SqMul 146297893751946087527890098974944408979994736920338507732265225322737550232,
     SqMul 14164087517648491448500441193429708359853486060666517814462096397014080965130,
     SqMul 62607900091426251028123606207181133541054944544110251303837911916825046308784,
     SqMul 1020535256926567958458839914698197869451370729839077744084739366158170552195,
     SqMul 39657504691930067112915947409546498072870526491711844916946027419326767452697,
     SqMul 90288075267062399135209955216705382931132191343215404981108169191282315586235,
     SqMul 64526200254371939979393726796435021455763766592346840061891252458320216944910]
    (37708960546153945843958973812618546261670618580507553614517327413904816963235, 6901746346790563787434755862277025452451108972170386555162524223799295) = Some (54540094052611622470445204756022498502301992064615059872118586784666432192860, 1766847064778384329583297500742918515827483896875618958121606201292619775)"
  by (simp only: pow_chain.simps sq_numeral sq_one sqr.simps arith_simps rel_simps simp_thms if_True if_False of_nat_numeral diff_numeral_special mult_1_left mult_1_right diff_zero one_plus_numeral numeral_plus_one one_add_one)

lemma pw_p25519_b_30:
  "pow_chain 57896044618658097711785492504343953926634992332820282019728792003956564819968 19 2
    [SqMul 102757343057217881138175483961920935187940444696857123649281189953567037407512,
     SqMul 48711896042184790895959322374384436421661016505908593212167207426933367124203,
     SqMul 499853215345713923513103460321439700651913380186534994724074057614202994348,
     SqMul 506672213712675151645405134118650569071260076722547223063257836022000498282,
     SqMul 11177481127461117559186485083179962760857158521012151917702231051862375128175,
     SqMul 31817237926428301716481629198920036835377433245612531690899656520295840587170,
     SqMul 8313480893308283612982297008344614904647976932613507160336014299061426140185,
     SqMul 37132474884670226093998080357299778750522178901260223182847880066502652096073]
    (54540094052611622470445204756022498502301992064615059872118586784666432192860, 1766847064778384329583297500742918515827483896875618958121606201292619775) = Some (25685400396258068827309542784701451615252568774064705527532856139406555789341, 452312848583266388373324160190187140051835877600158453279131187530910662655)"
  by (simp only: pow_chain.simps sq_numeral sq_one sqr.simps arith_simps rel_simps simp_thms if_True if_False of_nat_numeral diff_numeral_special mult_1_left mult_1_right diff_zero one_plus_numeral numeral_plus_one one_add_one)

lemma pw_p25519_b_31:
  "pow_chain 57896044618658097711785492504343953926634992332820282019728792003956564819968 19 2
    [SqMul 22790496237232776564747423127153361809538546195459431229453633992955460259161,
     SqMul 23192472920955859091132356263708257444097148224505203993727824985973104756014,
     Sq 57488892892568471791421702514207109143894690784151447750986744052104094219481,
     SqMul 18212562687982170203641850479078031168141106034460617211550174573135082294351,
     SqMul 51974387280576871821953725479083298163253499104296142594374103994723114637850,
     Sq 6690407189080634018507799843845558368979872843924222843531373839242004886244]
    (25685400396258068827309542784701451615252568774064705527532856139406555789341, 452312848583266388373324160190187140051835877600158453279131187530910662655) = Some (57896044618658097711785492504343953926634992332820282019728792003956564819948, 28948022309329048855892746252171976963317496166410141009864396001978282409974)"
  by (simp only: pow_chain.simps sq_numeral sq_one sqr.simps arith_simps rel_simps simp_thms if_True if_False of_nat_numeral diff_numeral_special mult_1_left mult_1_right diff_zero one_plus_numeral numeral_plus_one one_add_one)

lemma pw_p25519_b: "(2 :: int) ^ 28948022309329048855892746252171976963317496166410141009864396001978282409974 mod 57896044618658097711785492504343953926634992332820282019728792003956564819949 = 57896044618658097711785492504343953926634992332820282019728792003956564819948"
  apply (rule pow_chain_result)
  apply (rule pow_chain_comp [OF pw_p25519_b_31])
  apply (rule pow_chain_comp [OF pw_p25519_b_30])
  apply (rule pow_chain_comp [OF pw_p25519_b_29])
  apply (rule pow_chain_comp [OF pw_p25519_b_28])
  apply (rule pow_chain_comp [OF pw_p25519_b_27])
  apply (rule pow_chain_comp [OF pw_p25519_b_26])
  apply (rule pow_chain_comp [OF pw_p25519_b_25])
  apply (rule pow_chain_comp [OF pw_p25519_b_24])
  apply (rule pow_chain_comp [OF pw_p25519_b_23])
  apply (rule pow_chain_comp [OF pw_p25519_b_22])
  apply (rule pow_chain_comp [OF pw_p25519_b_21])
  apply (rule pow_chain_comp [OF pw_p25519_b_20])
  apply (rule pow_chain_comp [OF pw_p25519_b_19])
  apply (rule pow_chain_comp [OF pw_p25519_b_18])
  apply (rule pow_chain_comp [OF pw_p25519_b_17])
  apply (rule pow_chain_comp [OF pw_p25519_b_16])
  apply (rule pow_chain_comp [OF pw_p25519_b_15])
  apply (rule pow_chain_comp [OF pw_p25519_b_14])
  apply (rule pow_chain_comp [OF pw_p25519_b_13])
  apply (rule pow_chain_comp [OF pw_p25519_b_12])
  apply (rule pow_chain_comp [OF pw_p25519_b_11])
  apply (rule pow_chain_comp [OF pw_p25519_b_10])
  apply (rule pow_chain_comp [OF pw_p25519_b_9])
  apply (rule pow_chain_comp [OF pw_p25519_b_8])
  apply (rule pow_chain_comp [OF pw_p25519_b_7])
  apply (rule pow_chain_comp [OF pw_p25519_b_6])
  apply (rule pow_chain_comp [OF pw_p25519_b_5])
  apply (rule pow_chain_comp [OF pw_p25519_b_4])
  apply (rule pow_chain_comp [OF pw_p25519_b_3])
  apply (rule pow_chain_comp [OF pw_p25519_b_2])
  apply (rule pow_chain_comp [OF pw_p25519_b_1])
  apply (rule pow_chain_comp [OF pw_p25519_b_0])
  apply (rule pow_chain_start)
  apply (simp only: arith_simps rel_simps simp_thms if_True if_False of_nat_numeral diff_numeral_special mult_1_left mult_1_right diff_zero one_plus_numeral numeral_plus_one one_add_one)
  apply (simp only: arith_simps rel_simps simp_thms if_True if_False of_nat_numeral diff_numeral_special mult_1_left mult_1_right diff_zero one_plus_numeral numeral_plus_one one_add_one)
  done

lemma prime_p25519_euler:
  "is_prime (nat 57896044618658097711785492504343953926634992332820282019728792003956564819949)"
  "(2 :: int) ^ 28948022309329048855892746252171976963317496166410141009864396001978282409974 mod 57896044618658097711785492504343953926634992332820282019728792003956564819949 = 57896044618658097711785492504343953926634992332820282019728792003956564819948"
proof -
  have f: "is_prime 74058212732561358302231226437062788676166966415465897661863160754340907"
    by (rule prime_p25519_q1)
  have N: "(57896044618658097711785492504343953926634992332820282019728792003956564819949 :: int) = int (2 * 390882 * 74058212732561358302231226437062788676166966415465897661863160754340907) + 1"
    by (simp only: arith_simps rel_simps simp_thms if_True if_False of_nat_numeral diff_numeral_special mult_1_left mult_1_right diff_zero one_plus_numeral numeral_plus_one one_add_one)
  have k: "(0 :: nat) < 390882" "(2 :: nat) * 390882 < 74058212732561358302231226437062788676166966415465897661863160754340907" "(0 :: int) \<le> 2"
    by (simp_all only: arith_simps rel_simps simp_thms if_True if_False of_nat_numeral diff_numeral_special mult_1_left mult_1_right diff_zero one_plus_numeral numeral_plus_one one_add_one)
  have m: "(57896044618658097711785492504343953926634992332820282019728792003956564819948 :: int) + 1 = 57896044618658097711785492504343953926634992332820282019728792003956564819949"
    by (simp only: arith_simps rel_simps simp_thms if_True if_False of_nat_numeral diff_numeral_special mult_1_left mult_1_right diff_zero one_plus_numeral numeral_plus_one one_add_one)
  have e: "(28948022309329048855892746252171976963317496166410141009864396001978282409974 :: nat) = 390882 * 74058212732561358302231226437062788676166966415465897661863160754340907"
    by (simp only: arith_simps rel_simps simp_thms if_True if_False of_nat_numeral diff_numeral_special mult_1_left mult_1_right diff_zero one_plus_numeral numeral_plus_one one_add_one)
  have k2: "(781764 :: nat) = 2 * 390882"
    by (simp only: arith_simps rel_simps simp_thms if_True if_False of_nat_numeral diff_numeral_special mult_1_left mult_1_right diff_zero one_plus_numeral numeral_plus_one one_add_one)
  have bz: "(55540832096118778044507775605005710249233119951144946814680141076505643269084 :: int) * (427094198651976259540344842774561673889945192655078505504941250475370961481 - 1) = 409719996120619553712206717513598108624848060785013849502386565616653579131 * 57896044618658097711785492504343953926634992332820282019728792003956564819949 + 1"
    by (simp only: arith_simps rel_simps simp_thms if_True if_False of_nat_numeral diff_numeral_special mult_1_left mult_1_right diff_zero one_plus_numeral numeral_plus_one one_add_one)
  show "is_prime (nat 57896044618658097711785492504343953926634992332820282019728792003956564819949)"
    by (rule pock_euler(1) [OF f N k k2 pw_p25519_a pw_p25519_b m e bz])
  show "(2 :: int) ^ 28948022309329048855892746252171976963317496166410141009864396001978282409974 mod 57896044618658097711785492504343953926634992332820282019728792003956564819949 = 57896044618658097711785492504343953926634992332820282019728792003956564819948"
    by (rule pock_euler(2) [OF f N k k2 pw_p25519_a pw_p25519_b m e bz])
qed

section \<open>The field of integers modulo \<open>2\<^sup>2\<^sup>5\<^sup>5 - 19\<close>\<close>

text \<open>The type \<open>gf\<close> of the integers \<open>0 \<le> x < p\<close> with the arithmetic modulo \<open>p\<close> is a field; its inverse
  is the power \<open>p - 2\<close>, with the inverse of 0 being 0, as \<^verbatim>\<open>fe_invert\<close> computes it. The
  functions \<^verbatim>\<open>fe_*\<close> are the field operations on representatives.\<close>

lemma p25519_numeral: "p25519 = 57896044618658097711785492504343953926634992332820282019728792003956564819949"
  by (simp add: p25519_def)

lemma p25519_prime: "is_prime (nat p25519)"
  unfolding p25519_numeral by (rule prime_p25519_euler(1))

lemma euler_two: "(2 :: int) ^ 28948022309329048855892746252171976963317496166410141009864396001978282409974 mod 57896044618658097711785492504343953926634992332820282019728792003956564819949 = 57896044618658097711785492504343953926634992332820282019728792003956564819948"
  by (rule prime_p25519_euler(2))

lemma p25519_gt: "2 < p25519"
  by (simp add: p25519_def)

typedef gf = "{0..<p25519}"
  by (rule exI [of _ 0]) (use p25519_gt in simp)

setup_lifting type_definition_gf

lemma fermat_int:
  assumes "0 < a" and "a < p25519"
  shows "(a ^ nat (p25519 - 2) * a) mod p25519 = 1"
proof -
  have nd: "\<not> nat p25519 dvd nat a"
    using assms by (auto dest!: dvd_imp_le)
  have "int (nat a ^ (nat p25519 - 1) mod nat p25519) = 1"
    using fermat_coprime [OF p25519_prime nd] by simp
  then have "a ^ (nat p25519 - 1) mod p25519 = 1"
    using assms p25519_gt by (simp add: zmod_int)
  moreover have "nat p25519 - 1 = Suc (nat (p25519 - 2))"
    using p25519_gt by simp
  ultimately show ?thesis
    by (simp add: mult.commute)
qed

instantiation gf :: field
begin

lift_definition zero_gf :: gf is 0
  using p25519_gt by simp

lift_definition one_gf :: gf is 1
  using p25519_gt by simp

lift_definition plus_gf :: "gf \<Rightarrow> gf \<Rightarrow> gf" is "\<lambda>a b. (a + b) mod p25519"
  using p25519_gt by simp

lift_definition minus_gf :: "gf \<Rightarrow> gf \<Rightarrow> gf" is "\<lambda>a b. (a - b) mod p25519"
  using p25519_gt by simp

lift_definition uminus_gf :: "gf \<Rightarrow> gf" is "\<lambda>a. (- a) mod p25519"
  using p25519_gt by simp

lift_definition times_gf :: "gf \<Rightarrow> gf \<Rightarrow> gf" is "\<lambda>a b. (a * b) mod p25519"
  using p25519_gt by simp

lift_definition inverse_gf :: "gf \<Rightarrow> gf" is "\<lambda>a. a ^ nat (p25519 - 2) mod p25519"
  using p25519_gt by simp

definition divide_gf :: "gf \<Rightarrow> gf \<Rightarrow> gf" where
  "divide_gf a b = a * inverse b"

instance
proof
  fix a b c :: gf
  show "a + b + c = a + (b + c)"
    by transfer (simp add: mod_simps algebra_simps)
  show "a + b = b + a"
    by transfer (simp add: add.commute)
  show "0 + a = a"
    by transfer simp
  show "- a + a = 0"
    by transfer (simp add: mod_simps)
  show "a - b = a + - b"
    by transfer (simp add: mod_simps)
  show "a * b * c = a * (b * c)"
    by transfer (simp add: mod_simps algebra_simps)
  show "a * b = b * a"
    by transfer (simp add: mult.commute)
  show "1 * a = a"
    by transfer simp
  show "(a + b) * c = a * c + b * c"
    by transfer (simp add: mod_simps algebra_simps)
  show "(0 :: gf) \<noteq> 1"
    by transfer simp
  show "a \<noteq> 0 \<Longrightarrow> inverse a * a = 1"
    by transfer (simp add: mod_simps fermat_int)
  show "a div b = a * inverse b"
    by (rule divide_gf_def)
  show "inverse (0 :: gf) = 0"
    by transfer (use p25519_gt in \<open>simp add: power_0_left\<close>)
qed

end

lemma Rep_gf_of_nat: "Rep_gf (of_nat n) = int n mod p25519"
proof (induction n)
  case 0
  then show ?case by (simp add: zero_gf.rep_eq)
next
  case (Suc n)
  then show ?case
    by (simp add: plus_gf.rep_eq one_gf.rep_eq mod_simps add.commute)
qed

lemma Rep_gf_of_int: "Rep_gf (of_int x) = x mod p25519"
proof (cases "0 \<le> x")
  case True
  then have "Rep_gf (of_int x) = Rep_gf (of_nat (nat x))"
    by simp
  then show ?thesis
    using True by (simp only: Rep_gf_of_nat) simp
next
  case False
  then have "of_int x = (- of_nat (nat (- x)) :: gf)"
    by simp
  then show ?thesis
    using False by (simp only: uminus_gf.rep_eq Rep_gf_of_nat) (simp add: mod_simps)
qed

lemma of_int_gf_eq_iff: "(of_int x :: gf) = of_int y \<longleftrightarrow> x mod p25519 = y mod p25519"
  by (simp add: Rep_gf_inject [symmetric] Rep_gf_of_int)

lemma of_int_gf_mod [simp]: "(of_int (x mod p25519) :: gf) = of_int x"
  by (simp add: of_int_gf_eq_iff)

lemma of_int_Rep_gf [simp]: "of_int (Rep_gf a) = a"
proof -
  have "Rep_gf a \<in> {0..<p25519}"
    by (rule Rep_gf)
  then show ?thesis
    by (simp add: Rep_gf_inject [symmetric] Rep_gf_of_int)
qed

lemma of_int_fe_ops [simp]:
  "(of_int (fe_add a b) :: gf) = of_int a + of_int b"
  "(of_int (fe_sub a b) :: gf) = of_int a - of_int b"
  "(of_int (fe_mul a b) :: gf) = of_int a * of_int b"
  "(of_int (fe_sq a) :: gf) = (of_int a)\<^sup>2"
  "(of_int (fe_mul121666 a) :: gf) = 121666 * of_int a"
  "(of_int fe_0 :: gf) = 0" "(of_int fe_1 :: gf) = 1" "(of_int (fe_copy a) :: gf) = of_int a"
  by (simp_all add: fe_add_def fe_sub_def fe_mul_def fe_sq_def fe_mul121666_def fe_0_def fe_1_def
      fe_copy_def power2_eq_square)

lemma of_int_fe_pow: "(of_int (fe_pow a n) :: gf) = of_int a ^ n"
proof (induction a n rule: fe_pow.induct)
  case (1 a n)
  show ?case
  proof (cases "n = 0")
    case True
    then show ?thesis by (simp add: fe_pow.simps)
  next
    case False
    have n: "n = 2 * (n div 2) + n mod 2"
      by simp
    show ?thesis
    proof (cases "n mod 2 = 0")
      case True
      with False 1 have "(of_int (fe_pow a n) :: gf) = (of_int a ^ (n div 2))\<^sup>2"
        by (subst fe_pow.simps) simp
      also have "\<dots> = of_int a ^ (2 * (n div 2))"
        by (simp only: power_even_eq)
      finally show ?thesis
        using n True by simp
    next
      case odd: False
      with False 1 have "(of_int (fe_pow a n) :: gf) = of_int a * (of_int a ^ (n div 2))\<^sup>2"
        by (subst fe_pow.simps) simp
      also have "\<dots> = of_int a ^ (Suc (2 * (n div 2)))"
        by (simp only: power_odd_eq)
      also have "Suc (2 * (n div 2)) = n"
        using n odd by presburger
      finally show ?thesis .
    qed
  qed
qed

lemma Rep_gf_power: "Rep_gf (a ^ n) = Rep_gf a ^ n mod p25519"
proof (induction n)
  case 0
  then show ?case
    using p25519_gt by (simp add: one_gf.rep_eq)
next
  case (Suc n)
  then show ?case
    by (simp add: times_gf.rep_eq mod_simps)
qed

lemma inverse_gf_power: "inverse (a :: gf) = a ^ nat (p25519 - 2)"
  by (simp add: Rep_gf_inject [symmetric] inverse_gf.rep_eq Rep_gf_power)

lemma of_int_fe_invert [simp]: "(of_int (fe_invert z) :: gf) = inverse (of_int z)"
  by (simp add: fe_invert_def of_int_fe_pow inverse_gf_power)

lemma gf_two_nz: "(2 :: gf) \<noteq> 0"
proof -
  have "(of_int 2 :: gf) \<noteq> of_int 0"
    unfolding of_int_gf_eq_iff using p25519_gt by simp
  then show ?thesis by simp
qed

section \<open>The curve in Edwards form\<close>

text \<open>Curve25519 is birationally equivalent to the Edwards curve
  \<open>x\<^sup>2 + y\<^sup>2 = 1 + d x\<^sup>2 y\<^sup>2\<close> with \<open>d = 121665 / 121666\<close>, by \<open>u = (1 + y) / (1 - y)\<close>. As \<open>d\<close> is
  not a square, the addition law of the Edwards curve is complete: it has no exceptional
  cases, which makes the group laws provable by polynomial identities.\<close>

definition ed_on :: "'a::field \<Rightarrow> 'a \<times> 'a \<Rightarrow> bool" where
  "ed_on d P \<longleftrightarrow> (fst P)\<^sup>2 + (snd P)\<^sup>2 = 1 + d * (fst P)\<^sup>2 * (snd P)\<^sup>2"

definition ed_add :: "'a::field \<Rightarrow> 'a \<times> 'a \<Rightarrow> 'a \<times> 'a \<Rightarrow> 'a \<times> 'a" where
  "ed_add d P Q =
     ((fst P * snd Q + snd P * fst Q) / (1 + d * fst P * fst Q * snd P * snd Q),
      (snd P * snd Q - fst P * fst Q) / (1 - d * fst P * fst Q * snd P * snd Q))"

definition nonsquare :: "'a::field \<Rightarrow> bool" where
  "nonsquare d \<longleftrightarrow> (\<forall>s. s\<^sup>2 \<noteq> d)"

lemma ed_complete_aux:
  fixes d :: "'a::field"
  assumes two: "(2 :: 'a) \<noteq> 0" and ns: "nonsquare d"
    and e1: "xa\<^sup>2 + ya\<^sup>2 = 1 + d * xa\<^sup>2 * ya\<^sup>2"
    and e2: "xb\<^sup>2 + yb\<^sup>2 = 1 + d * xb\<^sup>2 * yb\<^sup>2"
    and eps: "e = d * xa * xb * ya * yb" and ee: "e\<^sup>2 = 1"
  shows False
proof -
  have nz: "xa \<noteq> 0" "ya \<noteq> 0" "xb \<noteq> 0" "yb \<noteq> 0"
    using eps ee by auto
  have p: "(xa + e * ya)\<^sup>2 = d * (xa * ya * (xb + yb))\<^sup>2"
    using e1 e2 eps ee by algebra
  have m: "(xa - e * ya)\<^sup>2 = d * (xa * ya * (xb - yb))\<^sup>2"
    using e1 e2 eps ee by algebra
  have sq: False if "(a :: 'a)\<^sup>2 = d * b\<^sup>2" "b \<noteq> 0" for a b
  proof -
    have "(a / b)\<^sup>2 = d"
      using that by (simp add: power_divide)
    then show False
      using ns by (auto simp: nonsquare_def)
  qed
  have "xb + yb = 0"
    using sq [OF p] nz by auto
  moreover have "xb - yb = 0"
    using sq [OF m] nz by auto
  ultimately have "2 * xb = 0"
    by algebra
  then show False
    using two nz by simp
qed

lemma ed_complete:
  fixes d :: "'a::field"
  assumes "(2 :: 'a) \<noteq> 0" and "nonsquare d" and "ed_on d P" and "ed_on d Q"
  shows "1 + d * fst P * fst Q * snd P * snd Q \<noteq> 0" "1 - d * fst P * fst Q * snd P * snd Q \<noteq> 0"
proof -
  have "(d * fst P * fst Q * snd P * snd Q)\<^sup>2 \<noteq> 1"
    using ed_complete_aux [OF assms(1,2), of "fst P" "snd P" "fst Q" "snd Q" "d * fst P * fst Q * snd P * snd Q"]
      assms(3,4) by (auto simp: ed_on_def)
  then show "1 + d * fst P * fst Q * snd P * snd Q \<noteq> 0" "1 - d * fst P * fst Q * snd P * snd Q \<noteq> 0"
    by algebra+
qed

lemma ed_add_closed:
  fixes d :: "'a::field"
  assumes two: "(2 :: 'a) \<noteq> 0" and ns: "nonsquare d" and P: "ed_on d P" and Q: "ed_on d Q"
  shows "ed_on d (ed_add d P Q)"
proof -
  obtain xa ya xb yb where PQ: "P = (xa, ya)" "Q = (xb, yb)"
    by (cases P, cases Q) auto
  have e1: "xa\<^sup>2 + ya\<^sup>2 = 1 + d * xa\<^sup>2 * ya\<^sup>2" and e2: "xb\<^sup>2 + yb\<^sup>2 = 1 + d * xb\<^sup>2 * yb\<^sup>2"
    using P Q by (simp_all add: ed_on_def PQ)
  define a where "a = 1 + d * xa * xb * ya * yb"
  define b where "b = 1 - d * xa * xb * ya * yb"
  have nz: "a \<noteq> 0" "b \<noteq> 0"
    using ed_complete [OF two ns P Q] by (simp_all add: PQ a_def b_def)
  have "((xa * yb + ya * xb) * b)\<^sup>2 + ((ya * yb - xa * xb) * a)\<^sup>2
        = (a * b)\<^sup>2 + d * ((xa * yb + ya * xb))\<^sup>2 * ((ya * yb - xa * xb))\<^sup>2"
    unfolding a_def b_def using e1 e2 by algebra
  then have "((xa * yb + ya * xb) / a)\<^sup>2 + ((ya * yb - xa * xb) / b)\<^sup>2
        = 1 + d * ((xa * yb + ya * xb) / a)\<^sup>2 * ((ya * yb - xa * xb) / b)\<^sup>2"
    using nz by (simp add: field_simps power2_eq_square)
  then show ?thesis
    by (simp add: ed_on_def ed_add_def PQ a_def b_def)
qed

lemma ed_add_commute: "ed_add d P Q = ed_add d Q P"
  by (simp add: ed_add_def mult.commute add.commute mult.left_commute)

lemma ed_add_zero: "ed_add d (0, 1) P = P"
  by (simp add: ed_add_def)

lemma ed_on_zero: "ed_on d (0, 1)"
  by (simp add: ed_on_def)

definition ed_neg :: "'a::field \<times> 'a \<Rightarrow> 'a \<times> 'a" where
  "ed_neg P = (- fst P, snd P)"

lemma ed_on_neg: "ed_on d P \<Longrightarrow> ed_on d (ed_neg P)"
  by (simp add: ed_on_def ed_neg_def)

lemma ed_add_neg:
  fixes d :: "'a::field"
  assumes two: "(2 :: 'a) \<noteq> 0" and ns: "nonsquare d" and P: "ed_on d P"
  shows "ed_add d P (ed_neg P) = (0, 1)"
proof -
  have "1 + d * fst P * fst P * snd P * snd P \<noteq> 0"
    using ed_complete [OF two ns P P] by simp
  moreover have "(snd P)\<^sup>2 + (fst P)\<^sup>2 = 1 + d * fst P * fst P * snd P * snd P"
    using P by (simp add: ed_on_def power2_eq_square algebra_simps)
  ultimately show ?thesis
    by (simp add: ed_add_def ed_neg_def power2_eq_square)
qed

lemma frac_pair_num:
  fixes a b :: "'a::field"
  assumes "a \<noteq> 0" and "b \<noteq> 0"
  shows "(n / a) * y + (m / b) * x = (n * y * b + m * x * a) / (a * b)"
    and "(m / b) * y - (n / a) * x = (m * y * a - n * x * b) / (a * b)"
  using assms by (simp_all add: field_simps)

lemma frac_pair_den:
  fixes a b :: "'a::field"
  assumes "a \<noteq> 0" and "b \<noteq> 0"
  shows "1 + d * (n / a) * x * (m / b) * y = (a * b + d * n * x * m * y) / (a * b)"
    and "1 - d * (n / a) * x * (m / b) * y = (a * b - d * n * x * m * y) / (a * b)"
  using assms by (simp_all add: field_simps)

lemma frac_cancel:
  fixes c :: "'a::field"
  assumes "c \<noteq> 0"
  shows "(N / c) / (D / c) = N / D"
  using assms by simp

lemma ed_add_frac:
  fixes a b :: "'a::field"
  assumes "a \<noteq> 0" and "b \<noteq> 0"
  shows "ed_add d (n / a, m / b) (x, y) =
           ((n * y * b + m * x * a) / (a * b + d * n * x * m * y),
            (m * y * a - n * x * b) / (a * b - d * n * x * m * y))"
proof -
  have c: "a * b \<noteq> 0"
    using assms by simp
  show ?thesis
    by (simp only: ed_add_def fst_conv snd_conv frac_pair_num [OF assms] frac_pair_den [OF assms]
        frac_cancel [OF c])
qed

lemma ed_add_assoc:
  fixes d :: "'a::field"
  assumes two: "(2 :: 'a) \<noteq> 0" and ns: "nonsquare d"
    and P: "ed_on d P" and Q: "ed_on d Q" and R: "ed_on d R"
  shows "ed_add d (ed_add d P Q) R = ed_add d P (ed_add d Q R)"
proof -
  obtain xa ya xb yb xc yc where PQR: "P = (xa, ya)" "Q = (xb, yb)" "R = (xc, yc)"
    by (cases P, cases Q, cases R) auto
  have e1: "xa\<^sup>2 + ya\<^sup>2 = 1 + d * xa\<^sup>2 * ya\<^sup>2" and e2: "xb\<^sup>2 + yb\<^sup>2 = 1 + d * xb\<^sup>2 * yb\<^sup>2"
    and e3: "xc\<^sup>2 + yc\<^sup>2 = 1 + d * xc\<^sup>2 * yc\<^sup>2"
    using P Q R by (simp_all add: ed_on_def PQR)
  define a12 where "a12 = 1 + d * xa * xb * ya * yb"
  define b12 where "b12 = 1 - d * xa * xb * ya * yb"
  define n12 where "n12 = xa * yb + ya * xb"
  define m12 where "m12 = ya * yb - xa * xb"
  define a23 where "a23 = 1 + d * xb * xc * yb * yc"
  define b23 where "b23 = 1 - d * xb * xc * yb * yc"
  define n23 where "n23 = xb * yc + yb * xc"
  define m23 where "m23 = yb * yc - xb * xc"
  note defs = a12_def b12_def n12_def m12_def a23_def b23_def n23_def m23_def
  have PQ: "ed_add d P Q = (n12 / a12, m12 / b12)"
    by (simp add: ed_add_def PQR defs)
  have QR: "ed_add d Q R = (n23 / a23, m23 / b23)"
    by (simp add: ed_add_def PQR defs)
  have nz12: "a12 \<noteq> 0" "b12 \<noteq> 0"
    using ed_complete [OF two ns P Q] by (simp_all add: PQR defs)
  have nz23: "a23 \<noteq> 0" "b23 \<noteq> 0"
    using ed_complete [OF two ns Q R] by (simp_all add: PQR defs)
  have c12: "a12 * b12 \<noteq> 0" and c23: "a23 * b23 \<noteq> 0"
    using nz12 nz23 by simp_all
  have nL: "1 + d * (n12 / a12) * xc * (m12 / b12) * yc \<noteq> 0"
    "1 - d * (n12 / a12) * xc * (m12 / b12) * yc \<noteq> 0"
    using ed_complete [OF two ns ed_add_closed [OF two ns P Q] R, unfolded PQ]
    by (simp_all add: PQR(3))
  have nR: "1 + d * (n23 / a23) * xa * (m23 / b23) * ya \<noteq> 0"
    "1 - d * (n23 / a23) * xa * (m23 / b23) * ya \<noteq> 0"
    using ed_complete [OF two ns ed_add_closed [OF two ns Q R] P, unfolded QR]
    by (simp_all add: PQR(1))
  define NLx where "NLx = n12 * yc * b12 + m12 * xc * a12"
  define NLy where "NLy = m12 * yc * a12 - n12 * xc * b12"
  define DLx where "DLx = a12 * b12 + d * n12 * xc * m12 * yc"
  define DLy where "DLy = a12 * b12 - d * n12 * xc * m12 * yc"
  define NRx where "NRx = n23 * ya * b23 + m23 * xa * a23"
  define NRy where "NRy = m23 * ya * a23 - n23 * xa * b23"
  define DRx where "DRx = a23 * b23 + d * n23 * xa * m23 * ya"
  define DRy where "DRy = a23 * b23 - d * n23 * xa * m23 * ya"
  note fL = frac_pair_num [OF nz12, of n12 yc m12 xc, folded NLx_def NLy_def]
    frac_pair_den [OF nz12, of d n12 xc m12 yc, folded DLx_def DLy_def]
  note fR = frac_pair_num [OF nz23, of n23 ya m23 xa, folded NRx_def NRy_def]
    frac_pair_den [OF nz23, of d n23 xa m23 ya, folded DRx_def DRy_def]
  have DL: "DLx \<noteq> 0" "DLy \<noteq> 0"
    using nL [unfolded fL] by auto
  have DR: "DRx \<noteq> 0" "DRy \<noteq> 0"
    using nR [unfolded fR] by auto
  have L: "ed_add d (ed_add d P Q) R = (NLx / DLx, NLy / DLy)"
    by (simp only: PQ PQR(3) ed_add_frac [OF nz12] NLx_def NLy_def DLx_def DLy_def)
  have R': "ed_add d P (ed_add d Q R) = (NRx / DRx, NRy / DRy)"
  proof -
    have "ed_add d P (ed_add d Q R) = ed_add d (ed_add d Q R) P"
      by (rule ed_add_commute)
    also have "\<dots> = (NRx / DRx, NRy / DRy)"
      by (simp only: QR PQR(1) ed_add_frac [OF nz23] NRx_def NRy_def DRx_def DRy_def)
    finally show ?thesis .
  qed
  have x: "NLx * DRx = NRx * DLx"
    unfolding NLx_def DRx_def NRx_def DLx_def defs using e1 e2 e3 by algebra
  have y: "NLy * DRy = NRy * DLy"
    unfolding NLy_def DRy_def NRy_def DLy_def defs using e1 e2 e3 by algebra
  show ?thesis
    unfolding L R' using x y DL DR by (simp add: frac_eq_eq)
qed

fun ed_mul :: "'a::field \<Rightarrow> nat \<Rightarrow> 'a \<times> 'a \<Rightarrow> 'a \<times> 'a" where
  "ed_mul d 0 P = (0, 1)"
| "ed_mul d (Suc n) P = ed_add d P (ed_mul d n P)"

lemma ed_mul_on:
  fixes d :: "'a::field"
  assumes "(2 :: 'a) \<noteq> 0" and "nonsquare d" and "ed_on d P"
  shows "ed_on d (ed_mul d n P)"
  by (induction n) (simp_all add: ed_on_zero ed_add_closed assms)

lemma ed_mul_add:
  fixes d :: "'a::field"
  assumes two: "(2 :: 'a) \<noteq> 0" and ns: "nonsquare d" and P: "ed_on d P"
  shows "ed_mul d (m + n) P = ed_add d (ed_mul d m P) (ed_mul d n P)"
proof (induction m)
  case 0
  then show ?case by (simp add: ed_add_zero)
next
  case (Suc m)
  have "ed_mul d (Suc m + n) P = ed_add d P (ed_add d (ed_mul d m P) (ed_mul d n P))"
    using Suc by simp
  also have "\<dots> = ed_add d (ed_add d P (ed_mul d m P)) (ed_mul d n P)"
    by (simp add: ed_add_assoc [OF two ns P ed_mul_on [OF assms] ed_mul_on [OF assms]])
  finally show ?case by simp
qed

lemma ed_mul_zero: "ed_mul d n (0, 1) = (0, 1)"
  by (induction n) (simp_all add: ed_add_zero)

lemma ed_mul_mult:
  fixes d :: "'a::field"
  assumes two: "(2 :: 'a) \<noteq> 0" and ns: "nonsquare d" and P: "ed_on d P"
  shows "ed_mul d (m * n) P = ed_mul d m (ed_mul d n P)"
proof (induction m)
  case 0
  then show ?case by simp
next
  case (Suc m)
  have "ed_mul d (Suc m * n) P = ed_mul d (n + m * n) P"
    by simp
  also have "\<dots> = ed_add d (ed_mul d n P) (ed_mul d (m * n) P)"
    by (rule ed_mul_add [OF assms])
  finally show ?case
    using Suc by simp
qed

definition xz_rep :: "'a::field \<Rightarrow> 'a \<Rightarrow> 'a \<times> 'a \<Rightarrow> bool" where
  "xz_rep X Z P \<longleftrightarrow> (X \<noteq> 0 \<or> Z \<noteq> 0) \<and> X * (1 - snd P) = Z * (1 + snd P)"

lemma xz_double:
  fixes d :: "'a::field"
  assumes two: "(2 :: 'a) \<noteq> 0" and ns: "nonsquare d" and P: "ed_on d P"
    and a24: "a24 * (1 - d) = 1" and rep: "xz_rep X Z P"
  shows "xz_rep ((X + Z)\<^sup>2 * (X - Z)\<^sup>2)
           (((X + Z)\<^sup>2 - (X - Z)\<^sup>2) * ((X - Z)\<^sup>2 + a24 * ((X + Z)\<^sup>2 - (X - Z)\<^sup>2)))
           (ed_add d P P)"
proof -
  obtain x y where Pxy: "P = (x, y)"
    by (cases P) auto
  have e: "x\<^sup>2 + y\<^sup>2 = 1 + d * x\<^sup>2 * y\<^sup>2"
    using P by (simp add: ed_on_def Pxy)
  have r: "X * (1 - y) = Z * (1 + y)" and nz: "X \<noteq> 0 \<or> Z \<noteq> 0"
    using rep by (simp_all add: xz_rep_def Pxy)
  define b where "b = 1 - d * x * x * y * y"
  have b: "b \<noteq> 0"
    using ed_complete [OF two ns P P] by (simp add: Pxy b_def)
  have yb: "snd (ed_add d P P) = (y * y - x * x) / b"
    by (simp add: ed_add_def Pxy b_def)
  have four: "(4 :: 'a) \<noteq> 0"
    using two by (metis mult_2 numeral_Bit0 add_cancel_left_left mult_eq_0_iff numeral_times_numeral
        semiring_norm(13))
  have a24nz: "a24 \<noteq> 0"
    using a24 by auto
  have main: "((X + Z)\<^sup>2 * (X - Z)\<^sup>2) * (b - (y * y - x * x))
      = (((X + Z)\<^sup>2 - (X - Z)\<^sup>2) * ((X - Z)\<^sup>2 + a24 * ((X + Z)\<^sup>2 - (X - Z)\<^sup>2))) * (b + (y * y - x * x))"
    unfolding b_def using e r a24 by algebra
  have nd: "(X + Z)\<^sup>2 * (X - Z)\<^sup>2 \<noteq> 0
      \<or> ((X + Z)\<^sup>2 - (X - Z)\<^sup>2) * ((X - Z)\<^sup>2 + a24 * ((X + Z)\<^sup>2 - (X - Z)\<^sup>2)) \<noteq> 0"
  proof (rule ccontr)
    assume "\<not> ?thesis"
    then have z1: "(X + Z)\<^sup>2 * (X - Z)\<^sup>2 = 0"
      and z2: "((X + Z)\<^sup>2 - (X - Z)\<^sup>2) * ((X - Z)\<^sup>2 + a24 * ((X + Z)\<^sup>2 - (X - Z)\<^sup>2)) = 0"
      by auto
    have s: "X + Z \<noteq> 0"
    proof
      assume "X + Z = 0"
      then have "2 * Z = 0"
        using r by algebra
      then have "Z = 0" using two by simp
      with \<open>X + Z = 0\<close> nz show False by simp
    qed
    from z1 s have "X = Z" by simp
    with z2 have "4 * a24 * (4 * (Z * Z * Z * Z)) = 0"
      by (simp add: power2_eq_square algebra_simps)
    moreover have "(16 :: 'a) \<noteq> 0"
    proof -
      have "(16 :: 'a) = 4 * 4" by simp
      then show ?thesis using four by (metis mult_eq_0_iff)
    qed
    ultimately have "Z = 0"
      using a24nz by simp
    with \<open>X = Z\<close> nz show False by simp
  qed
  have "((X + Z)\<^sup>2 * (X - Z)\<^sup>2) * (1 - (y * y - x * x) / b)
      = (((X + Z)\<^sup>2 - (X - Z)\<^sup>2) * ((X - Z)\<^sup>2 + a24 * ((X + Z)\<^sup>2 - (X - Z)\<^sup>2))) * (1 + (y * y - x * x) / b)"
    using main b by (simp add: field_simps)
  then show ?thesis
    using nd by (simp add: xz_rep_def yb)
qed

lemma xz_rep_sum_nz:
  fixes X :: "'a::field"
  assumes two: "(2 :: 'a) \<noteq> 0" and rep: "xz_rep X Z P"
  shows "X + Z \<noteq> 0"
proof
  assume s: "X + Z = 0"
  have r: "X * (1 - snd P) = Z * (1 + snd P)" and nz: "X \<noteq> 0 \<or> Z \<noteq> 0"
    using rep by (simp_all add: xz_rep_def)
  have "2 * Z = 0"
    using r s by algebra
  then have "Z = 0" using two by simp
  with s nz show False by simp
qed

lemma xz_diffadd:
  fixes d :: "'a::field"
  assumes two: "(2 :: 'a) \<noteq> 0" and ns: "nonsquare d" and P: "ed_on d P" and Q: "ed_on d Q"
    and T: "T = ed_add d Q (ed_neg P)" and T1: "snd T \<noteq> 1"
    and xa: "xa * (1 - snd T) = 1 + snd T" and x1nz: "xa \<noteq> 0"
    and rep2: "xz_rep X2 Z2 P" and rep3: "xz_rep X3 Z3 Q"
  shows "xz_rep (((X3 - Z3) * (X2 + Z2) + (X3 + Z3) * (X2 - Z2))\<^sup>2)
           (xa * ((X3 - Z3) * (X2 + Z2) - (X3 + Z3) * (X2 - Z2))\<^sup>2)
           (ed_add d P Q)"
proof -
  obtain xp yp xq yq where PQ: "P = (xp, yp)" "Q = (xq, yq)"
    by (cases P, cases Q) auto
  have ep: "xp\<^sup>2 + yp\<^sup>2 = 1 + d * xp\<^sup>2 * yp\<^sup>2" and eq: "xq\<^sup>2 + yq\<^sup>2 = 1 + d * xq\<^sup>2 * yq\<^sup>2"
    using P Q by (simp_all add: ed_on_def PQ)
  have r2: "X2 * (1 - yp) = Z2 * (1 + yp)" and r3: "X3 * (1 - yq) = Z3 * (1 + yq)"
    using rep2 rep3 by (simp_all add: xz_rep_def PQ)
  define a where "a = 1 + d * xp * xq * yp * yq"
  define b where "b = 1 - d * xp * xq * yp * yq"
  define m where "m = yp * yq - xp * xq"
  define m' where "m' = yp * yq + xp * xq"
  have nz: "a \<noteq> 0" "b \<noteq> 0"
    using ed_complete [OF two ns P Q] by (simp_all add: PQ a_def b_def)
  have sT: "snd T = m' / a"
    by (simp add: T ed_add_def ed_neg_def PQ a_def m'_def mult.commute mult.left_commute)
  have sS: "snd (ed_add d P Q) = m / b"
    by (simp add: ed_add_def PQ b_def m_def)
  have am: "a - m' \<noteq> 0"
    using T1 nz by (simp add: sT)
  have xa': "xa * (a - m') = a + m'"
    using xa nz by (simp add: sT field_simps)
  define DA where "DA = (X3 - Z3) * (X2 + Z2)"
  define CB where "CB = (X3 + Z3) * (X2 - Z2)"
  have "((DA + CB)\<^sup>2 * (b - m)) * (a - m') = (xa * (a - m')) * (DA - CB)\<^sup>2 * (b + m)"
    unfolding xa' unfolding DA_def CB_def a_def b_def m_def m'_def
    using ep eq r2 r3 by algebra
  then have "((DA + CB)\<^sup>2 * (b - m)) * (a - m') = ((xa * (DA - CB)\<^sup>2) * (b + m)) * (a - m')"
    by (simp add: mult_ac)
  then have main: "(DA + CB)\<^sup>2 * (b - m) = (xa * (DA - CB)\<^sup>2) * (b + m)"
    using am by simp
  have eqn: "(DA + CB)\<^sup>2 * (1 - m / b) = (xa * (DA - CB)\<^sup>2) * (1 + m / b)"
    using main nz by (simp add: field_simps)
  have nd: "(DA + CB)\<^sup>2 \<noteq> 0 \<or> xa * (DA - CB)\<^sup>2 \<noteq> 0"
  proof (rule ccontr)
    assume "\<not> ?thesis"
    then have "DA + CB = 0" "DA - CB = 0"
      using x1nz by auto
    then have "2 * DA = 0" "2 * CB = 0"
      by algebra+
    then have "DA = 0" "CB = 0"
      using two by simp_all
    then have "X3 = Z3" "X2 = Z2"
      using xz_rep_sum_nz [OF two rep2] xz_rep_sum_nz [OF two rep3] by (simp_all add: DA_def CB_def)
    moreover have "X2 \<noteq> 0 \<or> Z2 \<noteq> 0" "X3 \<noteq> 0 \<or> Z3 \<noteq> 0"
      using rep2 rep3 by (simp_all add: xz_rep_def)
    ultimately have "Z2 \<noteq> 0" "Z3 \<noteq> 0" "Z2 * (1 - yp) = Z2 * (1 + yp)" "Z3 * (1 - yq) = Z3 * (1 + yq)"
      using r2 r3 by auto
    then have "2 * yp = 0" "2 * yq = 0"
      by algebra+
    then have y0: "yp = 0" "yq = 0"
      using two by simp_all
    have "xp\<^sup>2 = 1" "xq\<^sup>2 = 1"
      using ep eq y0 by simp_all
    then have "(xp * xq)\<^sup>2 = 1"
      by (simp add: power_mult_distrib)
    then have "xp * xq = 1 \<or> xp * xq = - 1"
      by (simp add: power2_eq_1_iff)
    moreover have "a = 1" "m' = xp * xq"
      using y0 by (simp_all add: a_def m'_def)
    ultimately have "a - m' = 0 \<or> a + m' = 0"
      by auto
    with am have "a + m' = 0" by simp
    with xa' am x1nz show False by simp
  qed
  show ?thesis
    using nd eqn by (simp add: xz_rep_def sS DA_def CB_def)
qed

subsection \<open>The parameter \<open>d\<close> is not a square\<close>

definition ed_d :: gf where
  "ed_d = 121665 / 121666"

definition uval :: "gf \<times> gf \<Rightarrow> gf" where
  "uval P = (1 + snd P) / (1 - snd P)"

lemma gf_121666_nz: "(121666 :: gf) \<noteq> 0"
proof -
  have "(of_int 121666 :: gf) \<noteq> of_int 0"
    unfolding of_int_gf_eq_iff by (simp add: p25519_def)
  then show ?thesis by simp
qed

lemma ed_d_a24: "(121666 :: gf) * (1 - ed_d) = 1"
  using gf_121666_nz by (simp add: ed_d_def field_simps)

lemma mod_cert:
  fixes a :: int
  assumes "a = q * p25519 + r" and "0 \<le> r" and "r < p25519"
  shows "a mod p25519 = r"
  using assms by simp

lemma gf_eqI: "x mod p25519 = y mod p25519 \<Longrightarrow> (of_int x :: gf) = of_int y"
  by (simp add: of_int_gf_eq_iff)

lemma gf_power_pm1:
  fixes s :: gf
  assumes "s \<noteq> 0"
  shows "s ^ nat (p25519 - 1) = 1"
proof -
  have "inverse s * s = 1"
    using assms by simp
  moreover have "nat (p25519 - 1) = Suc (nat (p25519 - 2))"
    using p25519_gt by simp
  ultimately show ?thesis
    by (simp add: inverse_gf_power mult.commute)
qed

lemma gf_two_nonsquare: "nonsquare (2 :: gf)"
  unfolding nonsquare_def
proof (intro allI notI)
  fix s :: gf
  assume s: "s\<^sup>2 = 2"
  have s0: "s \<noteq> 0"
    using s gf_two_nz by auto
  define E :: nat where "E = 28948022309329048855892746252171976963317496166410141009864396001978282409974"
  have E: "2 * E = nat (p25519 - 1)"
    unfolding E_def p25519_numeral by simp
  have a: "(2 :: int) ^ E mod 57896044618658097711785492504343953926634992332820282019728792003956564819949 = 57896044618658097711785492504343953926634992332820282019728792003956564819948"
    unfolding E_def by (rule euler_two)
  have b: "p25519 - 1 = 57896044618658097711785492504343953926634992332820282019728792003956564819948"
    by (simp add: p25519_numeral)
  have "(of_int (2 ^ E mod p25519) :: gf) = of_int (p25519 - 1)"
    unfolding b unfolding p25519_numeral a ..
  then have "(2 :: gf) ^ E = of_int p25519 - 1"
    by (simp only: of_int_gf_mod of_int_power of_int_numeral of_int_diff of_int_1)
  moreover have "(of_int p25519 :: gf) = of_int 0"
    by (rule gf_eqI) (simp only: mod_self mod_0)
  ultimately have m1: "(2 :: gf) ^ E = - 1"
    by simp
  have "(2 :: gf) ^ E = s ^ (2 * E)"
    by (simp add: s [symmetric] power_mult)
  also have "\<dots> = 1"
    unfolding E by (rule gf_power_pm1 [OF s0])
  finally have "(2 :: gf) ^ E = 1" .
  with m1 have "(1 :: gf) + 1 = 0"
    by (metis add.right_inverse)
  then have "(2 :: gf) = 0"
    by (simp only: one_add_one)
  then show False
    using gf_two_nz by simp
qed

lemma ed_d_half_square: "ed_d = 2 * (of_int 27573809246520661279681833144618793423008616164714534656296138071950070290413)\<^sup>2"
proof -
  have "(2 * (27573809246520661279681833144618793423008616164714534656296138071950070290413 * 27573809246520661279681833144618793423008616164714534656296138071950070290413) * 121666 :: int) = 3195537107594092230482029373944513244261560660170581075242284690397605995793915407 * 57896044618658097711785492504343953926634992332820282019728792003956564819949 + 121665"
    by (simp only: arith_simps)
  then have "(2 * (27573809246520661279681833144618793423008616164714534656296138071950070290413 * 27573809246520661279681833144618793423008616164714534656296138071950070290413) * 121666 :: int) mod p25519 = 121665 mod p25519"
    unfolding p25519_numeral by (simp only: mod_mult_self3)
  then have "(of_int (2 * (27573809246520661279681833144618793423008616164714534656296138071950070290413 * 27573809246520661279681833144618793423008616164714534656296138071950070290413) * 121666) :: gf) = of_int 121665"
    by (rule gf_eqI)
  then have "2 * (of_int 27573809246520661279681833144618793423008616164714534656296138071950070290413 :: gf)\<^sup>2 * 121666 = 121665"
    by (simp only: of_int_mult of_int_numeral power2_eq_square)
  moreover define t :: gf where "t = of_int 27573809246520661279681833144618793423008616164714534656296138071950070290413"
  ultimately have "2 * t\<^sup>2 * 121666 = 121665"
    by simp
  then have "ed_d = 2 * t\<^sup>2"
    using gf_121666_nz by (simp add: ed_d_def field_simps)
  then show ?thesis
    by (simp only: t_def)
qed

lemma ed_d_nonsquare: "nonsquare ed_d"
  unfolding nonsquare_def
proof (intro allI notI)
  fix s :: gf
  assume s: "s\<^sup>2 = ed_d"
  define t :: gf where "t = of_int 27573809246520661279681833144618793423008616164714534656296138071950070290413"
  have d: "ed_d = 2 * t\<^sup>2"
    unfolding t_def by (rule ed_d_half_square)
  have "ed_d \<noteq> 0"
  proof
    assume "ed_d = 0"
    then have "(121666 :: gf) * (1 - ed_d) = 121666"
      by simp
    then have "(121666 :: gf) = 1"
      unfolding ed_d_a24 by simp
    then have "(of_int 121666 :: gf) = of_int 1"
      by simp
    then show False
      unfolding of_int_gf_eq_iff p25519_numeral by simp
  qed
  then have t0: "t \<noteq> 0"
    using d by auto
  have "(s / t)\<^sup>2 = s\<^sup>2 / t\<^sup>2"
    by (simp add: power_divide)
  also have "\<dots> = (2 * t\<^sup>2) / t\<^sup>2"
    by (simp only: s d)
  also have "\<dots> = 2"
    using t0 by simp
  finally have "(s / t)\<^sup>2 = 2" .
  then show False
    using gf_two_nonsquare by (auto simp: nonsquare_def)
qed

section \<open>The ladder computes scalar multiples\<close>

text \<open>A pair \<open>(X, Z)\<close> stands for a point \<open>P\<close> of the Edwards curve when \<open>X / Z\<close> is the Montgomery
  coordinate \<open>u = (1 + y) / (1 - y)\<close> of \<open>P\<close>, written without division. One step of the ladder maps
  pairs for \<open>k B\<close> and \<open>(k + 1) B\<close> to pairs for \<open>2 k B\<close> and \<open>(2 k + 1) B\<close>; after the 255 rounds the
  result is the coordinate of the multiple of the input point by the low 255 bits of the
  scalar, also when the input is a point of low order or the result the neutral element.\<close>

lemma snd_sub_sym: "snd (ed_add d Q (ed_neg P)) = snd (ed_add d P (ed_neg Q))"
  by (simp add: ed_add_def ed_neg_def mult.commute mult.left_commute)

lemma ed_sub_step:
  fixes d :: "'a::field"
  assumes two: "(2 :: 'a) \<noteq> 0" and ns: "nonsquare d" and B: "ed_on d B" and P: "ed_on d P"
  shows "ed_add d (ed_add d B P) (ed_neg P) = B"
proof -
  have "ed_add d (ed_add d B P) (ed_neg P) = ed_add d B (ed_add d P (ed_neg P))"
    by (rule ed_add_assoc [OF two ns B P ed_on_neg [OF P]])
  also have "\<dots> = ed_add d B (0, 1)"
    by (simp only: ed_add_neg [OF two ns P])
  also have "\<dots> = B"
    by (simp only: ed_add_commute [of d B] ed_add_zero)
  finally show ?thesis .
qed

lemma montgomery_gf:
  fixes s :: ladder_state and x1 :: int
  defines "X2 \<equiv> (of_int (x2 s) :: gf)" and "Z2 \<equiv> (of_int (z2 s) :: gf)"
    and "X3 \<equiv> (of_int (x3 s) :: gf)" and "Z3 \<equiv> (of_int (z3 s) :: gf)"
  shows "(of_int (x2 (montgomery x1 s)) :: gf) = (X2 + Z2)\<^sup>2 * (X2 - Z2)\<^sup>2"
    and "(of_int (z2 (montgomery x1 s)) :: gf) =
           ((X2 + Z2)\<^sup>2 - (X2 - Z2)\<^sup>2) * ((X2 - Z2)\<^sup>2 + 121666 * ((X2 + Z2)\<^sup>2 - (X2 - Z2)\<^sup>2))"
    and "(of_int (x3 (montgomery x1 s)) :: gf) = ((X3 - Z3) * (X2 + Z2) + (X3 + Z3) * (X2 - Z2))\<^sup>2"
    and "(of_int (z3 (montgomery x1 s)) :: gf) =
           of_int x1 * ((X3 - Z3) * (X2 + Z2) - (X3 + Z3) * (X2 - Z2))\<^sup>2"
    and "swap (montgomery x1 s) = swap s"
  by (simp_all add: montgomery_def Let_def X2_def Z2_def X3_def Z3_def)

lemma montgomery_rep:
  assumes B: "ed_on ed_d B" and B1: "snd B \<noteq> 1"
    and x1: "of_int x1 * (1 - snd B) = 1 + snd B" and x1nz: "(of_int x1 :: gf) \<noteq> 0"
    and P: "ed_on ed_d P" and Q: "ed_on ed_d Q"
    and T: "snd (ed_add ed_d Q (ed_neg P)) = snd B"
    and r2: "xz_rep (of_int (x2 s)) (of_int (z2 s)) P"
    and r3: "xz_rep (of_int (x3 s)) (of_int (z3 s)) Q"
  shows "xz_rep (of_int (x2 (montgomery x1 s))) (of_int (z2 (montgomery x1 s))) (ed_add ed_d P P)"
    and "xz_rep (of_int (x3 (montgomery x1 s))) (of_int (z3 (montgomery x1 s))) (ed_add ed_d P Q)"
proof -
  show "xz_rep (of_int (x2 (montgomery x1 s))) (of_int (z2 (montgomery x1 s))) (ed_add ed_d P P)"
    unfolding montgomery_gf
    by (rule xz_double [OF gf_two_nz ed_d_nonsquare P ed_d_a24 r2])
  show "xz_rep (of_int (x3 (montgomery x1 s))) (of_int (z3 (montgomery x1 s))) (ed_add ed_d P Q)"
    unfolding montgomery_gf
    by (rule xz_diffadd [OF gf_two_nz ed_d_nonsquare P Q refl _ _ x1nz r2 r3])
      (use T B1 x1 in simp_all)
qed

definition ladder_bit :: "byte list \<Rightarrow> nat \<Rightarrow> word32" where
  "ladder_bit e pos = (drop_bit (pos mod 8) (ucast (e ! (pos div 8)) :: word32)) AND 1"

fun ladder_exp :: "byte list \<Rightarrow> nat \<Rightarrow> nat" where
  "ladder_exp e 0 = 0"
| "ladder_exp e (Suc pos) = unat (ladder_bit e pos) * 2 ^ pos + ladder_exp e pos"

definition ladder_inv :: "gf \<times> gf \<Rightarrow> nat \<Rightarrow> ladder_state \<Rightarrow> bool" where
  "ladder_inv B k s \<longleftrightarrow>
     (if swap s = 1
      then xz_rep (of_int (x2 s)) (of_int (z2 s)) (ed_mul ed_d (Suc k) B) \<and>
           xz_rep (of_int (x3 s)) (of_int (z3 s)) (ed_mul ed_d k B)
      else swap s = 0 \<and>
           xz_rep (of_int (x2 s)) (of_int (z2 s)) (ed_mul ed_d k B) \<and>
           xz_rep (of_int (x3 s)) (of_int (z3 s)) (ed_mul ed_d (Suc k) B))"

lemma ladder_bit_cases: "ladder_bit e pos = 0 \<or> ladder_bit e pos = 1"
  by (auto simp: ladder_bit_def and_one_eq mod_2_eq_odd)

lemmas gf_curve = gf_two_nz ed_d_nonsquare

lemma ladder_round_inv:
  assumes B: "ed_on ed_d B" and B1: "snd B \<noteq> 1"
    and x1: "of_int x1 * (1 - snd B) = 1 + snd B" and x1nz: "(of_int x1 :: gf) \<noteq> 0"
    and inv: "ladder_inv B k s"
  shows "ladder_inv B (2 * k + unat (ladder_bit e pos)) (ladder_round e x1 pos s)"
proof -
  define lo where "lo = ed_mul ed_d k B"
  define hi where "hi = ed_mul ed_d (Suc k) B"
  have lo: "ed_on ed_d lo" and hi: "ed_on ed_d hi"
    unfolding lo_def hi_def by (rule ed_mul_on [OF gf_curve B])+
  have hi_lo: "hi = ed_add ed_d B lo"
    by (simp add: hi_def lo_def)
  have T1: "snd (ed_add ed_d hi (ed_neg lo)) = snd B"
    unfolding hi_lo by (simp only: ed_sub_step [OF gf_curve B lo])
  have T2: "snd (ed_add ed_d lo (ed_neg hi)) = snd B"
    using T1 by (simp only: snd_sub_sym [of ed_d lo hi])
  have dbl_lo: "ed_add ed_d lo lo = ed_mul ed_d (2 * k) B"
  proof -
    have "2 * k = k + k" by simp
    then show ?thesis
      unfolding lo_def by (simp only: ed_mul_add [OF gf_curve B])
  qed
  have dbl_hi: "ed_add ed_d hi hi = ed_mul ed_d (Suc (2 * k + 1)) B"
  proof -
    have "Suc (2 * k + 1) = Suc k + Suc k" by simp
    then show ?thesis
      unfolding hi_def by (simp only: ed_mul_add [OF gf_curve B])
  qed
  have sum1: "ed_add ed_d lo hi = ed_mul ed_d (Suc (2 * k)) B"
  proof -
    have "Suc (2 * k) = k + Suc k" by simp
    then show ?thesis
      unfolding lo_def hi_def by (simp only: ed_mul_add [OF gf_curve B])
  qed
  have sum2: "ed_add ed_d hi lo = ed_mul ed_d (2 * k + 1) B"
    using sum1 by (simp add: ed_add_commute [of ed_d hi lo])
  note rep = montgomery_rep [OF B B1 x1 x1nz]
  consider (a) "swap s = 0" "ladder_bit e pos = 0" | (b) "swap s = 0" "ladder_bit e pos = 1"
    | (c) "swap s = 1" "ladder_bit e pos = 0" | (d) "swap s = 1" "ladder_bit e pos = 1"
    using inv ladder_bit_cases [of e pos] by (auto simp: ladder_inv_def split: if_splits)
  then show ?thesis
  proof cases
    case a
    then have r: "xz_rep (of_int (x2 s)) (of_int (z2 s)) lo" "xz_rep (of_int (x3 s)) (of_int (z3 s)) hi"
      using inv by (simp_all add: ladder_inv_def lo_def hi_def)
    define s' where "s' = s\<lparr>x2 := x2 s, z2 := z2 s, x3 := x3 s, z3 := z3 s, swap := 0\<rparr>"
    have st: "ladder_round e x1 pos s = montgomery x1 s'"
      using a by (simp add: ladder_round_def ladder_bit_def [symmetric] fe_cswap_def s'_def)
    have "xz_rep (of_int (x2 s')) (of_int (z2 s')) lo" "xz_rep (of_int (x3 s')) (of_int (z3 s')) hi"
      using r by (simp_all add: s'_def)
    from rep [OF lo hi T1 this] show ?thesis
      using a by (simp add: st ladder_inv_def montgomery_gf(5) s'_def dbl_lo sum1)
  next
    case b
    then have r: "xz_rep (of_int (x2 s)) (of_int (z2 s)) lo" "xz_rep (of_int (x3 s)) (of_int (z3 s)) hi"
      using inv by (simp_all add: ladder_inv_def lo_def hi_def)
    define s' where "s' = s\<lparr>x2 := x3 s, z2 := z3 s, x3 := x2 s, z3 := z2 s, swap := 1\<rparr>"
    have st: "ladder_round e x1 pos s = montgomery x1 s'"
      using b by (simp add: ladder_round_def ladder_bit_def [symmetric] fe_cswap_def s'_def)
    have "xz_rep (of_int (x2 s')) (of_int (z2 s')) hi" "xz_rep (of_int (x3 s')) (of_int (z3 s')) lo"
      using r by (simp_all add: s'_def)
    from rep [OF hi lo T2 this] show ?thesis
      using b by (simp add: st ladder_inv_def montgomery_gf(5) s'_def dbl_hi sum2)
  next
    case c
    then have r: "xz_rep (of_int (x2 s)) (of_int (z2 s)) hi" "xz_rep (of_int (x3 s)) (of_int (z3 s)) lo"
      using inv by (simp_all add: ladder_inv_def lo_def hi_def)
    define s' where "s' = s\<lparr>x2 := x3 s, z2 := z3 s, x3 := x2 s, z3 := z2 s, swap := 0\<rparr>"
    have st: "ladder_round e x1 pos s = montgomery x1 s'"
      using c by (simp add: ladder_round_def ladder_bit_def [symmetric] fe_cswap_def s'_def)
    have "xz_rep (of_int (x2 s')) (of_int (z2 s')) lo" "xz_rep (of_int (x3 s')) (of_int (z3 s')) hi"
      using r by (simp_all add: s'_def)
    from rep [OF lo hi T1 this] show ?thesis
      using c by (simp add: st ladder_inv_def montgomery_gf(5) s'_def dbl_lo sum1)
  next
    case d
    then have r: "xz_rep (of_int (x2 s)) (of_int (z2 s)) hi" "xz_rep (of_int (x3 s)) (of_int (z3 s)) lo"
      using inv by (simp_all add: ladder_inv_def lo_def hi_def)
    define s' where "s' = s\<lparr>x2 := x2 s, z2 := z2 s, x3 := x3 s, z3 := z3 s, swap := 1\<rparr>"
    have st: "ladder_round e x1 pos s = montgomery x1 s'"
      using d by (simp add: ladder_round_def ladder_bit_def [symmetric] fe_cswap_def s'_def)
    have "xz_rep (of_int (x2 s')) (of_int (z2 s')) hi" "xz_rep (of_int (x3 s')) (of_int (z3 s')) lo"
      using r by (simp_all add: s'_def)
    from rep [OF hi lo T2 this] show ?thesis
      using d by (simp add: st ladder_inv_def montgomery_gf(5) s'_def dbl_hi sum2)
  qed
qed

lemma ladder_loop_inv:
  assumes B: "ed_on ed_d B" and B1: "snd B \<noteq> 1"
    and x1: "of_int x1 * (1 - snd B) = 1 + snd B" and x1nz: "(of_int x1 :: gf) \<noteq> 0"
  shows "ladder_inv B k s \<Longrightarrow> ladder_inv B (k * 2 ^ n + ladder_exp e n) (ladder_loop e x1 n s)"
proof (induction n arbitrary: k s)
  case 0
  then show ?case by simp
next
  case (Suc n)
  have "ladder_inv B (2 * k + unat (ladder_bit e n)) (ladder_round e x1 n s)"
    by (rule ladder_round_inv [OF B B1 x1 x1nz Suc.prems])
  from Suc.IH [OF this] show ?case
    by (simp add: algebra_simps)
qed

lemma xz_rep_uval:
  fixes X :: "'a::field"
  assumes two: "(2 :: 'a) \<noteq> 0" and rep: "xz_rep X Z P"
  shows "X * inverse Z = (1 + snd P) / (1 - snd P)"
proof (cases "snd P = 1")
  case True
  with rep have "Z * 2 = 0"
    by (simp add: xz_rep_def)
  then have "Z = 0"
    using two by simp
  with True show ?thesis by simp
next
  case False
  have r: "X * (1 - snd P) = Z * (1 + snd P)" and nz: "X \<noteq> 0 \<or> Z \<noteq> 0"
    using rep by (simp_all add: xz_rep_def)
  have "Z \<noteq> 0"
  proof
    assume "Z = 0"
    with r False have "X = 0" by simp
    with \<open>Z = 0\<close> nz show False by simp
  qed
  with r False show ?thesis
    by (simp add: field_simps)
qed

definition gf_bytes :: "gf \<Rightarrow> byte list" where
  "gf_bytes g = fe_tobytes (Rep_gf g)"

lemma fe_tobytes_gf: "fe_tobytes r = gf_bytes (of_int r)"
  by (simp add: gf_bytes_def fe_tobytes_def Rep_gf_of_int)

lemma ladder_init_inv:
  assumes "of_int x1 * (1 - snd B) = 1 + snd B"
  shows "ladder_inv B 0 \<lparr>x2 = fe_1, z2 = fe_0, x3 = fe_copy x1, z3 = fe_1, swap = 0\<rparr>"
  using assms by (simp add: ladder_inv_def xz_rep_def ed_add_commute [of ed_d B] ed_add_zero)

lemma ladder_result:
  assumes B: "ed_on ed_d B" and B1: "snd B \<noteq> 1"
    and x1: "of_int (fe_frombytes p) * (1 - snd B) = 1 + snd B"
    and x1nz: "(of_int (fe_frombytes p) :: gf) \<noteq> 0"
  shows "snd (curve25519_ladder e p) = gf_bytes (uval (ed_mul ed_d (ladder_exp e 255) B))"
proof -
  define x1 where "x1 = fe_frombytes p"
  define s0 where "s0 = \<lparr>x2 = fe_1, z2 = fe_0, x3 = fe_copy x1, z3 = fe_1, swap = 0\<rparr>"
  define s1 where "s1 = ladder_loop e x1 255 s0"
  define K where "K = ladder_exp e 255"
  have "ladder_inv B (0 * 2 ^ 255 + ladder_exp e 255) s1"
    unfolding s1_def s0_def
    by (rule ladder_loop_inv [OF B B1 x1 [folded x1_def] x1nz [folded x1_def]
          ladder_init_inv [OF x1 [folded x1_def]]])
  then have inv: "ladder_inv B K s1"
    by (simp add: K_def)
  define xa where "xa = fst (fe_cswap (x2 s1) (x3 s1) (swap s1))"
  define za where "za = fst (fe_cswap (z2 s1) (z3 s1) (swap s1))"
  have "xz_rep (of_int xa) (of_int za) (ed_mul ed_d K B)"
    using inv by (auto simp: ladder_inv_def xa_def za_def fe_cswap_def split: if_splits)
  then have "(of_int xa :: gf) * inverse (of_int za) = uval (ed_mul ed_d K B)"
    unfolding uval_def by (rule xz_rep_uval [OF gf_two_nz])
  moreover have "snd (curve25519_ladder e p) = gf_bytes (of_int xa * inverse (of_int za))"
    by (simp add: curve25519_ladder_def Let_def fe_tobytes_gf x1_def s0_def s1_def xa_def za_def
        split: prod.split)
  ultimately show ?thesis
    by (simp add: K_def)
qed

definition ladder_zinv :: "ladder_state \<Rightarrow> bool" where
  "ladder_zinv s \<longleftrightarrow>
     (of_int (x2 s) :: gf) * of_int (z2 s) = 0 \<and> (of_int (x3 s) :: gf) * of_int (z3 s) = 0"

definition ladder_zz :: "ladder_state \<Rightarrow> bool" where
  "ladder_zz s \<longleftrightarrow> (of_int (z2 s) :: gf) = 0 \<and> (of_int (z3 s) :: gf) = 0"

lemma montgomery_zz:
  assumes "(of_int x1 :: gf) = 0" and "(of_int (x2 s) :: gf) * of_int (z2 s) = 0"
  shows "ladder_zz (montgomery x1 s)"
proof -
  have "((of_int (x2 s) :: gf) + of_int (z2 s))\<^sup>2 - (of_int (x2 s) - of_int (z2 s))\<^sup>2
      = 4 * (of_int (x2 s) * of_int (z2 s))"
    by (simp add: power2_eq_square algebra_simps)
  then show ?thesis
    using assms by (simp add: ladder_zz_def montgomery_gf)
qed

lemma ladder_round_zz:
  assumes "(of_int x1 :: gf) = 0" and "ladder_zinv s"
  shows "ladder_zz (ladder_round e x1 pos s)"
  using assms(2) unfolding ladder_round_def Let_def fe_cswap_def
  by (auto simp: ladder_zinv_def intro!: montgomery_zz [OF assms(1)] split: if_splits)

lemma ladder_zz_zinv: "ladder_zz s \<Longrightarrow> ladder_zinv s"
  by (simp add: ladder_zz_def ladder_zinv_def)

lemma ladder_loop_zz:
  assumes "(of_int x1 :: gf) = 0"
  shows "ladder_zz s \<Longrightarrow> ladder_zz (ladder_loop e x1 n s)"
proof (induction n arbitrary: s)
  case 0
  then show ?case by simp
next
  case (Suc n)
  have "ladder_zz (ladder_round e x1 n s)"
    by (rule ladder_round_zz [OF assms ladder_zz_zinv [OF Suc.prems]])
  from Suc.IH [OF this] show ?case by simp
qed

lemma ladder_zero:
  assumes x1: "(of_int (fe_frombytes p) :: gf) = 0"
  shows "snd (curve25519_ladder e p) = gf_bytes 0"
proof -
  define x1 where "x1 = fe_frombytes p"
  define s0 where "s0 = \<lparr>x2 = fe_1, z2 = fe_0, x3 = fe_copy x1, z3 = fe_1, swap = 0\<rparr>"
  define s1 where "s1 = ladder_loop e x1 255 s0"
  have x10: "(of_int x1 :: gf) = 0"
    using x1 by (simp add: x1_def)
  have "ladder_zinv s0"
    using x10 by (simp add: ladder_zinv_def s0_def)
  then have "ladder_zz (ladder_round e x1 254 s0)"
    by (rule ladder_round_zz [OF x10])
  then have "ladder_zz (ladder_loop e x1 254 (ladder_round e x1 254 s0))"
    by (rule ladder_loop_zz [OF x10])
  moreover have "ladder_loop e x1 255 s0 = ladder_loop e x1 254 (ladder_round e x1 254 s0)"
  proof -
    have "(255 :: nat) = Suc 254"
      by simp
    then show ?thesis
      by (simp only: ladder_loop.simps)
  qed
  ultimately have zz: "ladder_zz s1"
    by (simp only: s1_def)
  define xa where "xa = fst (fe_cswap (x2 s1) (x3 s1) (swap s1))"
  define za where "za = fst (fe_cswap (z2 s1) (z3 s1) (swap s1))"
  have "(of_int za :: gf) = 0"
    using zz by (simp add: ladder_zz_def za_def fe_cswap_def)
  moreover have "snd (curve25519_ladder e p) = gf_bytes (of_int xa * inverse (of_int za))"
    by (simp add: curve25519_ladder_def Let_def fe_tobytes_gf x1_def s0_def s1_def xa_def za_def
        split: prod.split)
  ultimately show ?thesis
    by simp
qed

lemma ed_on_y_unit:
  assumes "ed_on ed_d P" and "snd P = 1 \<or> snd P = - 1"
  shows "fst P = 0"
proof -
  have "(fst P)\<^sup>2 * (1 - ed_d) = 0"
    using assms by (auto simp: ed_on_def algebra_simps)
  moreover have "1 - ed_d \<noteq> 0"
  proof
    assume "1 - ed_d = 0"
    then have "(121666 :: gf) * (1 - ed_d) = 0"
      by (simp only: mult_zero_right)
    then show False
      unfolding ed_d_a24 by simp
  qed
  ultimately show ?thesis by simp
qed

lemma ed_mul_y_unit:
  assumes Q: "ed_on ed_d Q" and y: "snd Q = 1 \<or> snd Q = - 1"
  shows "snd (ed_mul ed_d n Q) = 1 \<or> snd (ed_mul ed_d n Q) = - 1"
proof (induction n)
  case 0
  then show ?case by simp
next
  case (Suc n)
  have "fst Q = 0"
    by (rule ed_on_y_unit [OF Q y])
  moreover have "fst (ed_mul ed_d n Q) = 0"
    by (rule ed_on_y_unit [OF ed_mul_on [OF gf_curve Q] Suc])
  ultimately have "snd (ed_mul ed_d (Suc n) Q) = snd Q * snd (ed_mul ed_d n Q)"
    by (simp add: ed_add_def)
  with y Suc show ?case by auto
qed

lemma uval_y_unit: "snd P = 1 \<or> snd P = - 1 \<Longrightarrow> uval P = 0"
  by (auto simp: uval_def)

lemma uval_zero_iff: "uval P = 0 \<longleftrightarrow> snd P = 1 \<or> snd P = - 1"
  by (auto simp: uval_def add_eq_0_iff)

lemma ladder_uval:
  assumes Q: "ed_on ed_d Q" and x1: "of_int (fe_frombytes p) = uval Q"
  shows "snd (curve25519_ladder e p) = gf_bytes (uval (ed_mul ed_d (ladder_exp e 255) Q))"
proof (cases "uval Q = 0")
  case True
  then have "snd Q = 1 \<or> snd Q = - 1"
    by (simp add: uval_zero_iff)
  then have "uval (ed_mul ed_d (ladder_exp e 255) Q) = 0"
    by (intro uval_y_unit ed_mul_y_unit [OF Q])
  moreover have "snd (curve25519_ladder e p) = gf_bytes 0"
    using True x1 by (intro ladder_zero) simp
  ultimately show ?thesis by simp
next
  case False
  then have y1: "snd Q \<noteq> 1"
    by (auto simp: uval_zero_iff)
  then have "uval Q * (1 - snd Q) = 1 + snd Q"
    by (simp add: uval_def)
  with False y1 show ?thesis
    by (intro ladder_result [OF Q]) (simp_all add: x1)
qed

subsection \<open>The base point\<close>

lemma base_point_eq:
  fixes X y d :: "'a::comm_ring_1"
  assumes hx: "X\<^sup>2 * 1095010 = 1094994" and hy: "5 * y = 4" and hd: "121666 * d = 121665"
  shows "(X\<^sup>2 + y\<^sup>2 - (1 + d * X\<^sup>2 * y\<^sup>2)) * 3041650 = 0"
proof -
  have "(5 * y)\<^sup>2 = 4\<^sup>2"
    by (simp only: hy)
  then have y2: "25 * y\<^sup>2 = 16"
    by (simp add: power_mult_distrib)
  have "(X\<^sup>2 + y\<^sup>2 - (1 + d * X\<^sup>2 * y\<^sup>2)) * 3041650
      = 121666 * 25 * X\<^sup>2 + 121666 * (25 * y\<^sup>2) - 121666 * 25 - (121666 * d) * X\<^sup>2 * (25 * y\<^sup>2)"
    by (simp add: algebra_simps)
  also have "\<dots> = 121666 * 25 * X\<^sup>2 + 121666 * 16 - 121666 * 25 - 121665 * X\<^sup>2 * 16"
    by (simp only: y2 hd)
  also have "\<dots> = X\<^sup>2 * 1095010 - 1094994"
    by (simp add: algebra_simps)
  also have "\<dots> = 0"
    by (simp only: hx) simp
  finally show ?thesis .
qed

definition ed_Gx :: gf where
  "ed_Gx = of_int 9771384041963202563870679428059935816164187996444183106833894008023910952347"

definition ed_G :: "gf \<times> gf" where
  "ed_G = (ed_Gx, 4 / 5)"

lemma gf_5_nz: "(5 :: gf) \<noteq> 0"
proof -
  have "(of_int 5 :: gf) \<noteq> of_int 0"
    unfolding of_int_gf_eq_iff by (simp add: p25519_def)
  then show ?thesis by simp
qed

lemma ed_G_on: "ed_on ed_d ed_G"
proof -
  have "(9771384041963202563870679428059935816164187996444183106833894008023910952347 * 9771384041963202563870679428059935816164187996444183106833894008023910952347 * 1095010 :: int) = 1805848680384221548945304000080227232319791481543994167252211565665478916458400704 * 57896044618658097711785492504343953926634992332820282019728792003956564819949 + 1094994"
    by (simp only: arith_simps)
  then have "(9771384041963202563870679428059935816164187996444183106833894008023910952347 * 9771384041963202563870679428059935816164187996444183106833894008023910952347 * 1095010 :: int) mod p25519 = 1094994 mod p25519"
    unfolding p25519_numeral by (simp only: mod_mult_self3)
  then have "(of_int (9771384041963202563870679428059935816164187996444183106833894008023910952347 * 9771384041963202563870679428059935816164187996444183106833894008023910952347 * 1095010) :: gf) = of_int 1094994"
    by (rule gf_eqI)
  then have x: "(of_int 9771384041963202563870679428059935816164187996444183106833894008023910952347 :: gf)\<^sup>2 * 1095010 = 1094994"
    by (simp only: of_int_mult of_int_numeral power2_eq_square)
  define y :: gf where "y = 4 / 5"
  have hx: "ed_Gx\<^sup>2 * 1095010 = 1094994"
    using x by (simp only: ed_Gx_def)
  have hy: "5 * y = 4"
    using gf_5_nz by (simp add: y_def)
  have hd: "121666 * ed_d = 121665"
    using gf_121666_nz by (simp add: ed_d_def)
  have "(ed_Gx\<^sup>2 + y\<^sup>2 - (1 + ed_d * ed_Gx\<^sup>2 * y\<^sup>2)) * 3041650 = 0"
    using hx hy hd by (rule base_point_eq)
  moreover have "(3041650 :: gf) \<noteq> 0"
  proof -
    have "(of_int 3041650 :: gf) \<noteq> of_int 0"
      unfolding of_int_gf_eq_iff by (simp add: p25519_def)
    then show ?thesis by simp
  qed
  ultimately have "ed_Gx\<^sup>2 + y\<^sup>2 - (1 + ed_d * ed_Gx\<^sup>2 * y\<^sup>2) = 0"
    by (simp only: mult_eq_0_iff) simp
  then show ?thesis
    by (simp add: ed_on_def ed_G_def y_def)
qed

lemma ed_G_uval: "uval ed_G = 9"
  using gf_5_nz by (simp add: uval_def ed_G_def field_simps)

subsection \<open>Encoding of field elements\<close>

lemma le_decode_encode: "0 \<le> v \<Longrightarrow> le_decode (le_encode n v) = v mod 256 ^ n"
proof (induction n arbitrary: v)
  case 0
  then show ?case by simp
next
  case (Suc n)
  have d: "0 \<le> v div 256"
    using Suc.prems by simp
  have "uint (word_of_int (v mod 256) :: byte) = v mod 256"
    by (simp add: uint_word_of_int take_bit_eq_mod)
  then have "le_decode (le_encode (Suc n) v) = v mod 256 + 256 * (v div 256 mod 256 ^ n)"
    by (simp add: Suc.IH [OF d])
  also have "\<dots> = v mod 256 ^ Suc n"
    by (simp add: zmod_zmult2_eq)
  finally show ?case .
qed

lemma le_encode_nth: "i < n \<Longrightarrow> le_encode n v ! i = word_of_int (v div 256 ^ i mod 256)"
proof (induction n arbitrary: v i)
  case 0
  then show ?case by simp
next
  case (Suc n)
  show ?case
  proof (cases i)
    case 0
    then show ?thesis by simp
  next
    case (Suc j)
    then have "j < n" using Suc.prems by simp
    then show ?thesis
      using Suc.IH [of j "v div 256"] Suc by (simp add: zdiv_zmult2_eq)
  qed
qed

lemma Rep_gf_bounds: "0 \<le> Rep_gf g" "Rep_gf g < p25519"
  using Rep_gf [of g] by simp_all

lemma gf_bytes_encode: "gf_bytes g = le_encode 32 (Rep_gf g)"
  using Rep_gf_bounds [of g] by (simp add: gf_bytes_def fe_tobytes_def)

lemma length_gf_bytes: "length (gf_bytes g) = 32"
  by (simp add: gf_bytes_encode length_le_encode)

lemma fe_frombytes_gf_bytes: "of_int (fe_frombytes (gf_bytes g)) = g"
proof -
  have b: "0 \<le> Rep_gf g" "Rep_gf g < 2 ^ 255" "Rep_gf g < 256 ^ 32"
    using Rep_gf_bounds [of g] by (simp_all add: p25519_def)
  have "fe_frombytes (gf_bytes g) = le_decode (le_encode 32 (Rep_gf g)) mod 2 ^ 255"
    by (simp add: fe_frombytes_def gf_bytes_encode length_le_encode)
  also have "\<dots> = Rep_gf g mod 256 ^ 32 mod 2 ^ 255"
    by (simp only: le_decode_encode [OF b(1)])
  also have "\<dots> = Rep_gf g"
    using b by (simp only: mod_pos_pos_trivial)
  finally show ?thesis
    by simp
qed

lemma gf_bytes_top: "\<not> 0x7F < gf_bytes g ! 31"
proof -
  have b: "0 \<le> Rep_gf g" "Rep_gf g < 2 ^ 255"
    using Rep_gf_bounds [of g] by (simp_all add: p25519_def)
  define t where "t = Rep_gf g div 256 ^ 31"
  have t: "0 \<le> t" "t < 128"
    using b by (simp_all add: t_def div_less_iff_less_mult pos_imp_zdiv_nonneg_iff)
  have "gf_bytes g ! 31 = (word_of_int (t mod 256) :: byte)"
    by (simp add: gf_bytes_encode le_encode_nth t_def)
  also have "t mod 256 = t"
    using t by simp
  finally have "uint (gf_bytes g ! 31) = t"
    using t by (simp add: uint_word_of_int take_bit_eq_mod)
  then have "gf_bytes g ! 31 \<le> 0x7F"
    using t by (simp add: word_le_def)
  then show ?thesis
    by simp
qed

lemma le_decode_replicate: "le_decode (replicate n 0) = 0"
  by (induction n) simp_all

lemma fe_frombytes_basepoint: "fe_frombytes (9 # replicate 31 0) = 9"
  by (simp add: fe_frombytes_def le_decode_replicate)

lemma curve25519_ladder_agree:
  "snd (curve25519_ladder a (snd (curve25519_ladder b (9 # replicate 31 0))))
     = snd (curve25519_ladder b (snd (curve25519_ladder a (9 # replicate 31 0))))"
proof -
  define ka where "ka = ladder_exp a 255"
  define kb where "kb = ladder_exp b 255"
  have base: "of_int (fe_frombytes (9 # replicate 31 0)) = uval ed_G"
    by (simp add: fe_frombytes_basepoint ed_G_uval)
  have pub: "snd (curve25519_ladder e (9 # replicate 31 0))
               = gf_bytes (uval (ed_mul ed_d (ladder_exp e 255) ed_G))" for e
    by (rule ladder_uval [OF ed_G_on base])
  have sh: "snd (curve25519_ladder e (gf_bytes (uval (ed_mul ed_d k ed_G))))
               = gf_bytes (uval (ed_mul ed_d (ladder_exp e 255 * k) ed_G))" for e k
    by (simp only: ladder_uval [OF ed_mul_on [OF gf_curve ed_G_on] fe_frombytes_gf_bytes]
        ed_mul_mult [OF gf_curve ed_G_on])
  show ?thesis
    by (simp only: pub sh mult.commute [of "ladder_exp a 255"])
qed

lemma curve25519_agree:
  "snd (curve25519 a (snd (curve25519 b (9 # replicate 31 0))))
     = snd (curve25519 b (snd (curve25519 a (9 # replicate 31 0))))"
  unfolding curve25519_def by (rule curve25519_ladder_agree)

lemma curve25519_public_top: "\<not> 0x7F < snd (curve25519 n (9 # replicate 31 0)) ! 31"
proof -
  have "of_int (fe_frombytes (9 # replicate 31 0)) = uval ed_G"
    by (simp add: fe_frombytes_basepoint ed_G_uval)
  then have "\<exists>g. snd (curve25519 n (9 # replicate 31 0)) = gf_bytes g"
    unfolding curve25519_def using ladder_uval [OF ed_G_on] by blast
  then show ?thesis
    using gf_bytes_top by auto
qed

section \<open>Agreement of the shared secrets\<close>

text \<open>Claim C1: for two key pairs A and B generated by \<^verbatim>\<open>ecc25519_make_key\<close> from any two
  successful draws of the random source (on keys with 32-byte buffers), the shared secret
  that \<^verbatim>\<open>ecc25519_shared_secret\<close> derives from the private scalar of A and the public point
  of B is the same 32 bytes as the one it derives from the private scalar of B and the public
  point of A; both calls succeed and set the length to 32.\<close>

theorem shared_secret_agreement:
  assumes genA: "genA rA 32 = (0, nA, rA')" and nA: "length nA = 32" and kyA: "key_wf kyA"
    and genB: "genB rB 32 = (0, nB, rB')" and nB: "length nB = 32" and kyB: "key_wf kyB"
    and bufA: "32 \<le> olA" "32 \<le> length obA" and bufB: "32 \<le> olB" "32 \<le> length obB"
  shows "\<exists>keyA keyB secret.
           ecc25519_make_key genA (Some rA) 32 (Some kyA) = (0, Some keyA, Some rA') \<and>
           ecc25519_make_key genB (Some rB) 32 (Some kyB) = (0, Some keyB, Some rB') \<and>
           length secret = 32 \<and>
           ecc25519_shared_secret (Some keyA) (Some keyB) (Some obA) (Some olA)
             = Inr (0, Some (secret @ drop 32 obA), Some 32) \<and>
           ecc25519_shared_secret (Some keyB) (Some keyA) (Some obB) (Some olB)
             = Inr (0, Some (secret @ drop 32 obB), Some 32)"
proof -
  define base :: "byte list" where "base = 9 # replicate 31 0"
  define pubA where "pubA = snd (curve25519 (clamp nA) base)"
  define pubB where "pubB = snd (curve25519 (clamp nB) base)"
  define keyA where "keyA = kyA\<lparr>key_p := \<lparr>point = rev pubA\<rparr>, key_k := \<lparr>point = rev (clamp nA)\<rparr>\<rparr>"
  define keyB where "keyB = kyB\<lparr>key_p := \<lparr>point = rev pubB\<rparr>, key_k := \<lparr>point = rev (clamp nB)\<rparr>\<rparr>"
  define secret where "secret = snd (curve25519 (clamp nA) pubB)"
  have lp: "length pubA = 32" "length pubB = 32" "length secret = 32"
    using curve25519_result by (simp_all add: pubA_def pubB_def secret_def)
  have mkA: "ecc25519_make_key genA (Some rA) 32 (Some kyA) = (0, Some keyA, Some rA')"
    using make_key_success [where gen = genA and r = rA, OF genA nA kyA] by (simp add: keyA_def pubA_def base_def)
  have mkB: "ecc25519_make_key genB (Some rB) 32 (Some kyB) = (0, Some keyB, Some rB')"
    using make_key_success [where gen = genB and r = rB, OF genB nB kyB] by (simp add: keyB_def pubB_def base_def)
  have wf: "key_wf keyA" "key_wf keyB"
    using lp nA nB by (simp_all add: key_wf_def keyA_def keyB_def length_clamp)
  have topA: "\<not> 0x7F < point (key_p keyA) ! 0"
    using curve25519_public_top [of "clamp nA"] lp
    by (simp add: keyA_def rev_nth pubA_def base_def)
  have topB: "\<not> 0x7F < point (key_p keyB) ! 0"
    using curve25519_public_top [of "clamp nB"] lp
    by (simp add: keyB_def rev_nth pubB_def base_def)
  have sym: "snd (curve25519 (clamp nB) pubA) = secret"
    unfolding secret_def pubA_def pubB_def base_def by (rule curve25519_agree)
  have sA: "ecc25519_shared_secret (Some keyA) (Some keyB) (Some obA) (Some olA)
              = Inr (0, Some (secret @ drop 32 obA), Some 32)"
    using shared_secret_success [OF wf(1) wf(2) topB bufA]
    by (simp add: keyA_def keyB_def secret_def)
  have sB: "ecc25519_shared_secret (Some keyB) (Some keyA) (Some obB) (Some olB)
              = Inr (0, Some (secret @ drop 32 obB), Some 32)"
    using shared_secret_success [OF wf(2) wf(1) topA bufB]
    by (simp add: keyA_def keyB_def sym)
  from mkA mkB lp(3) sA sB show ?thesis
    by blast
qed

theorem shared_secret_agreement_witness:
  "(\<lambda>(r :: unit) (n :: nat). (0 :: int, map word_of_nat [1..<33] :: byte list, r)) () 32
     = (0, map word_of_nat [1..<33], ()) \<and>
   length (map word_of_nat [1..<33] :: byte list) = 32 \<and> key_wf zero_key \<and>
   (\<lambda>(r :: unit) (n :: nat). (0 :: int, replicate 32 0xFF :: byte list, r)) () 32
     = (0, replicate 32 0xFF, ()) \<and>
   length (replicate 32 0xFF :: byte list) = 32 \<and>
   (32 :: word32) \<le> 32 \<and> 32 \<le> length (replicate 32 (0 :: byte)) \<and>
   (32 :: word32) \<le> 40 \<and> 32 \<le> length (replicate 40 (1 :: byte)) \<and>
   (\<exists>keyA keyB secret.
      ecc25519_make_key (\<lambda>(r :: unit) n. (0, map word_of_nat [1..<33], r)) (Some ()) 32 (Some zero_key)
        = (0, Some keyA, Some ()) \<and>
      ecc25519_make_key (\<lambda>(r :: unit) n. (0, replicate 32 0xFF, r)) (Some ()) 32 (Some zero_key)
        = (0, Some keyB, Some ()) \<and>
      length secret = 32 \<and>
      ecc25519_shared_secret (Some keyA) (Some keyB) (Some (replicate 32 0)) (Some 32)
        = Inr (0, Some (secret @ drop 32 (replicate 32 0)), Some 32) \<and>
      ecc25519_shared_secret (Some keyB) (Some keyA) (Some (replicate 40 1)) (Some 40)
        = Inr (0, Some (secret @ drop 32 (replicate 40 1)), Some 32))"
proof -
  have t: "\<exists>keyA keyB secret.
      ecc25519_make_key (\<lambda>(r :: unit) n. (0, map word_of_nat [1..<33], r)) (Some ()) 32 (Some zero_key)
        = (0, Some keyA, Some ()) \<and>
      ecc25519_make_key (\<lambda>(r :: unit) n. (0, replicate 32 0xFF, r)) (Some ()) 32 (Some zero_key)
        = (0, Some keyB, Some ()) \<and>
      length secret = 32 \<and>
      ecc25519_shared_secret (Some keyA) (Some keyB) (Some (replicate 32 0)) (Some 32)
        = Inr (0, Some (secret @ drop 32 (replicate 32 0)), Some 32) \<and>
      ecc25519_shared_secret (Some keyB) (Some keyA) (Some (replicate 40 1)) (Some 40)
        = Inr (0, Some (secret @ drop 32 (replicate 40 1)), Some 32)"
    by (rule shared_secret_agreement [where nA = "map word_of_nat [1..<33]" and nB = "replicate 32 0xFF"])
      (simp_all add: key_wf_def zero_key_def)
  then show ?thesis
    by (simp add: key_wf_def zero_key_def)
qed

end
